theory Spec2Isabelle
  imports Complex_Main "HOL-Library.Multiset"
begin

section \<open>Errors\<close>

text \<open>
  Every exception the modelled Python can raise is a value of this type; a function that
  can raise returns \<open>error + 'a\<close>, with \<open>Inl\<close> for the exception. \<open>RuntimeError\<close> is
  what torch raises for shapes that do not fit and for an index out of range.

  \<open>NonFinite\<close> is not an exception. Numbers are modelled as reals, which have no nan and
  no infinity; where the code computes one (the mean of an empty tensor, the logarithm of
  a number that is not positive) the model stops with this outcome instead of inventing
  a real value.
\<close>

datatype error =
    ZeroDivisionError
  | IndexError
  | ValueError
  | UnboundLocalError
  | AssertionError
  | AttributeError
  | TypeError
  | RuntimeError
  | NonFinite

section \<open>logger.py: the meters\<close>

text \<open>
  Python's \<open>a / b\<close> raises \<open>ZeroDivisionError\<close> when \<open>b\<close> is zero. (For the numpy scalars
  of \<open>MovingAverageMeter\<close> a zero divisor gives inf or nan with a warning instead; the
  model keeps the error branch there too, and the theorems show it is never taken.)
\<close>

definition truediv :: "real \<Rightarrow> real \<Rightarrow> error + real" where
  "truediv a b = (if b = 0 then Inl ZeroDivisionError else Inr (a / b))"

subsection \<open>AverageMeter\<close>

record AverageMeter =
  am_sum :: real
  am_count :: real

definition AverageMeter_reset :: "AverageMeter \<Rightarrow> AverageMeter" where
  "AverageMeter_reset self = self\<lparr>am_sum := 0, am_count := 0\<rparr>"

text \<open>\<open>__init__\<close> only calls \<open>reset\<close> on the new object, which has no other field.\<close>

definition AverageMeter_init :: AverageMeter where
  "AverageMeter_init = \<lparr>am_sum = 0, am_count = 0\<rparr>"

definition AverageMeter_update :: "AverageMeter \<Rightarrow> real \<Rightarrow> real \<Rightarrow> AverageMeter" where
  "AverageMeter_update self val n =
     self\<lparr>am_sum := am_sum self + val, am_count := am_count self + n\<rparr>"

definition AverageMeter_compute :: "AverageMeter \<Rightarrow> error + real" where
  "AverageMeter_compute self = truediv (am_sum self) (max 1 (am_count self))"

subsection \<open>MovingAverageMeter\<close>

record MovingAverageMeter =
  window_size :: int
  vals :: "real list"
  counts :: "real list"
  pointer :: int

text \<open>\<open>np.zeros(window_size)\<close> raises \<open>ValueError\<close> for a negative size.\<close>

definition MovingAverageMeter_init :: "int \<Rightarrow> error + MovingAverageMeter" where
  "MovingAverageMeter_init ws =
     (if ws < 0 then Inl ValueError
      else Inr \<lparr>window_size = ws, vals = replicate (nat ws) 0,
                counts = replicate (nat ws) 0, pointer = 0\<rparr>)"

definition MovingAverageMeter_reset :: "MovingAverageMeter \<Rightarrow> MovingAverageMeter" where
  "MovingAverageMeter_reset self =
     self\<lparr>vals := replicate (length (vals self)) 0,
          counts := replicate (length (counts self)) 0,
          pointer := 0\<rparr>"

text \<open>
  \<open>a[i] = v\<close> on a numpy array: a negative index counts from the end, an index out of
  range raises \<open>IndexError\<close>.
\<close>

definition setitem :: "real list \<Rightarrow> int \<Rightarrow> real \<Rightarrow> error + real list" where
  "setitem a i v =
     (let len = int (length a); j = (if i < 0 then i + len else i)
      in if 0 \<le> j \<and> j < len then Inr (a[nat j := v]) else Inl IndexError)"

definition MovingAverageMeter_update ::
  "MovingAverageMeter \<Rightarrow> real \<Rightarrow> real \<Rightarrow> error + MovingAverageMeter" where
  "MovingAverageMeter_update self val n =
     (case setitem (vals self) (pointer self) val of
        Inl e \<Rightarrow> Inl e
      | Inr vs \<Rightarrow>
          (case setitem (counts self) (pointer self) n of
             Inl e \<Rightarrow> Inl e
           | Inr cs \<Rightarrow>
               if window_size self = 0 then Inl ZeroDivisionError
               else Inr (self\<lparr>vals := vs, counts := cs,
                               pointer := (pointer self + 1) mod window_size self\<rparr>)))"

definition MovingAverageMeter_compute :: "MovingAverageMeter \<Rightarrow> error + real" where
  "MovingAverageMeter_compute self =
     truediv (sum_list (vals self)) (max 1 (sum_list (counts self)))"

text \<open>A sequence of \<open>update(val, n)\<close> calls on one meter, stopping at the first exception.\<close>

fun run_updates ::
  "MovingAverageMeter \<Rightarrow> (real \<times> real) list \<Rightarrow> error + MovingAverageMeter" where
  "run_updates m [] = Inr m"
| "run_updates m (u # us) =
     (case MovingAverageMeter_update m (fst u) (snd u) of
        Inl e \<Rightarrow> Inl e
      | Inr m' \<Rightarrow> run_updates m' us)"


section \<open>Tensors\<close>

text \<open>
  Floating-point numbers are modelled as reals: rounding and overflow are outside the
  model. A vector is a list; a two-dimensional tensor of shape \<open>(B, d)\<close> is the list
  of its \<open>B\<close> rows, a three-dimensional one a list of those. An empty batch therefore
  carries no row width.
\<close>

type_synonym vec = "real list"
type_synonym tensor = "real list list"

fun mapE :: "('a \<Rightarrow> error + 'b) \<Rightarrow> 'a list \<Rightarrow> error + 'b list" where
  "mapE f [] = Inr []"
| "mapE f (x # xs) =
     (case f x of
        Inl e \<Rightarrow> Inl e
      | Inr y \<Rightarrow> (case mapE f xs of Inl e \<Rightarrow> Inl e | Inr ys \<Rightarrow> Inr (y # ys)))"

text \<open>
  An elementwise binary operation with torch's broadcasting: along a dimension the two
  sizes are equal, or one of them is 1 and that operand is repeated.
\<close>

definition bcast :: "(real \<Rightarrow> real \<Rightarrow> real) \<Rightarrow> vec \<Rightarrow> vec \<Rightarrow> error + vec" where
  "bcast f a b =
     (if length a = length b then Inr (map2 f a b)
      else if length a = 1 then Inr (map (f (hd a)) b)
      else if length b = 1 then Inr (map (\<lambda>x. f x (hd b)) a)
      else Inl RuntimeError)"

definition bzip :: "'a list \<Rightarrow> 'b list \<Rightarrow> error + ('a \<times> 'b) list" where
  "bzip A B =
     (if length A = length B then Inr (zip A B)
      else if length A = 1 then Inr (map (Pair (hd A)) B)
      else if length B = 1 then Inr (map (\<lambda>a. (a, hd B)) A)
      else Inl RuntimeError)"

definition tzip :: "(real \<Rightarrow> real \<Rightarrow> real) \<Rightarrow> tensor \<Rightarrow> tensor \<Rightarrow> error + tensor" where
  "tzip f A B =
     (case bzip A B of
        Inl e \<Rightarrow> Inl e
      | Inr ps \<Rightarrow> mapE (\<lambda>(a, b). bcast f a b) ps)"

text \<open>
  The in-place operations \<open>a -= b\<close> and \<open>a += b\<close> keep the shape of \<open>a\<close>: only \<open>b\<close> may
  be repeated.
\<close>

definition bcast_to :: "(real \<Rightarrow> real \<Rightarrow> real) \<Rightarrow> vec \<Rightarrow> vec \<Rightarrow> error + vec" where
  "bcast_to f a b =
     (if length b = length a then Inr (map2 f a b)
      else if length b = 1 then Inr (map (\<lambda>x. f x (hd b)) a)
      else Inl RuntimeError)"

definition tzip_to :: "(real \<Rightarrow> real \<Rightarrow> real) \<Rightarrow> tensor \<Rightarrow> tensor \<Rightarrow> error + tensor" where
  "tzip_to f A B =
     (if length B = length A then mapE (\<lambda>(a, b). bcast_to f a b) (zip A B)
      else if length B = 1 then mapE (\<lambda>a. bcast_to f a (hd B)) A
      else Inl RuntimeError)"

definition tmap :: "(real \<Rightarrow> real) \<Rightarrow> tensor \<Rightarrow> tensor" where
  "tmap f A = map (map f) A"

text \<open>\<open>A.sum(-1, keepdim=True)\<close>\<close>

definition sum_last :: "tensor \<Rightarrow> tensor" where
  "sum_last A = map (\<lambda>r. [sum_list r]) A"

text \<open>\<open>A.sum()\<close> and the mean over all elements\<close>

definition sum_all :: "tensor \<Rightarrow> real" where
  "sum_all A = sum_list (concat A)"

definition mean_all :: "tensor \<Rightarrow> error + real" where
  "mean_all A =
     (if concat A = [] then Inl NonFinite
      else Inr (sum_list (concat A) / real (length (concat A))))"

text \<open>\<open>A.size(-1)\<close>; for an empty batch the value is not used by any row.\<close>

definition size_last :: "tensor \<Rightarrow> nat" where
  "size_last A = (case A of [] \<Rightarrow> 0 | r # _ \<Rightarrow> length r)"

text \<open>\<open>torch.cat([A, B], dim=1)\<close> needs the same number of rows.\<close>

definition cat1 :: "tensor \<Rightarrow> tensor \<Rightarrow> error + tensor" where
  "cat1 A B = (if length A = length B then Inr (map2 (@) A B) else Inl RuntimeError)"

definition relu :: "real \<Rightarrow> real" where
  "relu x = max 0 x"

text \<open>
  \<open>torch.randn_like(mu)\<close>, \<open>torch.rand(B, 1)\<close>: the random source is an explicit function
  from the position in the tensor to the number drawn there.
\<close>

definition randn_like :: "(nat \<Rightarrow> nat \<Rightarrow> real) \<Rightarrow> tensor \<Rightarrow> tensor" where
  "randn_like randn A = map (\<lambda>i. map (randn i) [0..<length (A ! i)]) [0..<length A]"

subsection \<open>nn.Linear\<close>

record Linear =
  in_features :: nat
  weight :: "real list list"
  bias :: "real list"

definition out_features :: "Linear \<Rightarrow> nat" where
  "out_features l = length (bias l)"

definition Linear_row :: "Linear \<Rightarrow> vec \<Rightarrow> error + vec" where
  "Linear_row l x =
     (if length x = in_features l
      then Inr (map2 (\<lambda>w b. sum_list (map2 (*) w x) + b) (weight l) (bias l))
      else Inl RuntimeError)"

text \<open>
  The pattern \<open>lc(F.relu(lb(F.relu(la(x)))))\<close> that the actor and both critic heads
  apply to each row.
\<close>

definition mlp_row :: "Linear \<Rightarrow> Linear \<Rightarrow> Linear \<Rightarrow> vec \<Rightarrow> error + vec" where
  "mlp_row la lb lc x =
     (case Linear_row la x of
        Inl e \<Rightarrow> Inl e
      | Inr h1 \<Rightarrow>
          (case Linear_row lb (map relu h1) of
             Inl e \<Rightarrow> Inl e
           | Inr h2 \<Rightarrow> Linear_row lc (map relu h2)))"

section \<open>SAC.py and DistSAC.py: the policy\<close>

text \<open>
  \<open>gaussian_likelihood\<close> and \<open>apply_squashing_func\<close> are the same text in both files.
\<close>

definition gaussian_likelihood :: "tensor \<Rightarrow> tensor \<Rightarrow> error + tensor" where
  "gaussian_likelihood noise log_std =
     (case tzip (\<lambda>n l. - (1 / 2) * n\<^sup>2 - l) noise log_std of
        Inl e \<Rightarrow> Inl e
      | Inr pre_sum \<Rightarrow>
          Inr (tmap (\<lambda>s. s - (1 / 2) * ln (2 * pi) * real (size_last noise))
                 (sum_last pre_sum)))"

text \<open>
  With \<open>log_pi\<close> given and \<open>pi\<close> absent, \<open>pi.pow(2)\<close> is an attribute access on \<open>None\<close>.
\<close>

definition apply_squashing_func ::
  "tensor \<Rightarrow> tensor option \<Rightarrow> tensor option \<Rightarrow> error + (tensor \<times> tensor option \<times> tensor option)" where
  "apply_squashing_func mu pi_t log_pi =
     (let mu = tmap tanh mu;
          pi_t = map_option (tmap tanh) pi_t
      in case log_pi of
           None \<Rightarrow> Inr (mu, pi_t, None)
         | Some lp \<Rightarrow>
             (case pi_t of
                None \<Rightarrow> Inl AttributeError
              | Some p \<Rightarrow>
                  (case tzip_to (-) lp
                          (sum_last (tmap (\<lambda>a. ln (relu (1 - a\<^sup>2) + 1 / 10 ^ 6)) p)) of
                     Inl e \<Rightarrow> Inl e
                   | Inr lp' \<Rightarrow> Inr (mu, pi_t, Some lp'))))"

record Actor =
  log_std_min :: real
  log_std_max :: real
  a_l1 :: Linear
  a_l2 :: Linear
  a_l3 :: Linear

text \<open>
  \<open>t.chunk(2, dim=-1)\<close> on rows of width \<open>n\<close>: pieces of width \<open>ceil(n/2)\<close>; a width of 1
  gives a single piece, and unpacking it into two names raises \<open>ValueError\<close>.
\<close>

definition chunk2 :: "nat \<Rightarrow> tensor \<Rightarrow> error + (tensor \<times> tensor)" where
  "chunk2 n A =
     (if n = 1 then Inl ValueError
      else Inr (map (take ((n + 1) div 2)) A, map (drop ((n + 1) div 2)) A))"

text \<open>
  \<open>Actor.forward\<close> from the output of \<open>self.l3\<close> on: the lines from \<open>chunk\<close> to \<open>return\<close>
  are the same in both files. The local \<open>noise\<close> is bound only in the \<open>compute_pi\<close>
  branch; reading it unbound raises \<open>UnboundLocalError\<close>.
\<close>

definition forward_head ::
  "'a Actor_scheme \<Rightarrow> (nat \<Rightarrow> nat \<Rightarrow> real) \<Rightarrow> tensor \<Rightarrow> bool \<Rightarrow> bool \<Rightarrow>
     error + (tensor \<times> tensor option \<times> tensor option)" where
  "forward_head self randn out compute_pi compute_log_pi =
     (case chunk2 (out_features (a_l3 self)) out of
        Inl e \<Rightarrow> Inl e
      | Inr (mu, log_std) \<Rightarrow>
          (let log_std = tmap tanh log_std;
               log_std = tmap (\<lambda>l. log_std_min self +
                            (1 / 2) * (log_std_max self - log_std_min self) * (l + 1)) log_std
           in case (if compute_pi
                    then (let std = tmap exp log_std;
                              noise = randn_like randn mu
                          in case tzip (*) noise std of
                               Inl e \<Rightarrow> Inl e
                             | Inr ns \<Rightarrow>
                                 (case tzip (+) mu ns of
                                    Inl e \<Rightarrow> Inl e
                                  | Inr p \<Rightarrow> Inr (Some noise, Some p)))
                    else Inr (None, None)) of
                Inl e \<Rightarrow> Inl e
              | Inr (noise, pi_t) \<Rightarrow>
                  (case (if compute_log_pi
                         then (case noise of
                                 None \<Rightarrow> Inl UnboundLocalError
                               | Some nz \<Rightarrow> map_sum id Some (gaussian_likelihood nz log_std))
                         else Inr None) of
                     Inl e \<Rightarrow> Inl e
                   | Inr log_pi \<Rightarrow> apply_squashing_func mu pi_t log_pi)))"

text \<open>\<open>Actor.forward\<close> of SAC.py\<close>

definition Actor_forward ::
  "Actor \<Rightarrow> (nat \<Rightarrow> nat \<Rightarrow> real) \<Rightarrow> tensor \<Rightarrow> bool \<Rightarrow> bool \<Rightarrow>
     error + (tensor \<times> tensor option \<times> tensor option)" where
  "Actor_forward self randn x compute_pi compute_log_pi =
     (case mapE (mlp_row (a_l1 self) (a_l2 self) (a_l3 self)) x of
        Inl e \<Rightarrow> Inl e
      | Inr out \<Rightarrow> forward_head self randn out compute_pi compute_log_pi)"


text \<open>\<open>Critic.forward\<close> of SAC.py\<close>

record Critic =
  c_l1 :: Linear
  c_l2 :: Linear
  c_l3 :: Linear
  c_l4 :: Linear
  c_l5 :: Linear
  c_l6 :: Linear

definition Critic_heads :: "'a Critic_scheme \<Rightarrow> tensor \<Rightarrow> error + (tensor \<times> tensor)" where
  "Critic_heads self xu =
     (case mapE (mlp_row (c_l1 self) (c_l2 self) (c_l3 self)) xu of
        Inl e \<Rightarrow> Inl e
      | Inr x1 \<Rightarrow>
          (case mapE (mlp_row (c_l4 self) (c_l5 self) (c_l6 self)) xu of
             Inl e \<Rightarrow> Inl e
           | Inr x2 \<Rightarrow> Inr (x1, x2)))"

definition Critic_forward :: "Critic \<Rightarrow> tensor \<Rightarrow> tensor \<Rightarrow> error + (tensor \<times> tensor)" where
  "Critic_forward self x u =
     (case cat1 x u of
        Inl e \<Rightarrow> Inl e
      | Inr xu \<Rightarrow> Critic_heads self xu)"

text \<open>
  The classes \<open>Actor\<close> and \<open>Critic\<close> of DistSAC.py take the goal \<open>x_g\<close> as a second
  input and carry the flag \<open>only_pos\<close>; they are named \<open>DistActor\<close> and \<open>DistCritic\<close>
  here.
\<close>

record DistActor = Actor +
  actor_only_pos :: bool

record DistCritic = Critic +
  critic_only_pos :: bool

definition DistActor_forward ::
  "DistActor \<Rightarrow> (nat \<Rightarrow> nat \<Rightarrow> real) \<Rightarrow> tensor \<Rightarrow> tensor \<Rightarrow> bool \<Rightarrow> bool \<Rightarrow>
     error + (tensor \<times> tensor option \<times> tensor option)" where
  "DistActor_forward self randn x x_g compute_pi compute_log_pi =
     (let x_g = (if actor_only_pos self then map (take 2) x_g else x_g)
      in case cat1 x x_g of
           Inl e \<Rightarrow> Inl e
         | Inr x \<Rightarrow>
             (case mapE (mlp_row (a_l1 self) (a_l2 self) (a_l3 self)) x of
                Inl e \<Rightarrow> Inl e
              | Inr out \<Rightarrow> forward_head self randn out compute_pi compute_log_pi))"

definition DistCritic_forward ::
  "DistCritic \<Rightarrow> tensor \<Rightarrow> tensor \<Rightarrow> tensor \<Rightarrow> error + (tensor \<times> tensor)" where
  "DistCritic_forward self x x_g u =
     (let x_g = (if critic_only_pos self then map (take 2) x_g else x_g)
      in case cat1 x x_g of
           Inl e \<Rightarrow> Inl e
         | Inr xg \<Rightarrow>
             (case cat1 xg u of
                Inl e \<Rightarrow> Inl e
              | Inr xu \<Rightarrow> Critic_heads self xu))"

definition ring_inv :: "nat \<Rightarrow> (real \<times> real) list \<Rightarrow> MovingAverageMeter \<Rightarrow> bool" where
  "ring_inv w us m \<longleftrightarrow>
     window_size m = int w \<and> length (vals m) = w \<and> length (counts m) = w \<and>
     pointer m = int (length us mod w) \<and>
     (\<forall>i < length us. length us \<le> i + w \<longrightarrow>
        vals m ! (i mod w) = fst (us ! i) \<and> counts m ! (i mod w) = snd (us ! i)) \<and>
     (\<forall>j < w. length us \<le> j \<longrightarrow> vals m ! j = 0 \<and> counts m ! j = 0)"

definition compute_after :: "int \<Rightarrow> (real \<times> real) list \<Rightarrow> error + real" where
  "compute_after ws us =
     (case MovingAverageMeter_init ws of
        Inl e \<Rightarrow> Inl e
      | Inr m0 \<Rightarrow>
          (case run_updates m0 us of
             Inl e \<Rightarrow> Inl e
           | Inr m \<Rightarrow> MovingAverageMeter_compute m))"

text \<open>
  The quantities of one batch row \<open>b\<close> as the specification words them, from the row
  \<open>o_b\<close> that \<open>self.l3\<close> returns: the noise drawn for the row, the rescaled \<open>log_std\<close>,
  the action before squashing \<open>mu + noise * exp(log_std)\<close>, and the closed form of the
  log-probability.
\<close>

definition row_noise :: "(nat \<Rightarrow> nat \<Rightarrow> real) \<Rightarrow> nat \<Rightarrow> nat \<Rightarrow> vec" where
  "row_noise randn D b = map (randn b) [0..<D]"

definition row_log_std :: "'a Actor_scheme \<Rightarrow> nat \<Rightarrow> vec \<Rightarrow> vec" where
  "row_log_std self D o_b =
     map (\<lambda>l. log_std_min self + (1 / 2) * (log_std_max self - log_std_min self) * (tanh l + 1))
       (drop D o_b)"

definition row_pre_squash ::
  "'a Actor_scheme \<Rightarrow> (nat \<Rightarrow> nat \<Rightarrow> real) \<Rightarrow> nat \<Rightarrow> nat \<Rightarrow> vec \<Rightarrow> vec" where
  "row_pre_squash self randn D b o_b =
     map2 (+) (take D o_b) (map2 (*) (row_noise randn D b) (map exp (row_log_std self D o_b)))"

definition log_prob_closed_form :: "nat \<Rightarrow> vec \<Rightarrow> vec \<Rightarrow> vec \<Rightarrow> real" where
  "log_prob_closed_form D noise log_std pre_squash =
     sum_list (map2 (\<lambda>n l. - (1 / 2) * n\<^sup>2 - l) noise log_std)
       - (1 / 2) * real D * ln (2 * pi)
       - sum_list (map (\<lambda>u. ln (1 - (tanh u)\<^sup>2 + 1 / 10 ^ 6)) pre_squash)"

definition row_log_prob ::
  "'a Actor_scheme \<Rightarrow> (nat \<Rightarrow> nat \<Rightarrow> real) \<Rightarrow> nat \<Rightarrow> nat \<Rightarrow> vec \<Rightarrow> real" where
  "row_log_prob self randn D b o_b =
     log_prob_closed_form D (row_noise randn D b) (row_log_std self D o_b)
       (row_pre_squash self randn D b o_b)"

text \<open>A one-dimensional policy used to instantiate the theorems.\<close>

definition lin1 :: "real \<Rightarrow> Linear" where
  "lin1 w = \<lparr>in_features = 1, weight = [[w]], bias = [0]\<rparr>"

definition actor_ex :: Actor where
  "actor_ex = \<lparr>log_std_min = - 20, log_std_max = 2, a_l1 = lin1 1, a_l2 = lin1 1,
                a_l3 = \<lparr>in_features = 1, weight = [[1], [0]], bias = [0, 0]\<rparr>\<rparr>"

section \<open>DistSAC.py: the distance estimator\<close>

text \<open>
  The fields that \<open>SAC\<close> and \<open>DistSAC\<close> share. An optimizer is represented by its state
  (for Adam: the step count and the moment estimates), of an abstract type. The \<open>device\<close>
  is not modelled.
\<close>

record ('a, 'c, 'o) agent =
  actor :: 'a
  actor_optimizer :: 'o
  critic :: 'c
  critic_target :: 'c
  critic_optimizer :: 'o
  log_alpha :: real
  log_alpha_optimizer :: 'o

type_synonym 'o SAC = "(Actor, Critic, 'o) agent"

record 'o DistSAC = "(DistActor, DistCritic, 'o) agent" +
  num_candidates :: int
  use_l2 :: bool

text \<open>The property \<open>alpha\<close>\<close>

definition alpha :: "('a, 'c, 'o, 'z) agent_scheme \<Rightarrow> real" where
  "alpha self = exp (log_alpha self)"

text \<open>
  \<open>t.view(n, d)\<close> and \<open>t.view(-1, d)\<close>, from the elements of \<open>t\<close> in row-major order.
\<close>

definition view_rows :: "nat \<Rightarrow> nat \<Rightarrow> real list \<Rightarrow> error + tensor" where
  "view_rows n d flat =
     (if length flat = n * d then Inr (map (\<lambda>i. take d (drop (i * d) flat)) [0..<n])
      else Inl RuntimeError)"

definition view_m1 :: "nat \<Rightarrow> real list \<Rightarrow> error + tensor" where
  "view_m1 d flat =
     (if d = 0 \<or> length flat mod d \<noteq> 0 then Inl RuntimeError
      else view_rows (length flat div d) d flat)"

text \<open>Elementwise operation on three-dimensional tensors, with broadcasting.\<close>

definition tzip3 ::
  "(real \<Rightarrow> real \<Rightarrow> real) \<Rightarrow> tensor list \<Rightarrow> tensor list \<Rightarrow> error + tensor list" where
  "tzip3 f A B =
     (case bzip A B of
        Inl e \<Rightarrow> Inl e
      | Inr ps \<Rightarrow> mapE (\<lambda>(a, b). tzip f a b) ps)"

text \<open>
  \<open>row.topk(k, largest=False)\<close> on one row: the \<open>k\<close> smallest values in ascending order
  and their positions. torch does not say which of several equal values it selects, nor
  in which order it lists them. The choice
  is the parameter \<open>tie\<close>: among the positions that hold equal values of \<open>row\<close>, the one
  with the smaller \<open>tie row i\<close> comes first (and the smaller position when these ranks
  are equal too). Every selection that lists the \<open>k\<close> smallest values in ascending order
  is obtained for some \<open>tie\<close>; \<open>first_pos\<close> prefers the smaller position.
\<close>

definition topk_row :: "(vec \<Rightarrow> nat \<Rightarrow> nat) \<Rightarrow> nat \<Rightarrow> vec \<Rightarrow> error + (vec \<times> nat list)" where
  "topk_row tie k row =
     (if length row < k then Inl RuntimeError
      else (let ranked = sort_key (\<lambda>p. tie row (snd p)) (zip row [0..<length row]);
                sel = take k (sort_key fst ranked)
            in Inr (map fst sel, map snd sel)))"

definition first_pos :: "vec \<Rightarrow> nat \<Rightarrow> nat" where
  "first_pos row i = i"

text \<open>\<open>t.mean(dim=1, keepdim=True)\<close> on one row\<close>

definition mean_row :: "vec \<Rightarrow> error + vec" where
  "mean_row r = (if r = [] then Inl NonFinite else Inr [sum_list r / real (length r)])"

text \<open>
  \<open>DistSAC.get_distance\<close>. With no goal row at all the width \<open>state_dim\<close> is not
  represented; every positive width gives the same empty tensors there. The actor is
  called without sampling, so no random number is drawn. \<open>tie\<close> is the choice of
  \<open>topk\<close> among equal distances.
\<close>

definition get_distance ::
  "(vec \<Rightarrow> nat \<Rightarrow> nat) \<Rightarrow> ('o, 'z) DistSAC_scheme \<Rightarrow> tensor \<Rightarrow> tensor list \<Rightarrow>
     error + (tensor \<times> nat list list)" where
  "get_distance tie self state repeated_ctx =
     (let batch_size = length repeated_ctx;
          num_goals = (case repeated_ctx of [] \<Rightarrow> 0 | c # _ \<Rightarrow> length c);
          state_dim = (case concat repeated_ctx of [] \<Rightarrow> 1 | g # _ \<Rightarrow> length g);
          repeated_state = map (replicate num_goals) state
      in case (if use_l2 self
               then (case tzip3 (-) (map (map (take 2)) repeated_state)
                             (map (map (take 2)) repeated_ctx) of
                       Inl e \<Rightarrow> Inl e
                     | Inr diff \<Rightarrow>
                         Inr (map (map (\<lambda>d. sqrt (sum_list (map (\<lambda>x. x\<^sup>2) d)))) diff))
               else (case view_m1 state_dim (concat (concat repeated_state)) of
                       Inl e \<Rightarrow> Inl e
                     | Inr rs \<Rightarrow>
                   (case view_m1 state_dim (concat (concat repeated_ctx)) of
                       Inl e \<Rightarrow> Inl e
                     | Inr rc \<Rightarrow>
                   (case DistActor_forward (actor self) (\<lambda>i j. 0) rs rc False False of
                       Inl e \<Rightarrow> Inl e
                     | Inr (repeated_action, _, _) \<Rightarrow>
                   (case DistCritic_forward (critic self) rs rc repeated_action of
                       Inl e \<Rightarrow> Inl e
                     | Inr (q1, q2) \<Rightarrow>
                   (case tzip min q1 q2 of
                       Inl e \<Rightarrow> Inl e
                     | Inr m \<Rightarrow>
                         view_rows batch_size num_goals (concat (tmap uminus m)))))))) of
           Inl e \<Rightarrow> Inl e
         | Inr dist_t \<Rightarrow>
             (let k = min (num_candidates self) (int num_goals)
              in if k < 0 then Inl RuntimeError
                 else (case mapE (topk_row tie (nat k)) dist_t of
                         Inl e \<Rightarrow> Inl e
                       | Inr sel \<Rightarrow>
                           (case mapE mean_row (map fst sel) of
                              Inl e \<Rightarrow> Inl e
                            | Inr dist_m \<Rightarrow> Inr (dist_m, map snd sel)))))"

text \<open>\<open>DistSAC.get_distance_numpy\<close>: one state and its candidate goals\<close>

definition get_distance_numpy ::
  "(vec \<Rightarrow> nat \<Rightarrow> nat) \<Rightarrow> ('o, 'z) DistSAC_scheme \<Rightarrow> vec \<Rightarrow> tensor \<Rightarrow>
     error + (tensor \<times> nat list list)" where
  "get_distance_numpy tie self state ctx = get_distance tie self [state] [ctx]"

text \<open>
  The computation of \<open>get_distance\<close> in critic mode on a batch of one state with one
  candidate goal; the lemmas relate the batched computation to it.
\<close>

definition critic_dist :: "('o, 'z) DistSAC_scheme \<Rightarrow> vec \<Rightarrow> vec \<Rightarrow> error + real" where
  "critic_dist self s g =
     (case DistActor_forward (actor self) (\<lambda>i j. 0) [s] [g] False False of
        Inl e \<Rightarrow> Inl e
      | Inr (mu, _, _) \<Rightarrow>
          (case DistCritic_forward (critic self) [s] [g] mu of
             Inl e \<Rightarrow> Inl e
           | Inr (q1, q2) \<Rightarrow>
               if length (concat q1) = 1 \<and> length (concat q2) = 1
               then Inr (- min (hd (concat q1)) (hd (concat q2)))
               else Inl RuntimeError))"

text \<open>
  The rows that the networks see for one pair of state and goal: the actor's input, its
  mean action, the critic's input and the two heads' values.
\<close>

definition act_in :: "DistActor \<Rightarrow> vec \<Rightarrow> vec \<Rightarrow> vec" where
  "act_in A s g = s @ (if actor_only_pos A then take 2 g else g)"

definition act_mu :: "DistActor \<Rightarrow> vec \<Rightarrow> vec \<Rightarrow> vec" where
  "act_mu A s g =
     map tanh (take ((out_features (a_l3 A) + 1) div 2)
       (projr (mlp_row (a_l1 A) (a_l2 A) (a_l3 A) (act_in A s g))))"

definition cri_in :: "DistCritic \<Rightarrow> vec \<Rightarrow> vec \<Rightarrow> vec \<Rightarrow> vec" where
  "cri_in C s g u = (s @ (if critic_only_pos C then take 2 g else g)) @ u"

definition q1_of :: "('o, 'z) DistSAC_scheme \<Rightarrow> vec \<Rightarrow> vec \<Rightarrow> real" where
  "q1_of self s g =
     hd (projr (mlp_row (c_l1 (critic self)) (c_l2 (critic self)) (c_l3 (critic self))
                  (cri_in (critic self) s g (act_mu (actor self) s g))))"

definition q2_of :: "('o, 'z) DistSAC_scheme \<Rightarrow> vec \<Rightarrow> vec \<Rightarrow> real" where
  "q2_of self s g =
     hd (projr (mlp_row (c_l4 (critic self)) (c_l5 (critic self)) (c_l6 (critic self))
                  (cri_in (critic self) s g (act_mu (actor self) s g))))"

text \<open>
  A distance estimator on one-dimensional states and actions, used to instantiate the
  theorems. The actor's mean is \<open>relu(relu(state + goal))\<close>; the first critic head returns
  \<open>relu(relu(state + goal + action)) + 2\<close>, the second \<open>relu(relu(state + goal + action)) + 3\<close>.
\<close>

definition dist_actor_ex :: DistActor where
  "dist_actor_ex = \<lparr>log_std_min = - 20, log_std_max = 2,
       a_l1 = \<lparr>in_features = 2, weight = [[1, 1]], bias = [0]\<rparr>, a_l2 = lin1 1,
       a_l3 = \<lparr>in_features = 1, weight = [[1], [0]], bias = [0, 0]\<rparr>,
       actor_only_pos = False\<rparr>"

definition dist_critic_ex :: DistCritic where
  "dist_critic_ex = \<lparr>
       c_l1 = \<lparr>in_features = 3, weight = [[1, 1, 1]], bias = [0]\<rparr>, c_l2 = lin1 1,
       c_l3 = \<lparr>in_features = 1, weight = [[1]], bias = [2]\<rparr>,
       c_l4 = \<lparr>in_features = 3, weight = [[1, 1, 1]], bias = [0]\<rparr>, c_l5 = lin1 1,
       c_l6 = \<lparr>in_features = 1, weight = [[1]], bias = [3]\<rparr>,
       critic_only_pos = False\<rparr>"

definition dist_ex :: "unit DistSAC" where
  "dist_ex = \<lparr>actor = dist_actor_ex, actor_optimizer = (),
       critic = dist_critic_ex, critic_target = dist_critic_ex, critic_optimizer = (),
       log_alpha = 0, log_alpha_optimizer = (), num_candidates = 1, use_l2 = False\<rparr>"

section \<open>SAC.py and DistSAC.py: training\<close>

subsection \<open>Collaborators\<close>

text \<open>
  Modelled from the spec: the metrics collector \<open>L\<close>, whose class is not among the
  sources. Its contract is \<open>log(key: string, value: number, step: int, n: int = 1)\<close>.
  The collector is represented by the list of the calls it has received, each with the
  values bound to the four parameters.
\<close>

record log_call =
  lc_key :: string
  lc_value :: real
  lc_step :: int
  lc_n :: int

definition L_log :: "log_call list \<Rightarrow> string \<Rightarrow> real \<Rightarrow> int \<Rightarrow> int \<Rightarrow> log_call list" where
  "L_log L k v st cnt = L @ [\<lparr>lc_key = k, lc_value = v, lc_step = st, lc_n = cnt\<rparr>]"

text \<open>
  \<open>torch.optim.Adam\<close> is library code. The sequence \<open>zero_grad(); loss.backward();
  step()\<close> on an optimizer is an unspecified function of the optimizer's state, the
  current value of the parameters it was built for, and the loss as a function of these
  parameters (which determines the gradient); it returns the new state and the new
  parameters. Tensors computed under \<open>torch.no_grad()\<close> or detached are constants of
  that function.
\<close>

record ('a, 'c, 'o) optim =
  opt_actor :: "'o \<Rightarrow> 'a \<Rightarrow> ('a \<Rightarrow> error + real) \<Rightarrow> 'o \<times> 'a"
  opt_critic :: "'o \<Rightarrow> 'c \<Rightarrow> ('c \<Rightarrow> error + real) \<Rightarrow> 'o \<times> 'c"
  opt_alpha :: "'o \<Rightarrow> real \<Rightarrow> (real \<Rightarrow> error + real) \<Rightarrow> 'o \<times> real"

text \<open>
  Modelled from the spec: \<open>utils.soft_update_params(net, target_net, tau)\<close>, whose module
  is not among the sources: \<open>target_param = tau * online_param + (1 - tau) * target_param\<close>,
  elementwise, for every critic parameter tensor. The two critics are built with the same
  dimensions, so each pair of tensors has the same shape.
\<close>

definition soft_vec :: "real \<Rightarrow> vec \<Rightarrow> vec \<Rightarrow> vec" where
  "soft_vec tau p tp = map2 (\<lambda>x y. tau * x + (1 - tau) * y) p tp"

definition soft_linear :: "real \<Rightarrow> Linear \<Rightarrow> Linear \<Rightarrow> Linear" where
  "soft_linear tau l lt =
     lt\<lparr>weight := map2 (soft_vec tau) (weight l) (weight lt),
        bias := soft_vec tau (bias l) (bias lt)\<rparr>"

definition soft_update_params :: "'z Critic_scheme \<Rightarrow> 'z Critic_scheme \<Rightarrow> real \<Rightarrow> 'z Critic_scheme" where
  "soft_update_params net target_net tau =
     target_net\<lparr>c_l1 := soft_linear tau (c_l1 net) (c_l1 target_net),
                c_l2 := soft_linear tau (c_l2 net) (c_l2 target_net),
                c_l3 := soft_linear tau (c_l3 net) (c_l3 target_net),
                c_l4 := soft_linear tau (c_l4 net) (c_l4 target_net),
                c_l5 := soft_linear tau (c_l5 net) (c_l5 target_net),
                c_l6 := soft_linear tau (c_l6 net) (c_l6 target_net)\<rparr>"

text \<open>\<open>F.mse_loss(input, target)\<close>: the mean of the squared differences\<close>

definition mse_loss :: "tensor \<Rightarrow> tensor \<Rightarrow> error + real" where
  "mse_loss a b =
     (case tzip (\<lambda>x y. (x - y)\<^sup>2) a b of
        Inl e \<Rightarrow> Inl e
      | Inr sq \<Rightarrow> mean_all sq)"

text \<open>\<open>torch.FloatTensor(a).view(-1, 1)\<close>: the elements of \<open>a\<close> as a column\<close>

definition column :: "real list \<Rightarrow> tensor" where
  "column a = map (\<lambda>x. [x]) a"

subsection \<open>SAC\<close>

text \<open>
  \<open>SAC.__init__\<close>. The freshly initialised networks are arguments (their weights are
  drawn at random); \<open>load_state_dict\<close> then copies the critic's parameters into the
  target critic, which was built with the same dimensions. \<open>np.log\<close> of a number that is
  not positive is nan or an infinity.
\<close>

definition SAC_init ::
  "Actor \<Rightarrow> Critic \<Rightarrow> Critic \<Rightarrow> 'o \<Rightarrow> 'o \<Rightarrow> 'o \<Rightarrow> real \<Rightarrow> int \<Rightarrow> error + 'o SAC" where
  "SAC_init actor0 critic0 critic_target0 oa oc ol initial_temperature ctx_size =
     (if ctx_size \<noteq> 0 then Inl AssertionError
      else if initial_temperature \<le> 0 then Inl NonFinite
      else Inr \<lparr>actor = actor0, actor_optimizer = oa,
                critic = critic0, critic_target = critic0, critic_optimizer = oc,
                log_alpha = ln initial_temperature, log_alpha_optimizer = ol\<rparr>)"

text \<open>
  The critic loss of \<open>fit_critic\<close> as a function of the critic's parameters; \<open>target_Q\<close>
  is computed under \<open>torch.no_grad()\<close>.
\<close>

definition critic_loss_fn :: "tensor \<Rightarrow> tensor \<Rightarrow> tensor \<Rightarrow> Critic \<Rightarrow> error + real" where
  "critic_loss_fn state action target_Q c =
     (case Critic_forward c state action of
        Inl e \<Rightarrow> Inl e
      | Inr (current_Q1, current_Q2) \<Rightarrow>
          (case mse_loss current_Q1 target_Q of
             Inl e \<Rightarrow> Inl e
           | Inr m1 \<Rightarrow>
               (case mse_loss current_Q2 target_Q of
                  Inl e \<Rightarrow> Inl e
                | Inr m2 \<Rightarrow> Inr (m1 + m2))))"

text \<open>
  \<open>target_V\<close> and \<open>target_Q\<close> of \<open>fit_critic\<close>; \<open>nd\<close> is the factor of
  \<open>discount * target_V\<close>: the variable \<open>done\<close> in SAC.py (which holds \<open>1 - done\<close> of the
  replay buffer), and \<open>1 - done\<close> in DistSAC.py.
\<close>

definition target_Q_of ::
  "real \<Rightarrow> tensor \<Rightarrow> tensor \<Rightarrow> tensor \<Rightarrow> tensor \<Rightarrow> tensor \<Rightarrow> real \<Rightarrow> error + tensor" where
  "target_Q_of al target_Q1 target_Q2 log_pi reward nd discount =
     (case tzip min target_Q1 target_Q2 of
        Inl e \<Rightarrow> Inl e
      | Inr mn \<Rightarrow>
          (case tzip (-) mn (tmap (\<lambda>l. al * l) log_pi) of
             Inl e \<Rightarrow> Inl e
           | Inr target_V \<Rightarrow>
               (case tzip (*) (tmap (\<lambda>x. x * discount) nd) target_V of
                  Inl e \<Rightarrow> Inl e
                | Inr dv \<Rightarrow> tzip (+) reward dv)))"

definition SAC_fit_critic ::
  "(Actor, Critic, 'o) optim \<Rightarrow> 'o SAC \<Rightarrow> (nat \<Rightarrow> nat \<Rightarrow> real) \<Rightarrow>
     tensor \<Rightarrow> tensor \<Rightarrow> tensor \<Rightarrow> tensor \<Rightarrow> tensor \<Rightarrow> real \<Rightarrow> int \<Rightarrow> log_call list \<Rightarrow>
     error + ('o SAC \<times> log_call list)" where
  "SAC_fit_critic opt self randn state action reward next_state done discount step L =
     (case Actor_forward (actor self) randn next_state True True of
        Inl e \<Rightarrow> Inl e
      | Inr (_, None, _) \<Rightarrow> Inl TypeError
      | Inr (_, Some policy_action, None) \<Rightarrow> Inl TypeError
      | Inr (_, Some policy_action, Some log_pi) \<Rightarrow>
     (case Critic_forward (critic_target self) next_state policy_action of
        Inl e \<Rightarrow> Inl e
      | Inr (target_Q1, target_Q2) \<Rightarrow>
     (case target_Q_of (alpha self) target_Q1 target_Q2 log_pi reward done discount of
        Inl e \<Rightarrow> Inl e
      | Inr target_Q \<Rightarrow>
     (case Critic_forward (critic self) state action of
        Inl e \<Rightarrow> Inl e
      | Inr (current_Q1, current_Q2) \<Rightarrow>
     (case critic_loss_fn state action target_Q (critic self) of
        Inl e \<Rightarrow> Inl e
      | Inr critic_loss \<Rightarrow>
          (let L = L_log L ''train/critic_loss'' (critic_loss * real (length current_Q1))
                     step (int (length current_Q1));
               (oc, c) = opt_critic opt (critic_optimizer self) (critic self)
                           (critic_loss_fn state action target_Q)
           in Inr (self\<lparr>critic := c, critic_optimizer := oc\<rparr>, L)))))))"

text \<open>
  The actor loss of \<open>fit_actor\<close> as a function of the actor's parameters, for the noise
  drawn in this call; it also returns \<open>log_pi\<close>, which the temperature loss uses.
\<close>

definition actor_loss_fn ::
  "real \<Rightarrow> Critic \<Rightarrow> (nat \<Rightarrow> nat \<Rightarrow> real) \<Rightarrow> tensor \<Rightarrow> Actor \<Rightarrow> error + (real \<times> tensor)" where
  "actor_loss_fn al c randn state a =
     (case Actor_forward a randn state True True of
        Inl e \<Rightarrow> Inl e
      | Inr (_, None, _) \<Rightarrow> Inl TypeError
      | Inr (_, Some pi_t, None) \<Rightarrow> Inl TypeError
      | Inr (_, Some pi_t, Some log_pi) \<Rightarrow>
     (case Critic_forward c state pi_t of
        Inl e \<Rightarrow> Inl e
      | Inr (actor_Q1, actor_Q2) \<Rightarrow>
     (case tzip min actor_Q1 actor_Q2 of
        Inl e \<Rightarrow> Inl e
      | Inr actor_Q \<Rightarrow>
     (case tzip (-) (tmap (\<lambda>l. al * l) log_pi) actor_Q of
        Inl e \<Rightarrow> Inl e
      | Inr t \<Rightarrow> map_sum id (\<lambda>m. (m, log_pi)) (mean_all t)))))"

text \<open>The temperature loss as a function of \<open>log_alpha\<close>; \<open>log_pi\<close> is detached.\<close>

definition alpha_loss_fn :: "tensor \<Rightarrow> real \<Rightarrow> real \<Rightarrow> error + real" where
  "alpha_loss_fn log_pi target_entropy la =
     mean_all (tmap (\<lambda>l. exp la * (- l - target_entropy)) log_pi)"

definition SAC_fit_actor ::
  "(Actor, Critic, 'o) optim \<Rightarrow> 'o SAC \<Rightarrow> (nat \<Rightarrow> nat \<Rightarrow> real) \<Rightarrow>
     tensor \<Rightarrow> real option \<Rightarrow> int \<Rightarrow> log_call list \<Rightarrow>
     error + ('o SAC \<times> log_call list)" where
  "SAC_fit_actor opt self randn state target_entropy step L =
     (case actor_loss_fn (alpha self) (critic self) randn state (actor self) of
        Inl e \<Rightarrow> Inl e
      | Inr (actor_loss, log_pi) \<Rightarrow>
          (let L = L_log L ''train/actor_loss'' (actor_loss * real (length state))
                     step (int (length state));
               (oa, a) = opt_actor opt (actor_optimizer self) (actor self)
                           (\<lambda>a. map_sum id fst
                                  (actor_loss_fn (alpha self) (critic self) randn state a));
               self = self\<lparr>actor := a, actor_optimizer := oa\<rparr>
           in case target_entropy of
                None \<Rightarrow> Inr (self, L)
              | Some te \<Rightarrow>
                  (case alpha_loss_fn log_pi te (log_alpha self) of
                     Inl e \<Rightarrow> Inl e
                   | Inr alpha_loss \<Rightarrow>
                       (let (ol, la) = opt_alpha opt (log_alpha_optimizer self)
                                         (log_alpha self) (alpha_loss_fn log_pi te)
                        in Inr (self\<lparr>log_alpha := la, log_alpha_optimizer := ol\<rparr>, L)))))"

text \<open>
  \<open>SAC.train\<close>. The argument \<open>batch\<close> is what \<open>replay_buffer.sample(batch_size)\<close>
  returned; \<open>randn_c\<close> and \<open>randn_a\<close> are the noise drawn by the actor in \<open>fit_critic\<close>
  and in \<open>fit_actor\<close>, \<open>tie\<close> is the choice of \<open>topk\<close> among equal distances in
  \<open>dist_policy.get_distance\<close>. \<open>dist_threshold\<close> is not used by the code.
\<close>

definition SAC_train ::
  "(Actor, Critic, 'o) optim \<Rightarrow> 'o SAC \<Rightarrow>
     tensor \<times> tensor \<times> real list \<times> tensor \<times> real list \<Rightarrow>
     (nat \<Rightarrow> nat \<Rightarrow> real) \<Rightarrow> (nat \<Rightarrow> nat \<Rightarrow> real) \<Rightarrow> int \<Rightarrow>
     (vec \<Rightarrow> nat \<Rightarrow> nat) \<Rightarrow> ('p, 'z) DistSAC_scheme \<Rightarrow>
     log_call list \<Rightarrow> real \<Rightarrow> real \<Rightarrow> int \<Rightarrow> real option \<Rightarrow> real \<Rightarrow>
     error + ('o SAC \<times> log_call list)" where
  "SAC_train opt self batch randn_c randn_a step tie dist_policy L discount tau policy_freq
       target_entropy expl_coef =
     (case batch of (state, action, reward, next_state, done) \<Rightarrow>
      (let reward = column reward;
           done = column (map (\<lambda>d. 1 - d) done)
       in case (if expl_coef > 0
                then (let ctx = map (\<lambda>s. [map (\<lambda>x. 0) s]) state
                      in case get_distance tie dist_policy state ctx of
                           Inl e \<Rightarrow> Inl e
                         | Inr (dist_t, _) \<Rightarrow>
                             (let expl_bonus = tmap (\<lambda>x. x * expl_coef) dist_t;
                                  L = L_log L ''train/expl_bonus'' (sum_all expl_bonus) step
                                        (int (length expl_bonus))
                              in case tzip_to (+) reward expl_bonus of
                                   Inl e \<Rightarrow> Inl e
                                 | Inr reward \<Rightarrow> Inr (reward, L)))
                else Inr (reward, L)) of
            Inl e \<Rightarrow> Inl e
          | Inr (reward, L) \<Rightarrow>
              (let L = L_log L ''train/batch_reward'' (sum_all reward)
                         (int (length reward)) step
               in case SAC_fit_critic opt self randn_c state action reward next_state done
                         discount step L of
                    Inl e \<Rightarrow> Inl e
                  | Inr (self, L) \<Rightarrow>
                      if policy_freq = 0 then Inl ZeroDivisionError
                      else if step mod policy_freq = 0
                      then (case SAC_fit_actor opt self randn_a state target_entropy step L of
                              Inl e \<Rightarrow> Inl e
                            | Inr (self, L) \<Rightarrow>
                                Inr (self\<lparr>critic_target :=
                                       soft_update_params (critic self) (critic_target self) tau\<rparr>,
                                     L))
                      else Inr (self, L))))"

text \<open>
  \<open>SAC.load\<close>: the two parameter sets read from the files are arguments.
  \<open>load_state_dict\<close> raises when a loaded tensor does not have the shape of the
  parameter it replaces.
\<close>

definition same_shape_linear :: "Linear \<Rightarrow> Linear \<Rightarrow> bool" where
  "same_shape_linear l l' \<longleftrightarrow>
     map length (weight l) = map length (weight l') \<and> length (bias l) = length (bias l')"

definition same_shape :: "'y Critic_scheme \<Rightarrow> 'z Critic_scheme \<Rightarrow> bool" where
  "same_shape c c' \<longleftrightarrow>
     same_shape_linear (c_l1 c) (c_l1 c') \<and> same_shape_linear (c_l2 c) (c_l2 c') \<and>
     same_shape_linear (c_l3 c) (c_l3 c') \<and> same_shape_linear (c_l4 c) (c_l4 c') \<and>
     same_shape_linear (c_l5 c) (c_l5 c') \<and> same_shape_linear (c_l6 c) (c_l6 c')"

definition same_shape_actor :: "'y Actor_scheme \<Rightarrow> 'z Actor_scheme \<Rightarrow> bool" where
  "same_shape_actor a a' \<longleftrightarrow>
     same_shape_linear (a_l1 a) (a_l1 a') \<and> same_shape_linear (a_l2 a) (a_l2 a') \<and>
     same_shape_linear (a_l3 a) (a_l3 a')"

definition load_linear :: "Linear \<Rightarrow> Linear \<Rightarrow> Linear" where
  "load_linear l loaded = l\<lparr>weight := weight loaded, bias := bias loaded\<rparr>"

definition SAC_load :: "'o SAC \<Rightarrow> Actor \<Rightarrow> Critic \<Rightarrow> error + 'o SAC" where
  "SAC_load self actor_file critic_file =
     (if \<not> same_shape_actor (actor self) actor_file then Inl RuntimeError
      else if \<not> same_shape (critic self) critic_file then Inl RuntimeError
      else Inr (self\<lparr>
        actor := (actor self)\<lparr>a_l1 := load_linear (a_l1 (actor self)) (a_l1 actor_file),
                              a_l2 := load_linear (a_l2 (actor self)) (a_l2 actor_file),
                              a_l3 := load_linear (a_l3 (actor self)) (a_l3 actor_file)\<rparr>,
        critic := (critic self)\<lparr>c_l1 := load_linear (c_l1 (critic self)) (c_l1 critic_file),
                                c_l2 := load_linear (c_l2 (critic self)) (c_l2 critic_file),
                                c_l3 := load_linear (c_l3 (critic self)) (c_l3 critic_file),
                                c_l4 := load_linear (c_l4 (critic self)) (c_l4 critic_file),
                                c_l5 := load_linear (c_l5 (critic self)) (c_l5 critic_file),
                                c_l6 := load_linear (c_l6 (critic self)) (c_l6 critic_file)\<rparr>\<rparr>))"

text \<open>
  The parameters of a critic as \<open>parameters()\<close> lists them, tensor after tensor, each
  in row-major order.
\<close>

definition linear_parameters :: "Linear \<Rightarrow> real list" where
  "linear_parameters l = concat (weight l) @ bias l"

definition parameters :: "'z Critic_scheme \<Rightarrow> real list" where
  "parameters c =
     linear_parameters (c_l1 c) @ linear_parameters (c_l2 c) @ linear_parameters (c_l3 c) @
     linear_parameters (c_l4 c) @ linear_parameters (c_l5 c) @ linear_parameters (c_l6 c)"

subsection \<open>DistSAC\<close>

text \<open>\<open>t.norm()\<close> over all elements and \<open>t.norm(dim=-1, keepdim=True)\<close>\<close>

definition norm_all :: "tensor \<Rightarrow> real" where
  "norm_all A = sqrt (sum_list (map (\<lambda>x. x\<^sup>2) (concat A)))"

definition norm_last :: "tensor \<Rightarrow> tensor" where
  "norm_last A = map (\<lambda>r. [sqrt (sum_list (map (\<lambda>x. x\<^sup>2) r))]) A"

text \<open>
  The goal relabelling of \<open>DistSAC.train\<close>: the two masks (from \<open>mask_noise\<close> to
  \<open>traj_goal_mask\<close>), then the lines from the first \<open>assert\<close> to \<open>reward\<close>.
  \<open>rand i\<close> is the uniform number drawn for row \<open>i\<close>. \<open>relabel\<close> returns the new
  \<open>goals\<close>, \<open>done\<close> and \<open>reward\<close>.
\<close>

definition goal_masks :: "nat \<Rightarrow> (nat \<Rightarrow> real) \<Rightarrow> tensor \<times> tensor" where
  "goal_masks B rand =
     (let mask_noise = map (\<lambda>i. [rand i]) [0..<B];
          same_goal_mask = tmap (\<lambda>u. if u > 9 / 10 then 1 else 0) mask_noise;
          traj_goal_mask = tmap (\<lambda>m. 1 - m) same_goal_mask
      in (same_goal_mask, traj_goal_mask))"

definition relabel ::
  "tensor \<Rightarrow> tensor \<Rightarrow> (nat \<Rightarrow> real) \<Rightarrow> error + (tensor \<times> tensor \<times> tensor)" where
  "relabel state goals rand =
     (case goal_masks (length state) rand of (same_goal_mask, traj_goal_mask) \<Rightarrow>
      (case tzip (+) same_goal_mask traj_goal_mask of
           Inl e \<Rightarrow> Inl e
         | Inr mask_sum \<Rightarrow>
      if \<not> norm_all (tmap (\<lambda>x. x - 1) mask_sum) < 1 / 10 ^ 3 then Inl AssertionError
      else
     (case tzip (*) same_goal_mask traj_goal_mask of
           Inl e \<Rightarrow> Inl e
         | Inr mask_prod \<Rightarrow>
      if \<not> norm_all mask_prod < 1 / 10 ^ 3 then Inl AssertionError
      else
     (case tzip (*) state same_goal_mask of
           Inl e \<Rightarrow> Inl e
         | Inr same_part \<Rightarrow>
     (case tzip (*) goals traj_goal_mask of
           Inl e \<Rightarrow> Inl e
         | Inr traj_part \<Rightarrow>
     (case tzip (+) same_part traj_part of
           Inl e \<Rightarrow> Inl e
         | Inr goals \<Rightarrow>
     (case tzip (-) state goals of
           Inl e \<Rightarrow> Inl e
         | Inr diff \<Rightarrow>
             (let done = tmap (\<lambda>nm. if nm < 1 / 10 ^ 5 then 1 else 0) (norm_last diff);
                  reward = tmap (\<lambda>d. - (1 - d)) done
              in Inr (goals, done, reward)))))))))"

definition dist_critic_loss_fn ::
  "tensor \<Rightarrow> tensor \<Rightarrow> tensor \<Rightarrow> tensor \<Rightarrow> DistCritic \<Rightarrow> error + real" where
  "dist_critic_loss_fn state goals action target_Q c =
     (case DistCritic_forward c state goals action of
        Inl e \<Rightarrow> Inl e
      | Inr (current_Q1, current_Q2) \<Rightarrow>
          (case mse_loss current_Q1 target_Q of
             Inl e \<Rightarrow> Inl e
           | Inr m1 \<Rightarrow>
               (case mse_loss current_Q2 target_Q of
                  Inl e \<Rightarrow> Inl e
                | Inr m2 \<Rightarrow> Inr (m1 + m2))))"

definition DistSAC_fit_critic ::
  "(DistActor, DistCritic, 'o) optim \<Rightarrow> 'o DistSAC \<Rightarrow> (nat \<Rightarrow> nat \<Rightarrow> real) \<Rightarrow>
     tensor \<Rightarrow> tensor \<Rightarrow> tensor \<Rightarrow> tensor \<Rightarrow> tensor \<Rightarrow> tensor \<Rightarrow> real \<Rightarrow> int \<Rightarrow>
     log_call list \<Rightarrow> error + ('o DistSAC \<times> log_call list)" where
  "DistSAC_fit_critic opt self randn state goals action reward next_state done discount step L =
     (case DistActor_forward (actor self) randn next_state goals True True of
        Inl e \<Rightarrow> Inl e
      | Inr (_, None, _) \<Rightarrow> Inl TypeError
      | Inr (_, Some policy_action, None) \<Rightarrow> Inl TypeError
      | Inr (_, Some policy_action, Some log_pi) \<Rightarrow>
     (case DistCritic_forward (critic_target self) next_state goals policy_action of
        Inl e \<Rightarrow> Inl e
      | Inr (target_Q1, target_Q2) \<Rightarrow>
     (case target_Q_of (alpha self) target_Q1 target_Q2 log_pi reward
             (tmap (\<lambda>d. 1 - d) done) discount of
        Inl e \<Rightarrow> Inl e
      | Inr target_Q \<Rightarrow>
     (case DistCritic_forward (critic self) state goals action of
        Inl e \<Rightarrow> Inl e
      | Inr (current_Q1, current_Q2) \<Rightarrow>
     (case dist_critic_loss_fn state goals action target_Q (critic self) of
        Inl e \<Rightarrow> Inl e
      | Inr critic_loss \<Rightarrow>
          (let L = L_log L ''train/dist_critic_loss'' (critic_loss * real (length current_Q1))
                     step (int (length current_Q1));
               (oc, c) = opt_critic opt (critic_optimizer self) (critic self)
                           (dist_critic_loss_fn state goals action target_Q)
           in Inr (self\<lparr>critic := c, critic_optimizer := oc\<rparr>, L)))))))"

definition dist_actor_loss_fn ::
  "real \<Rightarrow> DistCritic \<Rightarrow> (nat \<Rightarrow> nat \<Rightarrow> real) \<Rightarrow> tensor \<Rightarrow> tensor \<Rightarrow> DistActor \<Rightarrow>
     error + (real \<times> tensor)" where
  "dist_actor_loss_fn al c randn state goals a =
     (case DistActor_forward a randn state goals True True of
        Inl e \<Rightarrow> Inl e
      | Inr (_, None, _) \<Rightarrow> Inl TypeError
      | Inr (_, Some pi_t, None) \<Rightarrow> Inl TypeError
      | Inr (_, Some pi_t, Some log_pi) \<Rightarrow>
     (case DistCritic_forward c state goals pi_t of
        Inl e \<Rightarrow> Inl e
      | Inr (actor_Q1, actor_Q2) \<Rightarrow>
     (case tzip min actor_Q1 actor_Q2 of
        Inl e \<Rightarrow> Inl e
      | Inr actor_Q \<Rightarrow>
     (case tzip (-) (tmap (\<lambda>l. al * l) log_pi) actor_Q of
        Inl e \<Rightarrow> Inl e
      | Inr t \<Rightarrow> map_sum id (\<lambda>m. (m, log_pi)) (mean_all t)))))"

definition DistSAC_fit_actor ::
  "(DistActor, DistCritic, 'o) optim \<Rightarrow> 'o DistSAC \<Rightarrow> (nat \<Rightarrow> nat \<Rightarrow> real) \<Rightarrow>
     tensor \<Rightarrow> tensor \<Rightarrow> real option \<Rightarrow> int \<Rightarrow> log_call list \<Rightarrow>
     error + ('o DistSAC \<times> log_call list)" where
  "DistSAC_fit_actor opt self randn state goals target_entropy step L =
     (case dist_actor_loss_fn (alpha self) (critic self) randn state goals (actor self) of
        Inl e \<Rightarrow> Inl e
      | Inr (actor_loss, log_pi) \<Rightarrow>
          (let L = L_log L ''train/dist_actor_loss'' (actor_loss * real (length state))
                     step (int (length state));
               (oa, a) = opt_actor opt (actor_optimizer self) (actor self)
                           (\<lambda>a. map_sum id fst
                                  (dist_actor_loss_fn (alpha self) (critic self) randn
                                     state goals a));
               self = self\<lparr>actor := a, actor_optimizer := oa\<rparr>
           in case target_entropy of
                None \<Rightarrow> Inr (self, L)
              | Some te \<Rightarrow>
                  (case alpha_loss_fn log_pi te (log_alpha self) of
                     Inl e \<Rightarrow> Inl e
                   | Inr alpha_loss \<Rightarrow>
                       (let (ol, la) = opt_alpha opt (log_alpha_optimizer self)
                                         (log_alpha self) (alpha_loss_fn log_pi te)
                        in Inr (self\<lparr>log_alpha := la, log_alpha_optimizer := ol\<rparr>, L)))))"

text \<open>
  \<open>DistSAC.train\<close>. The argument \<open>batch\<close> is what
  \<open>replay_buffer.sample(batch_size, with_goal=True)\<close> returned; its third, fifth and
  seventh components are bound to \<open>_\<close>. The permutation \<open>perm\<close> is drawn and not used.
\<close>

definition DistSAC_train ::
  "(DistActor, DistCritic, 'o) optim \<Rightarrow> 'o DistSAC \<Rightarrow>
     tensor \<times> tensor \<times> real list \<times> tensor \<times> real list \<times> tensor \<times> 'x \<Rightarrow>
     (nat \<Rightarrow> real) \<Rightarrow> (nat \<Rightarrow> nat \<Rightarrow> real) \<Rightarrow> (nat \<Rightarrow> nat \<Rightarrow> real) \<Rightarrow> int \<Rightarrow>
     log_call list \<Rightarrow> real \<Rightarrow> real \<Rightarrow> int \<Rightarrow> real option \<Rightarrow>
     error + ('o DistSAC \<times> log_call list)" where
  "DistSAC_train opt self batch rand randn_c randn_a step L discount tau policy_freq
       target_entropy =
     (case batch of (state, action, _, next_state, _, goals, _) \<Rightarrow>
      (case relabel state goals rand of
         Inl e \<Rightarrow> Inl e
       | Inr (goals, done, reward) \<Rightarrow>
           (let L = L_log L ''train/dist_batch_reward'' (sum_all reward) step
                      (int (length reward))
            in case DistSAC_fit_critic opt self randn_c state goals action reward next_state
                      done discount step L of
                 Inl e \<Rightarrow> Inl e
               | Inr (self, L) \<Rightarrow>
                   if policy_freq = 0 then Inl ZeroDivisionError
                   else if step mod policy_freq = 0
                   then (case DistSAC_fit_actor opt self randn_a state goals target_entropy
                                 step L of
                           Inl e \<Rightarrow> Inl e
                         | Inr (self, L) \<Rightarrow>
                             Inr (self\<lparr>critic_target :=
                                    soft_update_params (critic self) (critic_target self) tau\<rparr>,
                                  L))
                   else Inr (self, L))))"

text \<open>
  An agent on one-dimensional states and actions, an optimizer that leaves the parameters
  as they are, and a batch of two transitions, used to instantiate the theorems.
\<close>

definition critic_ex :: Critic where
  "critic_ex = \<lparr>
       c_l1 = \<lparr>in_features = 2, weight = [[1, 0]], bias = [0]\<rparr>, c_l2 = lin1 1,
       c_l3 = \<lparr>in_features = 1, weight = [[1]], bias = [2]\<rparr>,
       c_l4 = \<lparr>in_features = 2, weight = [[1, 0]], bias = [0]\<rparr>, c_l5 = lin1 1,
       c_l6 = \<lparr>in_features = 1, weight = [[1]], bias = [3]\<rparr>\<rparr>"

definition sac_ex :: "unit SAC" where
  "sac_ex = \<lparr>actor = actor_ex, actor_optimizer = (),
       critic = critic_ex, critic_target = critic_ex, critic_optimizer = (),
       log_alpha = 0, log_alpha_optimizer = ()\<rparr>"

definition opt_ex :: "(Actor, Critic, unit) optim" where
  "opt_ex = \<lparr>opt_actor = (\<lambda>os p f. (os, p)), opt_critic = (\<lambda>os p f. (os, p)),
       opt_alpha = (\<lambda>os p f. (os, p))\<rparr>"

definition batch_ex :: "tensor \<times> tensor \<times> real list \<times> tensor \<times> real list" where
  "batch_ex = ([[0], [1]], [[0], [0]], [1, 2], [[0], [1]], [0, 1])"

text \<open>The log-probabilities that the example actor returns for the states 0 and 1 at zero noise.\<close>

definition lp0 :: real where "lp0 = 9 - ln (2 * pi) / 2 - ln (1 + 1 / 10 ^ 6)"
definition lp1 :: real where "lp1 = 9 - ln (2 * pi) / 2 - ln (1 - (tanh 1)\<^sup>2 + 1 / 10 ^ 6)"

text \<open>
  The mean-squared error of predictions \<open>q\<close> against targets \<open>t\<close>, one number each per
  row, as the specification words it.
\<close>

definition mean_squared_error :: "real list \<Rightarrow> real list \<Rightarrow> real" where
  "mean_squared_error q t = sum_list (map2 (\<lambda>x y. (x - y)\<^sup>2) q t) / real (length q)"

text \<open>A critic of the example's shape with all parameters zero.\<close>

definition critic_zero_ex :: Critic where
  "critic_zero_ex = \<lparr>
       c_l1 = \<lparr>in_features = 2, weight = [[0, 0]], bias = [0]\<rparr>, c_l2 = lin1 0,
       c_l3 = lin1 0,
       c_l4 = \<lparr>in_features = 2, weight = [[0, 0]], bias = [0]\<rparr>, c_l5 = lin1 0,
       c_l6 = lin1 0\<rparr>"

text \<open>
  The regression targets of the example batch when the exploration coefficient is \<open>e\<close>
  (0 or 1): the distances of the two states from the zero context are \<open>-2\<close> and
  \<open>-(3 + tanh 1)\<close>.
\<close>

definition tq_ex :: "real \<Rightarrow> real list" where
  "tq_ex e = [1 - 2 * e + 99 / 100 * (2 - lp0), 2 - (3 + tanh 1) * e]"

text \<open>
  An optimizer for the distance estimator that leaves the parameters as they are, and the
  log-probability that the example actor returns at mean 3 and zero noise.
\<close>

definition dist_opt_ex :: "(DistActor, DistCritic, unit) optim" where
  "dist_opt_ex = \<lparr>opt_actor = (\<lambda>os p f. (os, p)), opt_critic = (\<lambda>os p f. (os, p)),
       opt_alpha = (\<lambda>os p f. (os, p))\<rparr>"

definition lp3 :: real where "lp3 = 9 - ln (2 * pi) / 2 - ln (1 - (tanh 3)\<^sup>2 + 1 / 10 ^ 6)"

section \<open>Theorems\<close>

subsection \<open>The meters\<close>

lemma truediv_pos: "b \<noteq> 0 \<Longrightarrow> truediv a b = Inr (a / b)"
  by (simp add: truediv_def)

lemma run_updates_snoc:
  "run_updates m (us @ [u]) =
     (case run_updates m us of Inl e \<Rightarrow> Inl e
      | Inr m' \<Rightarrow> MovingAverageMeter_update m' (fst u) (snd u))"
  by (induction us arbitrary: m) (auto split: sum.splits)

lemma setitem_in_range:
  "0 \<le> i \<Longrightarrow> i < int (length a) \<Longrightarrow> setitem a i v = Inr (a[nat i := v])"
  by (simp add: setitem_def)

lemma update_in_range:
  assumes "0 < window_size m" "0 \<le> pointer m" "pointer m < int (length (vals m))"
    "length (counts m) = length (vals m)"
  shows "MovingAverageMeter_update m v n =
     Inr (m\<lparr>vals := (vals m)[nat (pointer m) := v],
             counts := (counts m)[nat (pointer m) := n],
             pointer := (pointer m + 1) mod window_size m\<rparr>)"
  using assms by (simp add: MovingAverageMeter_update_def setitem_in_range)

lemma mod_neq_in_window:
  fixes i k w :: nat
  assumes "i < k" "k < i + w"
  shows "i mod w \<noteq> k mod w"
proof
  assume e: "i mod w = k mod w"
  have "(k - i) mod w = 0"
    using e assms(1) by (metis mod_eq_dvd_iff_nat less_imp_le_nat dvd_imp_mod_0)
  moreover have "0 < k - i" "k - i < w" using assms by auto
  ultimately show False by simp
qed

lemma ring_inv_step:
  assumes inv: "ring_inv w us m" and w: "0 < w"
  shows "\<exists>m'. MovingAverageMeter_update m (fst u) (snd u) = Inr m' \<and> ring_inv w (us @ [u]) m'"
proof -
  let ?k = "length us"
  let ?p = "?k mod w"
  from inv have ws: "window_size m = int w" and lv: "length (vals m) = w"
    and lc: "length (counts m) = w" and pt: "pointer m = int ?p"
    and slots: "\<And>i. i < ?k \<Longrightarrow> ?k \<le> i + w \<Longrightarrow>
        vals m ! (i mod w) = fst (us ! i) \<and> counts m ! (i mod w) = snd (us ! i)"
    and zeros: "\<And>j. j < w \<Longrightarrow> ?k \<le> j \<Longrightarrow> vals m ! j = 0 \<and> counts m ! j = 0"
    by (auto simp: ring_inv_def)
  have pw: "?p < w" using w by simp
  let ?m' = "m\<lparr>vals := (vals m)[?p := fst u], counts := (counts m)[?p := snd u],
               pointer := (int ?p + 1) mod int w\<rparr>"
  have upd: "MovingAverageMeter_update m (fst u) (snd u) = Inr ?m'"
    using update_in_range[of m "fst u" "snd u"] ws lv lc pt pw w by simp
  have ptr: "(int ?p + 1) mod int w = int (Suc ?k mod w)"
    by (metis mod_Suc_eq of_nat_Suc of_nat_mod add.commute plus_1_eq_Suc of_nat_add of_nat_1)
  have "ring_inv w (us @ [u]) ?m'"
    unfolding ring_inv_def
  proof (intro conjI allI impI)
    show "pointer ?m' = int (length (us @ [u]) mod w)" using ptr by simp
  next
    fix i assume i: "i < length (us @ [u])" and win: "length (us @ [u]) \<le> i + w"
    show "vals ?m' ! (i mod w) = fst ((us @ [u]) ! i)"
    proof (cases "i = ?k")
      case True then show ?thesis using pw lv by simp
    next
      case False
      then have ik: "i < ?k" using i by simp
      moreover have "?k < i + w" using win by simp
      ultimately have "i mod w \<noteq> ?p" by (rule mod_neq_in_window)
      then show ?thesis using slots[of i] ik win by (simp add: nth_append)
    qed
    show "counts ?m' ! (i mod w) = snd ((us @ [u]) ! i)"
    proof (cases "i = ?k")
      case True then show ?thesis using pw lc by simp
    next
      case False
      then have ik: "i < ?k" using i by simp
      moreover have "?k < i + w" using win by simp
      ultimately have "i mod w \<noteq> ?p" by (rule mod_neq_in_window)
      then show ?thesis using slots[of i] ik win by (simp add: nth_append)
    qed
  next
    fix j assume j: "j < w" and kj: "length (us @ [u]) \<le> j"
    then have "?k < w" by simp
    then have "?p = ?k" by simp
    then have ne: "j \<noteq> ?p" using kj by simp
    show "vals ?m' ! j = 0" using ne zeros[of j] j kj by simp
    show "counts ?m' ! j = 0" using ne zeros[of j] j kj by simp
  qed (use ws lv lc in simp_all)
  with upd show ?thesis by blast
qed

lemma ring_inv_init:
  "0 < w \<Longrightarrow> \<exists>m. MovingAverageMeter_init (int w) = Inr m \<and> ring_inv w [] m"
  by (simp add: MovingAverageMeter_init_def ring_inv_def)

lemma ring_inv_run:
  assumes "0 < w" "ring_inv w [] m0"
  shows "\<exists>m. run_updates m0 us = Inr m \<and> ring_inv w us m"
proof (induction us rule: rev_induct)
  case Nil
  then show ?case using assms by simp
next
  case (snoc u us)
  then obtain m where m: "run_updates m0 us = Inr m" "ring_inv w us m" by blast
  from ring_inv_step[OF m(2) assms(1), of u] obtain m' where
    "MovingAverageMeter_update m (fst u) (snd u) = Inr m'" "ring_inv w (us @ [u]) m'" by blast
  then show ?case using m(1) by (simp add: run_updates_snoc)
qed

lemma ring_inv_short:
  assumes "ring_inv w us m" "length us \<le> w"
  shows "vals m = map fst us @ replicate (w - length us) 0"
    and "counts m = map snd us @ replicate (w - length us) 0"
proof -
  from assms have lv: "length (vals m) = w" and lc: "length (counts m) = w"
    and slots: "\<And>i. i < length us \<Longrightarrow>
        vals m ! i = fst (us ! i) \<and> counts m ! i = snd (us ! i)"
    and zeros: "\<And>j. j < w \<Longrightarrow> length us \<le> j \<Longrightarrow> vals m ! j = 0 \<and> counts m ! j = 0"
    by (auto simp: ring_inv_def)
  show "vals m = map fst us @ replicate (w - length us) 0"
    using lv assms(2) slots zeros by (intro nth_equalityI) (auto simp: nth_append)
  show "counts m = map snd us @ replicate (w - length us) 0"
    using lc assms(2) slots zeros by (intro nth_equalityI) (auto simp: nth_append)
qed


lemma max_one_nonzero: "max 1 (x::real) \<noteq> 0"
  by (simp add: max_def)

lemma truediv_max: "truediv a (max 1 b) = Inr (a / max 1 b)"
  by (simp add: truediv_def max_one_nonzero)

lemma compute_div: "MovingAverageMeter_compute m =
   Inr (sum_list (vals m) / max 1 (sum_list (counts m)))"
  by (simp add: MovingAverageMeter_compute_def truediv_max)

text \<open>
  C8 (as amended). Let a \<open>MovingAverageMeter\<close> with a positive window size \<open>w\<close> receive the
  updates \<open>us\<close> (pairs of value and count) after construction. No update raises. While
  fewer than \<open>w\<close> updates were made, the buffers hold the updates in order followed by the
  never-written zero slots, and \<open>compute\<close> returns
  \<open>sum(values) / max(1, sum(counts))\<close>, the sums taken over the whole buffer; this is
  \<open>sum(values) / sum(counts)\<close> whenever the counts sum to at least 1, and it is never
  divided by the window size. Once at least \<open>w\<close> updates were made, slot \<open>i mod w\<close> holds
  update \<open>i\<close> for each of the last \<open>w\<close> updates, the pointer is at the slot of the oldest
  of them, and a further update overwrites exactly that slot.
\<close>

theorem MovingAverageMeter_window:
  assumes w: "0 < w"
  shows "\<exists>m0 m. MovingAverageMeter_init (int w) = Inr m0 \<and> run_updates m0 us = Inr m \<and>
     (length us < w \<longrightarrow>
        vals m = map fst us @ replicate (w - length us) 0 \<and>
        counts m = map snd us @ replicate (w - length us) 0 \<and>
        MovingAverageMeter_compute m =
          Inr (sum_list (map fst us) / max 1 (sum_list (map snd us))) \<and>
        (1 \<le> sum_list (map snd us) \<longrightarrow>
           MovingAverageMeter_compute m =
             Inr (sum_list (map fst us) / sum_list (map snd us)))) \<and>
     (w \<le> length us \<longrightarrow>
        (\<forall>i < length us. length us \<le> i + w \<longrightarrow>
           vals m ! (i mod w) = fst (us ! i) \<and> counts m ! (i mod w) = snd (us ! i)) \<and>
        pointer m = int ((length us - w) mod w) \<and>
        (\<forall>v n. \<exists>m'. MovingAverageMeter_update m v n = Inr m' \<and>
           vals m' = (vals m)[(length us - w) mod w := v] \<and>
           counts m' = (counts m)[(length us - w) mod w := n]))"
proof -
  from ring_inv_init[OF w] obtain m0 where
    m0: "MovingAverageMeter_init (int w) = Inr m0" "ring_inv w [] m0" by blast
  from ring_inv_run[OF w m0(2), of us] obtain m where
    m: "run_updates m0 us = Inr m" "ring_inv w us m" by blast
  have short: "length us < w \<longrightarrow>
        vals m = map fst us @ replicate (w - length us) 0 \<and>
        counts m = map snd us @ replicate (w - length us) 0 \<and>
        MovingAverageMeter_compute m =
          Inr (sum_list (map fst us) / max 1 (sum_list (map snd us))) \<and>
        (1 \<le> sum_list (map snd us) \<longrightarrow>
           MovingAverageMeter_compute m =
             Inr (sum_list (map fst us) / sum_list (map snd us)))"
  proof
    assume "length us < w"
    then have le: "length us \<le> w" by simp
    note v = ring_inv_short(1)[OF m(2) le] and c = ring_inv_short(2)[OF m(2) le]
    have cmp: "MovingAverageMeter_compute m =
          Inr (sum_list (map fst us) / max 1 (sum_list (map snd us)))"
      by (simp add: compute_div v c sum_list_replicate)
    moreover have "1 \<le> sum_list (map snd us) \<longrightarrow>
           MovingAverageMeter_compute m =
             Inr (sum_list (map fst us) / sum_list (map snd us))"
      using cmp by (simp add: max_def)
    ultimately show "vals m = map fst us @ replicate (w - length us) 0 \<and>
        counts m = map snd us @ replicate (w - length us) 0 \<and>
        MovingAverageMeter_compute m =
          Inr (sum_list (map fst us) / max 1 (sum_list (map snd us))) \<and>
        (1 \<le> sum_list (map snd us) \<longrightarrow>
           MovingAverageMeter_compute m =
             Inr (sum_list (map fst us) / sum_list (map snd us)))"
      using v c by blast
  qed
  have full: "w \<le> length us \<longrightarrow>
        (\<forall>i < length us. length us \<le> i + w \<longrightarrow>
           vals m ! (i mod w) = fst (us ! i) \<and> counts m ! (i mod w) = snd (us ! i)) \<and>
        pointer m = int ((length us - w) mod w) \<and>
        (\<forall>v n. \<exists>m'. MovingAverageMeter_update m v n = Inr m' \<and>
           vals m' = (vals m)[(length us - w) mod w := v] \<and>
           counts m' = (counts m)[(length us - w) mod w := n])"
  proof
    assume wk: "w \<le> length us"
    have pm: "(length us - w) mod w = length us mod w"
      using wk by (simp add: le_mod_geq)
    from m(2) have ws: "window_size m = int w" and lv: "length (vals m) = w"
      and lc: "length (counts m) = w" and pt: "pointer m = int (length us mod w)"
      and slots: "\<forall>i < length us. length us \<le> i + w \<longrightarrow>
        vals m ! (i mod w) = fst (us ! i) \<and> counts m ! (i mod w) = snd (us ! i)"
      by (auto simp: ring_inv_def)
    have "\<exists>m'. MovingAverageMeter_update m v n = Inr m' \<and>
           vals m' = (vals m)[(length us - w) mod w := v] \<and>
           counts m' = (counts m)[(length us - w) mod w := n]" for v n
      using update_in_range[of m v n] ws lv lc pt w pm by simp
    then show "(\<forall>i < length us. length us \<le> i + w \<longrightarrow>
           vals m ! (i mod w) = fst (us ! i) \<and> counts m ! (i mod w) = snd (us ! i)) \<and>
        pointer m = int ((length us - w) mod w) \<and>
        (\<forall>v n. \<exists>m'. MovingAverageMeter_update m v n = Inr m' \<and>
           vals m' = (vals m)[(length us - w) mod w := v] \<and>
           counts m' = (counts m)[(length us - w) mod w := n])"
      using slots pt pm by simp
  qed
  from m0(1) m(1) short full show ?thesis by blast
qed

theorem MovingAverageMeter_window_witness:
  "(0::nat) < 4 \<and> length [(2::real, 1::real), (4, 1)] < 4 \<and>
   1 \<le> sum_list (map snd [(2::real, 1::real), (4, 1)]) \<and>
   compute_after 4 [(2, 1), (4, 1)] = Inr 3 \<and>
   (0::nat) < 2 \<and> 2 \<le> length [(1::real, 1::real), (2, 1), (3, 1)] \<and>
   (\<exists>m0 m. MovingAverageMeter_init 2 = Inr m0 \<and>
      run_updates m0 [(1, 1), (2, 1), (3, 1)] = Inr m \<and>
      vals m ! 0 = 3 \<and> vals m ! 1 = 2 \<and> pointer m = 1 \<and>
      (\<forall>v n. \<exists>m'. MovingAverageMeter_update m v n = Inr m' \<and>
         vals m' = (vals m)[1 := v] \<and> counts m' = (counts m)[1 := n]))"
proof -
  define us2 :: "(real \<times> real) list" where "us2 = [(2, 1), (4, 1)]"
  define us3 :: "(real \<times> real) list" where "us3 = [(1, 1), (2, 1), (3, 1)]"
  have l2: "length us2 = 2" and l3: "length us3 = 3" by (simp_all add: us2_def us3_def)
  have s2: "sum_list (map fst us2) = 6" "sum_list (map snd us2) = 2"
    by (simp_all add: us2_def)
  from MovingAverageMeter_window[of 4 us2]
  obtain a0 a where a: "MovingAverageMeter_init (int 4) = Inr a0" "run_updates a0 us2 = Inr a"
    "length us2 < 4 \<longrightarrow> MovingAverageMeter_compute a =
          Inr (sum_list (map fst us2) / max 1 (sum_list (map snd us2)))"
    by (metis zero_less_numeral)
  from a(3) have "MovingAverageMeter_compute a = Inr 3"
    by (simp add: l2 s2)
  with a(1,2) have short: "compute_after 4 us2 = Inr 3"
    by (simp add: compute_after_def)
  from MovingAverageMeter_window[of 2 us3]
  obtain m0 m where m: "MovingAverageMeter_init (int 2) = Inr m0" "run_updates m0 us3 = Inr m"
    "2 \<le> length us3 \<longrightarrow>
        (\<forall>i < length us3. length us3 \<le> i + 2 \<longrightarrow>
           vals m ! (i mod 2) = fst (us3 ! i) \<and> counts m ! (i mod 2) = snd (us3 ! i)) \<and>
        pointer m = int ((length us3 - 2) mod 2) \<and>
        (\<forall>v n. \<exists>m'. MovingAverageMeter_update m v n = Inr m' \<and>
           vals m' = (vals m)[(length us3 - 2) mod 2 := v] \<and>
           counts m' = (counts m)[(length us3 - 2) mod 2 := n])"
    by (metis zero_less_numeral)
  from m(3) have slots: "\<And>i. i < 3 \<Longrightarrow> 3 \<le> i + 2 \<Longrightarrow> vals m ! (i mod 2) = fst (us3 ! i)"
    and ptr: "pointer m = 1"
    and upd: "\<forall>v n. \<exists>m'. MovingAverageMeter_update m v n = Inr m' \<and>
           vals m' = (vals m)[1 := v] \<and> counts m' = (counts m)[1 := n]"
    by (simp_all add: l3)
  from slots[of 2] have v0: "vals m ! 0 = 3" by (simp add: us3_def)
  from slots[of 1] have v1: "vals m ! 1 = 2" by (simp add: us3_def)
  have "\<exists>m0 m. MovingAverageMeter_init 2 = Inr m0 \<and>
      run_updates m0 us3 = Inr m \<and>
      vals m ! 0 = 3 \<and> vals m ! 1 = 2 \<and> pointer m = 1 \<and>
      (\<forall>v n. \<exists>m'. MovingAverageMeter_update m v n = Inr m' \<and>
         vals m' = (vals m)[1 := v] \<and> counts m' = (counts m)[1 := n])"
    using m(1,2) v0 v1 ptr upd by (intro exI[of _ m0] exI[of _ m]) simp
  then show ?thesis
    using short unfolding us2_def us3_def by simp
qed

text \<open>
  C8 as stated fails: with a window of 4, one update of value 3 and count 1/2 gives 3, not
  3 / (1/2) = 6; one update of value 5 and count 0 gives 5, where the counts sum to 0.
\<close>

theorem MovingAverageMeter_ratio_counterexample:
  "compute_after 4 [(3, 1 / 2)] = Inr 3 \<and>
   compute_after 4 [(3, 1 / 2)] \<noteq>
     Inr (sum_list (map fst [(3, 1 / 2)]) / sum_list (map snd [(3, 1 / 2)])) \<and>
   compute_after 4 [(5, 0)] = Inr 5 \<and>
   compute_after 4 [(5, 0)] \<noteq>
     Inr (sum_list (map fst [(5, 0)]) / sum_list (map snd [(5, 0)]))"
  by (simp add: compute_after_def MovingAverageMeter_init_def MovingAverageMeter_update_def
      setitem_def MovingAverageMeter_compute_def truediv_def max_one_nonzero eval_nat_numeral)

text \<open>
  C10. \<open>AverageMeter.compute\<close> and \<open>MovingAverageMeter.compute\<close> never raise: the divisor
  is \<open>max(1, count)\<close>, which is not zero. On a freshly constructed meter and on a meter
  that was just reset both return 0.
\<close>

theorem meters_compute_empty:
  assumes "0 \<le> ws"
  shows "AverageMeter_compute AverageMeter_init = Inr 0 \<and>
     AverageMeter_compute (AverageMeter_reset a) = Inr 0 \<and>
     AverageMeter_compute a = Inr (am_sum a / max 1 (am_count a)) \<and>
     (\<exists>m0. MovingAverageMeter_init ws = Inr m0 \<and> MovingAverageMeter_compute m0 = Inr 0) \<and>
     MovingAverageMeter_compute (MovingAverageMeter_reset m) = Inr 0 \<and>
     MovingAverageMeter_compute m = Inr (sum_list (vals m) / max 1 (sum_list (counts m)))"
  using assms
  by (simp add: AverageMeter_compute_def AverageMeter_init_def AverageMeter_reset_def
      MovingAverageMeter_init_def MovingAverageMeter_compute_def MovingAverageMeter_reset_def
      truediv_def max_one_nonzero sum_list_replicate)

theorem meters_compute_empty_witness:
  "(0::int) \<le> 4 \<and>
   AverageMeter_compute AverageMeter_init = Inr 0 \<and>
   AverageMeter_compute (AverageMeter_reset \<lparr>am_sum = 5, am_count = 2\<rparr>) = Inr 0 \<and>
   (\<exists>m0. MovingAverageMeter_init 4 = Inr m0 \<and> MovingAverageMeter_compute m0 = Inr 0) \<and>
   MovingAverageMeter_compute (MovingAverageMeter_reset
      \<lparr>window_size = 2, vals = [3, 4], counts = [1, 1], pointer = 0\<rparr>) = Inr 0"
  using meters_compute_empty[of 4 "\<lparr>am_sum = 5, am_count = 2\<rparr>"
      "\<lparr>window_size = 2, vals = [3, 4], counts = [1, 1], pointer = 0\<rparr>"]
  by simp

subsection \<open>The policy\<close>

lemma mapE_Inr_iff:
  "mapE f xs = Inr ys \<longleftrightarrow> length ys = length xs \<and> (\<forall>i < length xs. f (xs ! i) = Inr (ys ! i))"
proof (induction xs arbitrary: ys)
  case Nil
  then show ?case by auto
next
  case (Cons x xs)
  show ?case
  proof (cases ys)
    case Nil
    then show ?thesis by (auto split: sum.splits)
  next
    case (Cons y ys')
    then show ?thesis
      using Cons.IH[of ys'] by (auto split: sum.splits simp: nth_Cons split: nat.splits)
  qed
qed

lemma mapE_total: "(\<And>x. x \<in> set xs \<Longrightarrow> f x = Inr (g x)) \<Longrightarrow> mapE f xs = Inr (map g xs)"
  by (induction xs) auto

lemma bcast_same: "length a = length b \<Longrightarrow> bcast f a b = Inr (map2 f a b)"
  by (simp add: bcast_def)

lemma bcast_to_same: "length b = length a \<Longrightarrow> bcast_to f a b = Inr (map2 f a b)"
  by (simp add: bcast_to_def)

lemma bzip_same: "length A = length B \<Longrightarrow> bzip A B = Inr (zip A B)"
  by (simp add: bzip_def)

lemma tzip_rows:
  assumes "length A = n" "length B = n" "\<And>i. i < n \<Longrightarrow> length (A ! i) = length (B ! i)"
  shows "tzip f A B = Inr (map (\<lambda>i. map2 f (A ! i) (B ! i)) [0..<n])"
  using assms by (simp add: tzip_def bzip_same mapE_Inr_iff bcast_same)

lemma tzip_to_rows:
  assumes "length A = n" "length B = n" "\<And>i. i < n \<Longrightarrow> length (B ! i) = length (A ! i)"
  shows "tzip_to f A B = Inr (map (\<lambda>i. map2 f (A ! i) (B ! i)) [0..<n])"
  using assms by (simp add: tzip_to_def mapE_Inr_iff bcast_to_same)

lemma Linear_row_length:
  "Linear_row l x = Inr y \<Longrightarrow> length y = min (length (weight l)) (length (bias l))"
  by (auto simp: Linear_row_def split: if_splits)

lemma mlp_row_length:
  "mlp_row la lb lc x = Inr y \<Longrightarrow> length y = min (length (weight lc)) (length (bias lc))"
  by (auto simp: mlp_row_def split: sum.splits dest: Linear_row_length)

lemma relu_one_minus_tanh_sq: "relu (1 - (tanh (x::real))\<^sup>2) = 1 - (tanh x)\<^sup>2"
proof -
  have "\<bar>tanh x\<bar> < 1" using tanh_real_lt_1[of x] tanh_real_gt_neg1[of x] by simp
  then have "(tanh x)\<^sup>2 < 1" by (simp add: abs_square_less_1)
  then show ?thesis by (simp add: relu_def)
qed


lemma chunk2_even:
  "chunk2 (2 * D) A = Inr (map (take D) A, map (drop D) A)"
  by (simp add: chunk2_def)

lemma randn_like_rows:
  "(\<And>i. i < length A \<Longrightarrow> length (A ! i) = D) \<Longrightarrow>
   randn_like randn A = map (\<lambda>i. map (randn i) [0..<D]) [0..<length A]"
  by (simp add: randn_like_def)

lemma forward_head_sampled:
  assumes len: "\<And>b. b < length out \<Longrightarrow> length (out ! b) = 2 * D"
    and of: "out_features (a_l3 self) = 2 * D"
  shows "forward_head self randn out True True =
     Inr (map (\<lambda>b. map tanh (take D (out ! b))) [0..<length out],
          Some (map (\<lambda>b. map tanh (row_pre_squash self randn D b (out ! b))) [0..<length out]),
          Some (map (\<lambda>b. [row_log_prob self randn D b (out ! b)]) [0..<length out]))"
proof -
  let ?B = "length out"
  let ?mu = "map (take D) out"
  let ?ls = "map (\<lambda>b. row_log_std self D (out ! b)) [0..<?B]"
  let ?noise = "map (\<lambda>b. row_noise randn D b) [0..<?B]"
  have ls: "tmap (\<lambda>l. log_std_min self + (1 / 2) * (log_std_max self - log_std_min self) * (l + 1))
              (tmap tanh (map (drop D) out)) = ?ls"
    by (auto simp: tmap_def row_log_std_def intro!: nth_equalityI)
  have noise: "randn_like randn ?mu = ?noise"
    using len by (simp add: randn_like_def row_noise_def)
  have ns: "tzip (*) ?noise (tmap exp ?ls) =
     Inr (map (\<lambda>b. map2 (*) (row_noise randn D b) (map exp (row_log_std self D (out ! b)))) [0..<?B])"
    using len by (subst tzip_rows[where n = ?B]) (simp_all add: tmap_def row_noise_def row_log_std_def)
  have p: "tzip (+) ?mu (map (\<lambda>b. map2 (*) (row_noise randn D b) (map exp (row_log_std self D (out ! b)))) [0..<?B]) =
     Inr (map (\<lambda>b. row_pre_squash self randn D b (out ! b)) [0..<?B])"
    using len by (subst tzip_rows[where n = ?B])
      (simp_all add: tmap_def row_noise_def row_log_std_def row_pre_squash_def)
  have sl: "size_last ?noise = (if ?B = 0 then 0 else D)"
    by (cases out) (simp_all add: size_last_def row_noise_def upt_conv_Cons del: upt_Suc)
  have gl: "gaussian_likelihood ?noise ?ls =
     Inr (map (\<lambda>b. [sum_list (map2 (\<lambda>n l. - (1 / 2) * n\<^sup>2 - l) (row_noise randn D b)
                      (row_log_std self D (out ! b))) - (1 / 2) * ln (2 * pi) * real D]) [0..<?B])"
    unfolding gaussian_likelihood_def
    using len
    by (subst tzip_rows[where n = ?B])
       (auto simp: tmap_def sum_last_def sl row_noise_def row_log_std_def)
  have sq: "apply_squashing_func ?mu
       (Some (map (\<lambda>b. row_pre_squash self randn D b (out ! b)) [0..<?B]))
       (Some (map (\<lambda>b. [sum_list (map2 (\<lambda>n l. - (1 / 2) * n\<^sup>2 - l) (row_noise randn D b)
                      (row_log_std self D (out ! b))) - (1 / 2) * ln (2 * pi) * real D]) [0..<?B])) =
     Inr (map (\<lambda>b. map tanh (take D (out ! b))) [0..<?B],
          Some (map (\<lambda>b. map tanh (row_pre_squash self randn D b (out ! b))) [0..<?B]),
          Some (map (\<lambda>b. [row_log_prob self randn D b (out ! b)]) [0..<?B]))"
  proof -
    have "tzip_to (-)
        (map (\<lambda>b. [sum_list (map2 (\<lambda>n l. - (1 / 2) * n\<^sup>2 - l) (row_noise randn D b)
                      (row_log_std self D (out ! b))) - (1 / 2) * ln (2 * pi) * real D]) [0..<?B])
        (sum_last (tmap (\<lambda>a. ln (relu (1 - a\<^sup>2) + 1 / 10 ^ 6))
           (tmap tanh (map (\<lambda>b. row_pre_squash self randn D b (out ! b)) [0..<?B])))) =
       Inr (map (\<lambda>b. [row_log_prob self randn D b (out ! b)]) [0..<?B])"
      by (subst tzip_to_rows[where n = ?B])
         (auto simp: tmap_def sum_last_def row_log_prob_def log_prob_closed_form_def
               relu_one_minus_tanh_sq comp_def)
    then show ?thesis
      unfolding apply_squashing_func_def Let_def
      by (auto simp: tmap_def intro!: nth_equalityI)
  qed
  show ?thesis
    unfolding forward_head_def of chunk2_even
    by (simp only: sum.case prod.case Let_def if_True ls noise ns p gl sq option.case
          map_sum.simps id_apply)
qed


lemma mlp_rows_length:
  assumes "mapE (mlp_row la lb lc) x = Inr out" "length (weight lc) = n" "length (bias lc) = n"
  shows "length out = length x" "\<And>b. b < length out \<Longrightarrow> length (out ! b) = n"
proof -
  from assms(1) show l: "length out = length x" by (simp add: mapE_Inr_iff)
  fix b assume "b < length out"
  with assms(1) l have "mlp_row la lb lc (x ! b) = Inr (out ! b)" by (simp add: mapE_Inr_iff)
  from mlp_row_length[OF this] show "length (out ! b) = n" using assms(2,3) by simp
qed

text \<open>
  C1. When the layers accept the batch \<open>x\<close> and \<open>self.l3\<close> has \<open>2 * D\<close> outputs, the
  forward pass with \<open>compute_pi\<close> and \<open>compute_log_pi\<close> returns; the log-probability of
  row \<open>b\<close> is the sum over the action dimension of \<open>-0.5 * noise^2 - log_std\<close>, minus
  \<open>0.5 * D * log(2 * pi)\<close>, minus the sum over the action dimension of
  \<open>log(1 - tanh(pre_squash)^2 + 1e-6)\<close>, where \<open>pre_squash = mu + noise * exp(log_std)\<close>;
  the sampled action is \<open>tanh(pre_squash)\<close> and the mean action \<open>tanh(mu)\<close>.
\<close>

theorem Actor_forward_log_prob:
  assumes out: "mapE (mlp_row (a_l1 self) (a_l2 self) (a_l3 self)) x = Inr out"
    and w: "length (weight (a_l3 self)) = 2 * D" and b: "length (bias (a_l3 self)) = 2 * D"
  shows "Actor_forward self randn x True True =
     Inr (map (\<lambda>b. map tanh (take D (out ! b))) [0..<length x],
          Some (map (\<lambda>b. map tanh (row_pre_squash self randn D b (out ! b))) [0..<length x]),
          Some (map (\<lambda>b. [log_prob_closed_form D (row_noise randn D b)
                             (row_log_std self D (out ! b))
                             (row_pre_squash self randn D b (out ! b))]) [0..<length x]))"
proof -
  note len = mlp_rows_length[OF out w b]
  have "out_features (a_l3 self) = 2 * D" using b by (simp add: out_features_def)
  from forward_head_sampled[OF len(2) this, of randn] show ?thesis
    unfolding Actor_forward_def out by (simp add: len(1) row_log_prob_def)
qed

theorem Actor_forward_log_prob_witness:
  "mapE (mlp_row (a_l1 actor_ex) (a_l2 actor_ex) (a_l3 actor_ex)) [[0]] = Inr [[0, 0]] \<and>
   length (weight (a_l3 actor_ex)) = 2 * 1 \<and> length (bias (a_l3 actor_ex)) = 2 * 1 \<and>
   Actor_forward actor_ex (\<lambda>b j. 0) [[0]] True True =
     Inr ([[0]], Some [[0]], Some [[9 - ln (2 * pi) / 2 - ln (1 + 1 / 10 ^ 6)]])"
proof -
  have out: "mapE (mlp_row (a_l1 actor_ex) (a_l2 actor_ex) (a_l3 actor_ex)) [[0]] = Inr [[0, 0]]"
    by (simp add: actor_ex_def lin1_def mlp_row_def Linear_row_def relu_def)
  have w: "length (weight (a_l3 actor_ex)) = 2 * 1" and b: "length (bias (a_l3 actor_ex)) = 2 * 1"
    by (simp_all add: actor_ex_def)
  from Actor_forward_log_prob[OF out w b, of "\<lambda>b j. 0"]
  have "Actor_forward actor_ex (\<lambda>b j. 0) [[0]] True True =
     Inr ([[0]], Some [[0]], Some [[9 - ln (2 * pi) / 2 - ln (1 + 1 / 10 ^ 6)]])"
    by (simp add: row_pre_squash_def row_noise_def row_log_std_def log_prob_closed_form_def
        actor_ex_def)
  with out w b show ?thesis by blast
qed

lemma forward_head_unbound:
  "forward_head self randn out False True =
     Inl (if out_features (a_l3 self) = 1 then ValueError else UnboundLocalError)"
  by (simp add: forward_head_def chunk2_def)

text \<open>
  C7. With \<open>compute_log_pi=True\<close> and \<open>compute_pi=False\<close> the forward pass of either actor
  class returns nothing: it raises. When the layers accept the input the exception is the
  \<open>UnboundLocalError\<close> of reading \<open>noise\<close> (or the \<open>ValueError\<close> of unpacking a single
  chunk); otherwise it is the layers' own exception.
\<close>

theorem Actor_forward_log_pi_needs_pi:
  "Actor_forward self randn x False True =
     (case mapE (mlp_row (a_l1 self) (a_l2 self) (a_l3 self)) x of
        Inl e \<Rightarrow> Inl e
      | Inr out \<Rightarrow> Inl (if out_features (a_l3 self) = 1 then ValueError else UnboundLocalError)) \<and>
   DistActor_forward dself randn y y_g False True =
     (case cat1 y (if actor_only_pos dself then map (take 2) y_g else y_g) of
        Inl e \<Rightarrow> Inl e
      | Inr yg \<Rightarrow>
          (case mapE (mlp_row (a_l1 dself) (a_l2 dself) (a_l3 dself)) yg of
             Inl e \<Rightarrow> Inl e
           | Inr out \<Rightarrow>
               Inl (if out_features (a_l3 dself) = 1 then ValueError else UnboundLocalError))) \<and>
   (\<exists>e. Actor_forward self randn x False True = Inl e) \<and>
   (\<exists>e. DistActor_forward dself randn y y_g False True = Inl e)"
  by (auto simp: Actor_forward_def DistActor_forward_def forward_head_unbound Let_def
      split: sum.splits)

subsection \<open>The distance estimator\<close>

lemma length_concat_uniform:
  "(\<And>r. r \<in> set rows \<Longrightarrow> length r = d) \<Longrightarrow> length (concat rows) = length rows * d"
  by (induction rows) auto

lemma take_drop_concat:
  "(\<And>r. r \<in> set rows \<Longrightarrow> length r = d) \<Longrightarrow> i < length rows \<Longrightarrow>
   take d (drop (i * d) (concat rows)) = rows ! i"
proof (induction rows arbitrary: i)
  case Nil
  then show ?case by simp
next
  case (Cons r rows)
  have lr: "length r = d" using Cons.prems(1) by simp
  show ?case
  proof (cases i)
    case 0
    then show ?thesis using lr by simp
  next
    case (Suc j)
    then have "take d (drop (j * d) (concat rows)) = rows ! j"
      using Cons.IH[of j] Cons.prems by simp
    then show ?thesis using Suc lr by (simp add: add.commute)
  qed
qed

lemma view_rows_concat:
  assumes "length rows = n" "\<And>r. r \<in> set rows \<Longrightarrow> length r = d"
  shows "view_rows n d (concat rows) = Inr rows"
proof -
  have "length (concat rows) = n * d"
    using length_concat_uniform[of rows d] assms by simp
  moreover have "map (\<lambda>i. take d (drop (i * d) (concat rows))) [0..<n] = rows"
    using assms by (intro nth_equalityI) (simp_all add: take_drop_concat)
  ultimately show ?thesis by (simp add: view_rows_def)
qed

lemma view_m1_concat:
  assumes "0 < d" "\<And>r. r \<in> set rows \<Longrightarrow> length r = d"
  shows "view_m1 d (concat rows) = Inr rows"
proof -
  have l: "length (concat rows) = length rows * d"
    using length_concat_uniform[of rows d] assms(2) by simp
  then have "length (concat rows) div d = length rows" "length (concat rows) mod d = 0"
    using assms(1) by simp_all
  then show ?thesis
    using assms(1) view_rows_concat[OF refl assms(2)] by (simp add: view_m1_def)
qed

lemma map_insort_key: "map f (insort_key f x xs) = insort (f x) (map f xs)"
  by (induction xs) auto

lemma map_sort_key: "map f (sort_key f xs) = sort (map f xs)"
  by (induction xs) (simp_all add: map_insort_key)

lemma topk_row_spec:
  assumes k: "k \<le> length row"
  shows "\<exists>idxs. topk_row tie k row = Inr (take k (sort row), idxs) \<and> length idxs = k \<and>
     distinct idxs \<and> (\<forall>i \<in> set idxs. i < length row) \<and> map ((!) row) idxs = take k (sort row)"
proof -
  let ?n = "length row"
  let ?z = "sort_key (\<lambda>p. tie row (snd p)) (zip row [0..<?n])"
  let ?s = "sort_key fst ?z"
  let ?sel = "take k ?s"
  have e: "map fst (zip row [0..<?n]) = row" by simp
  have "mset (map fst ?z) = image_mset fst (mset (zip row [0..<?n]))" by simp
  also have "\<dots> = mset (map fst (zip row [0..<?n]))" by (simp only: mset_map)
  also have "\<dots> = mset row" by (simp only: e)
  finally have m: "mset (map fst ?z) = mset row" .
  have "mset (sort row) = mset (map fst ?z)" by (simp only: mset_sort m)
  then have "sort (map fst ?z) = sort row" by (rule properties_for_sort) simp
  then have fst_s: "map fst ?s = sort row" by (simp only: map_sort_key)
  have mem: "\<And>p. p \<in> set ?s \<Longrightarrow> snd p < ?n \<and> row ! snd p = fst p"
    by (auto simp: set_zip)
  have "distinct (zip row [0..<?n])" by (simp add: distinct_zipI2)
  then have "distinct ?z" by simp
  then have "distinct ?s" by simp
  moreover have "inj_on snd (set ?s)"
    by (rule inj_onI) (metis mem prod.expand)
  ultimately have ds: "distinct (map snd ?s)" by (simp add: distinct_map)
  have sel_sub: "set ?sel \<subseteq> set ?s" by (rule set_take_subset)
  have 1: "map fst ?sel = take k (sort row)" by (metis fst_s take_map)
  have 2: "length (map snd ?sel) = k" using k by simp
  have 3: "distinct (map snd ?sel)" by (metis ds take_map distinct_take)
  have 4: "\<forall>i \<in> set (map snd ?sel). i < ?n" using mem sel_sub by auto
  have "map ((!) row) (map snd ?sel) = map fst ?sel"
    using mem sel_sub by (auto simp: subset_iff)
  with 1 have 5: "map ((!) row) (map snd ?sel) = take k (sort row)" by simp
  have "topk_row tie k row = Inr (map fst ?sel, map snd ?sel)"
    using k by (simp add: topk_row_def Let_def)
  with 1 2 3 4 5 show ?thesis by metis
qed

lemma forward_head_mean:
  "forward_head self randn out False False =
     (if out_features (a_l3 self) = 1 then Inl ValueError
      else Inr (map (\<lambda>r. map tanh (take ((out_features (a_l3 self) + 1) div 2) r)) out,
                None, None))"
  by (simp add: forward_head_def chunk2_def apply_squashing_func_def tmap_def)

lemma mapE_singleton: "mapE f [x] = (case f x of Inl e \<Rightarrow> Inl e | Inr y \<Rightarrow> Inr [y])"
  by (simp split: sum.splits)

lemma DistActor_forward_single:
  "DistActor_forward A rn [s] [g] False False =
     (case mlp_row (a_l1 A) (a_l2 A) (a_l3 A) (act_in A s g) of
        Inl e \<Rightarrow> Inl e
      | Inr o1 \<Rightarrow>
          if out_features (a_l3 A) = 1 then Inl ValueError
          else Inr ([map tanh (take ((out_features (a_l3 A) + 1) div 2) o1)], None, None))"
  by (simp add: DistActor_forward_def cat1_def act_in_def forward_head_mean Let_def
      split: sum.splits)

lemma DistCritic_forward_single:
  "DistCritic_forward C [s] [g] [u] =
     (case mlp_row (c_l1 C) (c_l2 C) (c_l3 C) (cri_in C s g u) of
        Inl e \<Rightarrow> Inl e
      | Inr x1 \<Rightarrow>
          (case mlp_row (c_l4 C) (c_l5 C) (c_l6 C) (cri_in C s g u) of
             Inl e \<Rightarrow> Inl e
           | Inr x2 \<Rightarrow> Inr ([x1], [x2])))"
  by (simp add: DistCritic_forward_def cat1_def cri_in_def Critic_heads_def Let_def
      split: sum.splits)

lemma length_one_hd: "length xs = Suc 0 \<Longrightarrow> xs = [hd xs]"
  by (cases xs) auto

lemma critic_dist_rows:
  assumes "critic_dist self s g = Inr v"
  shows "\<exists>o1. mlp_row (a_l1 (actor self)) (a_l2 (actor self)) (a_l3 (actor self))
                  (act_in (actor self) s g) = Inr o1"
    and "out_features (a_l3 (actor self)) \<noteq> 1"
    and "mlp_row (c_l1 (critic self)) (c_l2 (critic self)) (c_l3 (critic self))
            (cri_in (critic self) s g (act_mu (actor self) s g)) = Inr [q1_of self s g]"
    and "mlp_row (c_l4 (critic self)) (c_l5 (critic self)) (c_l6 (critic self))
            (cri_in (critic self) s g (act_mu (actor self) s g)) = Inr [q2_of self s g]"
    and "v = - min (q1_of self s g) (q2_of self s g)"
proof -
  let ?A = "actor self" and ?C = "critic self"
  let ?ma = "mlp_row (a_l1 ?A) (a_l2 ?A) (a_l3 ?A) (act_in ?A s g)"
  obtain o1 where o1: "?ma = Inr o1"
    using assms by (cases ?ma) (simp_all add: critic_dist_def DistActor_forward_single)
  show "\<exists>o1. ?ma = Inr o1" using o1 by blast
  show nf: "out_features (a_l3 ?A) \<noteq> 1"
    using assms o1 by (auto simp: critic_dist_def DistActor_forward_single)
  have mu: "map tanh (take ((out_features (a_l3 ?A) + 1) div 2) o1) = act_mu ?A s g"
    using o1 by (simp add: act_mu_def)
  let ?m1 = "mlp_row (c_l1 ?C) (c_l2 ?C) (c_l3 ?C) (cri_in ?C s g (act_mu ?A s g))"
  let ?m2 = "mlp_row (c_l4 ?C) (c_l5 ?C) (c_l6 ?C) (cri_in ?C s g (act_mu ?A s g))"
  have cd: "(case DistCritic_forward ?C [s] [g] [act_mu ?A s g] of
        Inl e \<Rightarrow> Inl e
      | Inr (q1, q2) \<Rightarrow>
          if length (concat q1) = 1 \<and> length (concat q2) = 1
          then Inr (- min (hd (concat q1)) (hd (concat q2)))
          else Inl RuntimeError) = Inr v"
    using assms o1 nf by (simp add: critic_dist_def DistActor_forward_single act_mu_def)
  obtain x1 where x1: "?m1 = Inr x1"
    using cd by (cases ?m1) (simp_all add: DistCritic_forward_single)
  obtain x2 where x2: "?m2 = Inr x2"
    using cd x1 by (cases ?m2) (simp_all add: DistCritic_forward_single)
  from cd x1 x2 have l: "length x1 = 1" "length x2 = 1" and v: "v = - min (hd x1) (hd x2)"
    by (simp_all add: DistCritic_forward_single split: if_splits)
  show "?m1 = Inr [q1_of self s g]"
    using x1 l(1) length_one_hd[of x1] by (simp add: q1_of_def)
  show "?m2 = Inr [q2_of self s g]"
    using x2 l(2) length_one_hd[of x2] by (simp add: q2_of_def)
  show "v = - min (q1_of self s g) (q2_of self s g)"
    using v x1 x2 by (simp add: q1_of_def q2_of_def)
qed

lemma mapE_upt:
  assumes "length xs = N" "\<And>n. n < N \<Longrightarrow> f (xs ! n) = Inr (g n)"
  shows "mapE f xs = Inr (map g [0..<N])"
  using assms by (simp add: mapE_Inr_iff)

lemma batch_actor_mean:
  assumes lx: "length X = N" and ly: "length Y = N" and n0: "0 < N"
    and v: "\<And>n. n < N \<Longrightarrow> critic_dist self (X ! n) (Y ! n) = Inr (v n)"
  shows "DistActor_forward (actor self) rn X Y False False =
     Inr (map (\<lambda>n. act_mu (actor self) (X ! n) (Y ! n)) [0..<N], None, None)"
proof -
  let ?A = "actor self"
  let ?Y' = "if actor_only_pos ?A then map (take 2) Y else Y"
  let ?c = "(out_features (a_l3 ?A) + 1) div 2"
  let ?o = "\<lambda>n. projr (mlp_row (a_l1 ?A) (a_l2 ?A) (a_l3 ?A) (act_in ?A (X ! n) (Y ! n)))"
  have cat: "cat1 X ?Y' = Inr (map2 (@) X ?Y')" using lx ly by (simp add: cat1_def)
  have row: "\<And>n. n < N \<Longrightarrow> map2 (@) X ?Y' ! n = act_in ?A (X ! n) (Y ! n)"
    using lx ly by (simp add: act_in_def)
  have "\<And>n. n < N \<Longrightarrow> mlp_row (a_l1 ?A) (a_l2 ?A) (a_l3 ?A) (map2 (@) X ?Y' ! n) = Inr (?o n)"
  proof -
    fix n assume n: "n < N"
    from critic_dist_rows(1)[OF v[OF n]] obtain o1 where
      "mlp_row (a_l1 ?A) (a_l2 ?A) (a_l3 ?A) (act_in ?A (X ! n) (Y ! n)) = Inr o1" by blast
    then show "mlp_row (a_l1 ?A) (a_l2 ?A) (a_l3 ?A) (map2 (@) X ?Y' ! n) = Inr (?o n)"
      using row[OF n] by simp
  qed
  then have out: "mapE (mlp_row (a_l1 ?A) (a_l2 ?A) (a_l3 ?A)) (map2 (@) X ?Y') =
      Inr (map ?o [0..<N])"
    using lx ly by (intro mapE_upt) simp_all
  have nf: "out_features (a_l3 ?A) \<noteq> 1" using critic_dist_rows(2)[OF v[OF n0]] .
  have mu: "map (\<lambda>r. map tanh (take ?c r)) (map ?o [0..<N]) =
      map (\<lambda>n. act_mu ?A (X ! n) (Y ! n)) [0..<N]"
    by (simp add: act_mu_def)
  show ?thesis
    by (simp only: DistActor_forward_def Let_def cat out sum.case forward_head_mean nf
        if_False mu)
qed

lemma batch_critic:
  assumes lx: "length X = N" and ly: "length Y = N"
    and v: "\<And>n. n < N \<Longrightarrow> critic_dist self (X ! n) (Y ! n) = Inr (v n)"
  shows "DistCritic_forward (critic self) X Y
           (map (\<lambda>n. act_mu (actor self) (X ! n) (Y ! n)) [0..<N]) =
     Inr (map (\<lambda>n. [q1_of self (X ! n) (Y ! n)]) [0..<N],
          map (\<lambda>n. [q2_of self (X ! n) (Y ! n)]) [0..<N])"
proof -
  let ?C = "critic self"
  let ?Y' = "if critic_only_pos ?C then map (take 2) Y else Y"
  let ?U = "map (\<lambda>n. act_mu (actor self) (X ! n) (Y ! n)) [0..<N]"
  let ?XU = "map2 (@) (map2 (@) X ?Y') ?U"
  have cat: "cat1 X ?Y' = Inr (map2 (@) X ?Y')" using lx ly by (simp add: cat1_def)
  have cat2: "cat1 (map2 (@) X ?Y') ?U = Inr ?XU" using lx ly by (simp add: cat1_def)
  have len: "length ?XU = N" using lx ly by simp
  have row: "\<And>n. n < N \<Longrightarrow>
      ?XU ! n = cri_in ?C (X ! n) (Y ! n) (act_mu (actor self) (X ! n) (Y ! n))"
    using lx ly by (simp add: cri_in_def)
  have h1: "mapE (mlp_row (c_l1 ?C) (c_l2 ?C) (c_l3 ?C)) ?XU =
      Inr (map (\<lambda>n. [q1_of self (X ! n) (Y ! n)]) [0..<N])"
    using len row critic_dist_rows(3)[OF v] by (intro mapE_upt) simp_all
  have h2: "mapE (mlp_row (c_l4 ?C) (c_l5 ?C) (c_l6 ?C)) ?XU =
      Inr (map (\<lambda>n. [q2_of self (X ! n) (Y ! n)]) [0..<N])"
    using len row critic_dist_rows(4)[OF v] by (intro mapE_upt) simp_all
  show ?thesis
    by (simp only: DistCritic_forward_def Let_def cat cat2 Critic_heads_def h1 h2 sum.case)
qed

lemma nth_concat_uniform:
  "(\<And>r. r \<in> set rows \<Longrightarrow> length r = G) \<Longrightarrow> b < length rows \<Longrightarrow> j < G \<Longrightarrow>
   concat rows ! (b * G + j) = rows ! b ! j"
proof (induction rows arbitrary: b)
  case Nil
  then show ?case by simp
next
  case (Cons r rows)
  have lr: "length r = G" using Cons.prems(1) by simp
  show ?case
  proof (cases b)
    case 0
    then show ?thesis using lr Cons.prems(3) by (simp add: nth_append)
  next
    case (Suc b')
    then have "concat rows ! (b' * G + j) = rows ! b' ! j"
      using Cons.IH[of b'] Cons.prems by simp
    then show ?thesis using Suc lr by (simp add: nth_append)
  qed
qed

lemma concat_singletons: "concat (map (\<lambda>n. [f n]) xs) = map f xs"
  by (induction xs) auto

lemma tzip3_rows:
  assumes "length A = n" "length B = n" "\<And>i. i < n \<Longrightarrow> tzip f (A ! i) (B ! i) = Inr (g i)"
  shows "tzip3 f A B = Inr (map g [0..<n])"
  using assms by (simp add: tzip3_def bzip_same mapE_Inr_iff)

lemma l2_matrix:
  assumes B: "length ctx = length state"
    and G: "\<And>c. c \<in> set ctx \<Longrightarrow> length c = G"
    and ds: "\<And>s. s \<in> set state \<Longrightarrow> length s = dd"
    and dg: "\<And>c g. c \<in> set ctx \<Longrightarrow> g \<in> set c \<Longrightarrow> length g = dd"
  shows "tzip3 (-) (map (map (take 2)) (map (replicate G) state)) (map (map (take 2)) ctx) =
     Inr (map (\<lambda>b. map (\<lambda>j. map2 (-) (take 2 (state ! b)) (take 2 (ctx ! b ! j))) [0..<G])
            [0..<length state])"
proof (rule tzip3_rows)
  show "length (map (map (take 2)) (map (replicate G) state)) = length state" by simp
  show "length (map (map (take 2)) ctx) = length state" using B by simp
  fix b assume b: "b < length state"
  then have cb: "ctx ! b \<in> set ctx" and sb: "state ! b \<in> set state" using B by simp_all
  have lc: "length (ctx ! b) = G" using G[OF cb] .
  have lg: "\<And>j. j < G \<Longrightarrow> length (ctx ! b ! j) = dd"
    using dg[OF cb] lc by simp
  show "tzip (-) (map (map (take 2)) (map (replicate G) state) ! b)
          (map (map (take 2)) ctx ! b) =
        Inr (map (\<lambda>j. map2 (-) (take 2 (state ! b)) (take 2 (ctx ! b ! j))) [0..<G])"
    using b B lc lg ds[OF sb]
    by (subst tzip_rows[where n = G]) simp_all
qed


lemma div_mod_decomp: "0 < G \<Longrightarrow> n < B * G \<Longrightarrow> n div G < B \<and> n mod G < G \<and> (n div G) * G + n mod G = n"
  for n G B :: nat
  by (simp add: less_mult_imp_div_less)

lemma tzip_min_singletons:
  "tzip min (map (\<lambda>n. [p n]) [0..<N]) (map (\<lambda>n. [q n]) [0..<N]) =
     Inr (map (\<lambda>n. [min (p n) (q n)]) [0..<N])"
  by (subst tzip_rows[where n = N]) simp_all

lemma critic_matrix:
  assumes B: "length ctx = length state"
    and G: "\<And>c. c \<in> set ctx \<Longrightarrow> length c = G" and G0: "0 < G"
    and ds: "\<And>s. s \<in> set state \<Longrightarrow> length s = dd"
    and dg: "\<And>c g. c \<in> set ctx \<Longrightarrow> g \<in> set c \<Longrightarrow> length g = dd"
    and dd: "0 < dd" and ne: "state \<noteq> []"
    and d: "\<And>b j. b < length state \<Longrightarrow> j < G \<Longrightarrow>
               critic_dist self (state ! b) (ctx ! b ! j) = Inr (d b j)"
  shows "(case view_m1 dd (concat (concat (map (replicate G) state))) of
            Inl e \<Rightarrow> Inl e
          | Inr rs \<Rightarrow>
        (case view_m1 dd (concat (concat ctx)) of
            Inl e \<Rightarrow> Inl e
          | Inr rc \<Rightarrow>
        (case DistActor_forward (actor self) (\<lambda>i j. 0) rs rc False False of
            Inl e \<Rightarrow> Inl e
          | Inr (repeated_action, _, _) \<Rightarrow>
        (case DistCritic_forward (critic self) rs rc repeated_action of
            Inl e \<Rightarrow> Inl e
          | Inr (q1, q2) \<Rightarrow>
        (case tzip min q1 q2 of
            Inl e \<Rightarrow> Inl e
          | Inr m \<Rightarrow> view_rows (length ctx) G (concat (tmap uminus m))))))) =
     Inr (map (\<lambda>b. map (d b) [0..<G]) [0..<length state])"
proof -
  let ?B = "length state"
  let ?N = "?B * G"
  let ?X = "concat (map (replicate G) state)"
  let ?Y = "concat ctx"
  let ?v = "\<lambda>n. d (n div G) (n mod G)"
  let ?M = "map (\<lambda>b. map (d b) [0..<G]) [0..<?B]"
  have vX: "view_m1 dd (concat ?X) = Inr ?X"
    using ds by (intro view_m1_concat[OF dd]) auto
  have vY: "view_m1 dd (concat ?Y) = Inr ?Y"
    using dg by (intro view_m1_concat[OF dd]) auto
  have lX: "length ?X = ?N"
    by (subst length_concat_uniform[of _ G]) auto
  have lY: "length ?Y = ?N"
    using G B by (subst length_concat_uniform[of _ G]) auto
  have N0: "0 < ?N" using ne G0 by simp
  have Xn: "?X ! n = state ! (n div G)" if "n < ?N" for n
  proof -
    from div_mod_decomp[OF G0 that] have b: "n div G < ?B" and j: "n mod G < G"
      and e: "(n div G) * G + n mod G = n" by simp_all
    have "?X ! ((n div G) * G + n mod G) = map (replicate G) state ! (n div G) ! (n mod G)"
      using b j by (intro nth_concat_uniform) auto
    then show ?thesis using e b j by simp
  qed
  have Yn: "?Y ! n = ctx ! (n div G) ! (n mod G)" if "n < ?N" for n
  proof -
    from div_mod_decomp[OF G0 that] have b: "n div G < ?B" and j: "n mod G < G"
      and e: "(n div G) * G + n mod G = n" by simp_all
    have "?Y ! ((n div G) * G + n mod G) = ctx ! (n div G) ! (n mod G)"
      using b j B G by (intro nth_concat_uniform) auto
    then show ?thesis using e by simp
  qed
  have v: "critic_dist self (?X ! n) (?Y ! n) = Inr (?v n)" if "n < ?N" for n
    using d[of "n div G" "n mod G"] div_mod_decomp[OF G0 that] Xn[OF that] Yn[OF that]
    by simp
  note fa = batch_actor_mean[OF lX lY N0 v, of "\<lambda>i j. 0"]
  note fc = batch_critic[OF lX lY v]
  have neg: "tmap uminus (map (\<lambda>n. [min (q1_of self (?X ! n) (?Y ! n))
                                        (q2_of self (?X ! n) (?Y ! n))]) [0..<?N]) =
             map (\<lambda>n. [?v n]) [0..<?N]"
    using critic_dist_rows(5)[OF v] by (simp add: tmap_def)
  have cM: "map ?v [0..<?N] = concat ?M"
  proof (rule nth_equalityI)
    show "length (map ?v [0..<?N]) = length (concat ?M)"
      by (subst length_concat_uniform[of _ G]) auto
    fix n assume "n < length (map ?v [0..<?N])"
    then have n: "n < ?N" by simp
    from div_mod_decomp[OF G0 n] have b: "n div G < ?B" and j: "n mod G < G"
      and e: "(n div G) * G + n mod G = n" by simp_all
    have "concat ?M ! ((n div G) * G + n mod G) = ?M ! (n div G) ! (n mod G)"
      using b j by (intro nth_concat_uniform) auto
    then show "map ?v [0..<?N] ! n = concat ?M ! n" using e b j n by simp
  qed
  have vr: "view_rows (length ctx) G (concat (map (\<lambda>n. [?v n]) [0..<?N])) = Inr ?M"
    unfolding concat_singletons cM using B by (intro view_rows_concat) auto
  show ?thesis
    by (simp only: vX vY sum.case fa fc prod.case tzip_min_singletons neg vr)
qed


lemma topk_mean:
  assumes k0: "0 < k" and kG: "k \<le> G"
  shows "\<exists>dist_m idxs.
     (case mapE (topk_row tie k) (map (\<lambda>b. map (d b) [0..<G]) [0..<B]) of
        Inl e \<Rightarrow> Inl e
      | Inr sel \<Rightarrow>
          (case mapE mean_row (map fst sel) of
             Inl e \<Rightarrow> Inl e
           | Inr dist_m \<Rightarrow> Inr (dist_m, map snd sel))) = Inr (dist_m, idxs) \<and>
     length dist_m = B \<and> length idxs = B \<and>
     (\<forall>b < B. length (idxs ! b) = k \<and> distinct (idxs ! b) \<and> (\<forall>i \<in> set (idxs ! b). i < G) \<and>
        map ((!) (map (d b) [0..<G])) (idxs ! b) = take k (sort (map (d b) [0..<G])) \<and>
        dist_m ! b = [sum_list (take k (sort (map (d b) [0..<G]))) / real k])"
proof -
  let ?row = "\<lambda>b. map (d b) [0..<G]"
  let ?sel = "\<lambda>b. projr (topk_row tie k (?row b))"
  let ?top = "\<lambda>b. take k (sort (?row b))"
  have spec: "topk_row tie k (?row b) = Inr (?sel b) \<and> fst (?sel b) = ?top b \<and>
      length (snd (?sel b)) = k \<and> distinct (snd (?sel b)) \<and>
      (\<forall>i \<in> set (snd (?sel b)). i < G) \<and> map ((!) (?row b)) (snd (?sel b)) = ?top b" for b
  proof -
    have "k \<le> length (?row b)" using kG by simp
    from topk_row_spec[OF this] obtain idxs where
      "topk_row tie k (?row b) = Inr (?top b, idxs)" "length idxs = k" "distinct idxs"
      "\<forall>i \<in> set idxs. i < length (?row b)" "map ((!) (?row b)) idxs = ?top b"
      by blast
    then show ?thesis by simp
  qed
  have sel: "mapE (topk_row tie k) (map ?row [0..<B]) = Inr (map ?sel [0..<B])"
    using spec by (intro mapE_upt) simp_all
  have ltop: "length (?top b) = k" for b using kG by simp
  have mean: "mean_row (?top b) = Inr [sum_list (?top b) / real k]" for b
    using ltop[of b] k0 unfolding mean_row_def by (metis length_0_conv less_numeral_extra(3))
  have means: "mapE mean_row (map fst (map ?sel [0..<B])) =
      Inr (map (\<lambda>b. [sum_list (?top b) / real k]) [0..<B])"
    using spec mean by (intro mapE_upt) simp_all
  show ?thesis
    apply (rule exI[of _ "map (\<lambda>b. [sum_list (?top b) / real k]) [0..<B]"])
    apply (rule exI[of _ "map snd (map ?sel [0..<B])"])
    apply (simp only: sel sum.case means)
    using spec by simp
qed

lemma critic_dist_rowsI:
  assumes out: "mlp_row (a_l1 (actor self)) (a_l2 (actor self)) (a_l3 (actor self))
            (s @ (if actor_only_pos (actor self) then take 2 g else g)) = Inr out"
    and b: "length (bias (a_l3 (actor self))) = 2 * D"
    and q1: "mlp_row (c_l1 (critic self)) (c_l2 (critic self)) (c_l3 (critic self))
            ((s @ (if critic_only_pos (critic self) then take 2 g else g)) @
             map tanh (take D out)) = Inr [q1]"
    and q2: "mlp_row (c_l4 (critic self)) (c_l5 (critic self)) (c_l6 (critic self))
            ((s @ (if critic_only_pos (critic self) then take 2 g else g)) @
             map tanh (take D out)) = Inr [q2]"
  shows "critic_dist self s g = Inr (- min q1 q2)"
proof -
  have n: "out_features (a_l3 (actor self)) \<noteq> 1"
    "(out_features (a_l3 (actor self)) + 1) div 2 = D"
    using b by (simp_all add: out_features_def)
  show ?thesis
    using out q1 q2 n
    by (simp add: critic_dist_def DistActor_forward_single DistCritic_forward_single
        act_in_def cri_in_def)
qed

text \<open>
  C4. Let every row of the batch have a state and \<open>G > 0\<close> candidate goals of the state's
  dimension, let \<open>num_candidates\<close> be positive, and let \<open>d b j\<close> be the distance between
  the state of row \<open>b\<close> and its candidate \<open>j\<close>. In Euclidean mode this is the norm of the
  difference of the first two coordinates. Otherwise the actor's layers, applied to state
  and goal, give \<open>out\<close>, whose first half is the mean; the action is \<open>tanh\<close> of this
  mean; the two critic heads, applied to state, goal and this action, give \<open>q1\<close> and
  \<open>q2\<close>; and \<open>d b j = -min(q1, q2)\<close>. Then \<open>get_distance\<close> returns, for each row, the
  mean of the \<open>k = min(num_candidates, G)\<close> smallest of these distances, and \<open>k\<close>
  distinct indices of candidates whose distances are those \<open>k\<close> smallest, in ascending
  order, whatever \<open>topk\<close> chooses among equal distances.
\<close>

theorem get_distance_best_of_k:
  assumes B: "length repeated_ctx = length state" and ne: "state \<noteq> []"
    and G: "\<And>c. c \<in> set repeated_ctx \<Longrightarrow> length c = G" and G0: "0 < G"
    and ds: "\<And>s. s \<in> set state \<Longrightarrow> length s = dd"
    and dg: "\<And>c g. c \<in> set repeated_ctx \<Longrightarrow> g \<in> set c \<Longrightarrow> length g = dd"
    and dd: "use_l2 self \<or> 0 < dd"
    and nc: "0 < num_candidates self"
    and l3: "use_l2 self \<or> length (bias (a_l3 (actor self))) = 2 * D"
    and dl: "\<And>b j. use_l2 self \<Longrightarrow> b < length state \<Longrightarrow> j < G \<Longrightarrow>
               d b j = sqrt (sum_list (map (\<lambda>x. x\<^sup>2)
                         (map2 (-) (take 2 (state ! b)) (take 2 (repeated_ctx ! b ! j)))))"
    and dc: "\<And>b j. \<not> use_l2 self \<Longrightarrow> b < length state \<Longrightarrow> j < G \<Longrightarrow>
               \<exists>out q1 q2.
                 mlp_row (a_l1 (actor self)) (a_l2 (actor self)) (a_l3 (actor self))
                   (state ! b @ (if actor_only_pos (actor self)
                                 then take 2 (repeated_ctx ! b ! j)
                                 else repeated_ctx ! b ! j)) = Inr out \<and>
                 mlp_row (c_l1 (critic self)) (c_l2 (critic self)) (c_l3 (critic self))
                   ((state ! b @ (if critic_only_pos (critic self)
                                  then take 2 (repeated_ctx ! b ! j)
                                  else repeated_ctx ! b ! j)) @
                    map tanh (take D out)) = Inr [q1] \<and>
                 mlp_row (c_l4 (critic self)) (c_l5 (critic self)) (c_l6 (critic self))
                   ((state ! b @ (if critic_only_pos (critic self)
                                  then take 2 (repeated_ctx ! b ! j)
                                  else repeated_ctx ! b ! j)) @
                    map tanh (take D out)) = Inr [q2] \<and>
                 d b j = - min q1 q2"
  shows "\<exists>dist_m idxs. get_distance tie self state repeated_ctx = Inr (dist_m, idxs) \<and>
     length dist_m = length state \<and> length idxs = length state \<and>
     (\<forall>b < length state.
        length (idxs ! b) = nat (min (num_candidates self) (int G)) \<and>
        distinct (idxs ! b) \<and> (\<forall>i \<in> set (idxs ! b). i < G) \<and>
        map ((!) (map (d b) [0..<G])) (idxs ! b) =
          take (nat (min (num_candidates self) (int G))) (sort (map (d b) [0..<G])) \<and>
        dist_m ! b =
          [sum_list (take (nat (min (num_candidates self) (int G))) (sort (map (d b) [0..<G])))
             / real (nat (min (num_candidates self) (int G)))])"
proof -
  let ?k = "nat (min (num_candidates self) (int G))"
  let ?M = "map (\<lambda>b. map (d b) [0..<G]) [0..<length state]"
  obtain c0 cs where ctx: "repeated_ctx = c0 # cs"
    using B ne by (cases repeated_ctx) auto
  have lc0: "length c0 = G" using G ctx by simp
  then obtain g0 gs where c0: "c0 = g0 # gs" using G0 by (cases c0) auto
  have lg0: "length g0 = dd" using dg[of c0 g0] ctx c0 by simp
  have ng: "(case repeated_ctx of [] \<Rightarrow> 0 | c # _ \<Rightarrow> length c) = G"
    using ctx lc0 by simp
  have sd: "(case concat repeated_ctx of [] \<Rightarrow> 1 | g # _ \<Rightarrow> length g) = dd"
    using ctx c0 lg0 by simp
  have k: "0 < ?k" "?k \<le> G" "\<not> min (num_candidates self) (int G) < 0"
    using nc G0 by auto
  have M: "(if use_l2 self
            then (case tzip3 (-) (map (map (take 2)) (map (replicate G) state))
                             (map (map (take 2)) repeated_ctx) of
                    Inl e \<Rightarrow> Inl e
                  | Inr diff \<Rightarrow>
                      Inr (map (map (\<lambda>d. sqrt (sum_list (map (\<lambda>x. x\<^sup>2) d)))) diff))
            else (case view_m1 dd (concat (concat (map (replicate G) state))) of
                    Inl e \<Rightarrow> Inl e
                  | Inr rs \<Rightarrow>
                (case view_m1 dd (concat (concat repeated_ctx)) of
                    Inl e \<Rightarrow> Inl e
                  | Inr rc \<Rightarrow>
                (case DistActor_forward (actor self) (\<lambda>i j. 0) rs rc False False of
                    Inl e \<Rightarrow> Inl e
                  | Inr (repeated_action, _, _) \<Rightarrow>
                (case DistCritic_forward (critic self) rs rc repeated_action of
                    Inl e \<Rightarrow> Inl e
                  | Inr (q1, q2) \<Rightarrow>
                (case tzip min q1 q2 of
                    Inl e \<Rightarrow> Inl e
                  | Inr m \<Rightarrow>
                      view_rows (length repeated_ctx) G (concat (tmap uminus m)))))))) =
           Inr ?M"
  proof (cases "use_l2 self")
    case True
    have "d b j = sqrt (sum_list (map (\<lambda>x. x\<^sup>2)
                         (map2 (-) (take 2 (state ! b)) (take 2 (repeated_ctx ! b ! j)))))"
      if "b < length state" "j < G" for b j
      using dl[OF True that] .
    then have "map (map (\<lambda>d. sqrt (sum_list (map (\<lambda>x. x\<^sup>2) d))))
        (map (\<lambda>b. map (\<lambda>j. map2 (-) (take 2 (state ! b)) (take 2 (repeated_ctx ! b ! j)))
                 [0..<G]) [0..<length state]) = ?M"
      by simp
    then show ?thesis
      using True by (simp only: if_True l2_matrix[OF B G ds dg] sum.case)
  next
    case False
    then have dd0: "0 < dd" using dd by simp
    from False l3 have b: "length (bias (a_l3 (actor self))) = 2 * D" by simp
    have "critic_dist self (state ! b) (repeated_ctx ! b ! j) = Inr (d b j)"
      if "b < length state" "j < G" for b j
    proof -
      from dc[OF False that] obtain out q1 q2 where
        o: "mlp_row (a_l1 (actor self)) (a_l2 (actor self)) (a_l3 (actor self))
                   (state ! b @ (if actor_only_pos (actor self)
                                 then take 2 (repeated_ctx ! b ! j)
                                 else repeated_ctx ! b ! j)) = Inr out"
        and q1: "mlp_row (c_l1 (critic self)) (c_l2 (critic self)) (c_l3 (critic self))
                   ((state ! b @ (if critic_only_pos (critic self)
                                  then take 2 (repeated_ctx ! b ! j)
                                  else repeated_ctx ! b ! j)) @
                    map tanh (take D out)) = Inr [q1]"
        and q2: "mlp_row (c_l4 (critic self)) (c_l5 (critic self)) (c_l6 (critic self))
                   ((state ! b @ (if critic_only_pos (critic self)
                                  then take 2 (repeated_ctx ! b ! j)
                                  else repeated_ctx ! b ! j)) @
                    map tanh (take D out)) = Inr [q2]"
        and e: "d b j = - min q1 q2"
        by blast
      from critic_dist_rowsI[OF o b q1 q2] e show ?thesis by simp
    qed
    from critic_matrix[OF B G G0 ds dg dd0 ne this] show ?thesis
      using False by (simp only: if_False)
  qed
  from topk_mean[OF k(1,2), of tie d "length state"] obtain dist_m idxs where
    r: "(case mapE (topk_row tie ?k) ?M of
        Inl e \<Rightarrow> Inl e
      | Inr sel \<Rightarrow>
          (case mapE mean_row (map fst sel) of
             Inl e \<Rightarrow> Inl e
           | Inr dist_m \<Rightarrow> Inr (dist_m, map snd sel))) = Inr (dist_m, idxs)"
    and p: "length dist_m = length state" "length idxs = length state"
      "\<forall>b < length state. length (idxs ! b) = ?k \<and> distinct (idxs ! b) \<and>
        (\<forall>i \<in> set (idxs ! b). i < G) \<and>
        map ((!) (map (d b) [0..<G])) (idxs ! b) = take ?k (sort (map (d b) [0..<G])) \<and>
        dist_m ! b = [sum_list (take ?k (sort (map (d b) [0..<G]))) / real ?k]"
    by blast
  have "get_distance tie self state repeated_ctx = Inr (dist_m, idxs)"
    unfolding get_distance_def
    by (simp only: Let_def ng sd M sum.case k(3) if_False r)
  with p show ?thesis by blast
qed

lemma sqrt25: "sqrt 25 = 5"
proof -
  have "sqrt ((5::real)\<^sup>2) = 5" by (simp del: power2_eq_square)
  then show ?thesis by simp
qed

lemma best_of_one:
  fixes a b m :: real
  assumes "length dist_m = 1" "length idxs = 1" "length (idxs ! 0) = 1"
    "\<forall>i \<in> set (idxs ! 0). i < 2" "map ((!) [a, b]) (idxs ! 0) = [b]" "a \<noteq> b"
    "dist_m ! 0 = [m]"
  shows "dist_m = [[m]] \<and> idxs = [[1::nat]]"
proof -
  obtain r where dm: "dist_m = [r]" using assms(1) by (cases dist_m) auto
  obtain js where ix: "idxs = [js]" using assms(2) by (cases idxs) auto
  obtain i where i: "js = [i]" using assms(3) ix by (cases js) auto
  have "i < 2" "[a, b] ! i = b" using assms(4,5) ix i by simp_all
  then have "i = 1" using assms(6) by (cases i) auto
  then show ?thesis using dm ix i assms(7) by simp
qed

lemma topk_row_ties:
  "topk_row first_pos 2 [2, 1, 1, 1] = Inr ([1, 1], [1, 2])"
  "topk_row (\<lambda>row i. if i = 1 then 4 else i) 2 [2, 1, 1, 1] = Inr ([1, 1], [2, 3])"
  by (simp_all add: topk_row_def first_pos_def upt_rec Let_def)

lemma l2_ex:
  "sqrt (sum_list (map (\<lambda>x. x\<^sup>2) (map2 (-) (take 2 [0, 0]) (take 2 [3, 4])))) = 5"
  "sqrt (sum_list (map (\<lambda>x. x\<^sup>2) (map2 (-) (take 2 [0, 0]) (take 2 [1, 0])))) = 1"
  by (simp_all add: sqrt25)

lemma dist_actor_ex_row:
  "mlp_row (a_l1 (actor dist_ex)) (a_l2 (actor dist_ex)) (a_l3 (actor dist_ex)) [s, g] =
     Inr [max 0 (max 0 (s + g)), 0]"
  by (simp add: dist_ex_def dist_actor_ex_def lin1_def mlp_row_def Linear_row_def relu_def)

lemma dist_critic_ex_rows:
  "mlp_row (c_l1 (critic dist_ex)) (c_l2 (critic dist_ex)) (c_l3 (critic dist_ex)) [s, g, u] =
     Inr [max 0 (max 0 (s + g + u)) + 2]"
  "mlp_row (c_l4 (critic dist_ex)) (c_l5 (critic dist_ex)) (c_l6 (critic dist_ex)) [s, g, u] =
     Inr [max 0 (max 0 (s + g + u)) + 3]"
  by (simp_all add: dist_ex_def dist_critic_ex_def lin1_def mlp_row_def Linear_row_def relu_def)

lemma tanh_ex: "0 < tanh (1 :: real)" "0 < tanh (2 :: real)" "tanh (1 :: real) < 1"
  by (simp_all add: tanh_real_lt_1)

theorem get_distance_best_of_k_witness:
  "0 < num_candidates (dist_ex\<lparr>use_l2 := True\<rparr>) \<and>
   get_distance first_pos (dist_ex\<lparr>use_l2 := True\<rparr>) [[0, 0]] [[[3, 4], [1, 0]]] =
     Inr ([[1]], [[1]]) \<and>
   0 < num_candidates dist_ex \<and> length (bias (a_l3 (actor dist_ex))) = 2 * 1 \<and>
   mlp_row (a_l1 (actor dist_ex)) (a_l2 (actor dist_ex)) (a_l3 (actor dist_ex)) [0, 1] =
     Inr [1, 0] \<and>
   mlp_row (c_l1 (critic dist_ex)) (c_l2 (critic dist_ex)) (c_l3 (critic dist_ex))
     [0, 1, tanh 1] = Inr [3 + tanh 1] \<and>
   mlp_row (c_l4 (critic dist_ex)) (c_l5 (critic dist_ex)) (c_l6 (critic dist_ex))
     [0, 1, tanh 1] = Inr [4 + tanh 1] \<and>
   mlp_row (a_l1 (actor dist_ex)) (a_l2 (actor dist_ex)) (a_l3 (actor dist_ex)) [0, 2] =
     Inr [2, 0] \<and>
   mlp_row (c_l1 (critic dist_ex)) (c_l2 (critic dist_ex)) (c_l3 (critic dist_ex))
     [0, 2, tanh 2] = Inr [4 + tanh 2] \<and>
   mlp_row (c_l4 (critic dist_ex)) (c_l5 (critic dist_ex)) (c_l6 (critic dist_ex))
     [0, 2, tanh 2] = Inr [5 + tanh 2] \<and>
   get_distance first_pos dist_ex [[0]] [[[1], [2]]] = Inr ([[- (4 + tanh 2)]], [[1]])"
proof -
  let ?l2 = "dist_ex\<lparr>use_l2 := True\<rparr>"
  have nc: "0 < num_candidates ?l2" "0 < num_candidates dist_ex" by (simp_all add: dist_ex_def)
  have nl: "\<not> use_l2 dist_ex" by (simp add: dist_ex_def)
  have b3: "length (bias (a_l3 (actor dist_ex))) = 2 * 1"
    by (simp add: dist_ex_def dist_actor_ex_def)
  have ao: "\<not> actor_only_pos (actor dist_ex)" "\<not> critic_only_pos (critic dist_ex)"
    by (simp_all add: dist_ex_def dist_actor_ex_def dist_critic_ex_def)
  have a1: "mlp_row (a_l1 (actor dist_ex)) (a_l2 (actor dist_ex)) (a_l3 (actor dist_ex)) [0, 1] =
     Inr [1, 0]"
    and a2: "mlp_row (a_l1 (actor dist_ex)) (a_l2 (actor dist_ex)) (a_l3 (actor dist_ex)) [0, 2] =
     Inr [2, 0]"
    by (simp_all add: dist_actor_ex_row)
  have c1: "mlp_row (c_l1 (critic dist_ex)) (c_l2 (critic dist_ex)) (c_l3 (critic dist_ex))
     [0, 1, tanh 1] = Inr [3 + tanh 1]"
    "mlp_row (c_l4 (critic dist_ex)) (c_l5 (critic dist_ex)) (c_l6 (critic dist_ex))
     [0, 1, tanh 1] = Inr [4 + tanh 1]"
    using tanh_ex by (simp_all add: dist_critic_ex_rows)
  have c2: "mlp_row (c_l1 (critic dist_ex)) (c_l2 (critic dist_ex)) (c_l3 (critic dist_ex))
     [0, 2, tanh 2] = Inr [4 + tanh 2]"
    "mlp_row (c_l4 (critic dist_ex)) (c_l5 (critic dist_ex)) (c_l6 (critic dist_ex))
     [0, 2, tanh 2] = Inr [5 + tanh 2]"
    using tanh_ex by (simp_all add: dist_critic_ex_rows)
  have k: "nat (min (num_candidates ?l2) (int 2)) = 1" "nat (min (num_candidates dist_ex) (int 2)) = 1"
    by (simp_all add: dist_ex_def)
  have u: "[0..<2] = [0, 1]" by (simp add: upt_rec)
  have n1: "num_candidates dist_ex = 1" by (simp add: dist_ex_def)
  have d1: "[5, 1] ! j = sqrt (sum_list (map (\<lambda>x. x\<^sup>2)
                (map2 (-) (take 2 ([[0, 0]] ! b)) (take 2 ([[[3, 4], [1, 0]]] ! b ! j)))))"
    if "b < length [[0::real, 0]]" "j < 2" for b j
    using that l2_ex by (cases j) (auto simp: less_Suc_eq)
  have "\<exists>m1 i1. get_distance first_pos ?l2 [[0, 0]] [[[3, 4], [1, 0]]] = Inr (m1, i1) \<and>
     length m1 = length [[0::real, 0]] \<and> length i1 = length [[0::real, 0]] \<and>
     (\<forall>b < length [[0::real, 0]].
        length (i1 ! b) = nat (min (num_candidates ?l2) (int 2)) \<and>
        distinct (i1 ! b) \<and> (\<forall>i \<in> set (i1 ! b). i < 2) \<and>
        map ((!) (map (\<lambda>j. [5::real, 1] ! j) [0..<2])) (i1 ! b) =
          take (nat (min (num_candidates ?l2) (int 2))) (sort (map (\<lambda>j. [5::real, 1] ! j) [0..<2])) \<and>
        m1 ! b =
          [sum_list (take (nat (min (num_candidates ?l2) (int 2)))
                      (sort (map (\<lambda>j. [5::real, 1] ! j) [0..<2])))
             / real (nat (min (num_candidates ?l2) (int 2)))])"
    by (rule get_distance_best_of_k[where dd = 2 and D = 1]) (use nc(1) d1 in auto)
  then obtain m1 i1 where r1: "get_distance first_pos ?l2 [[0, 0]] [[[3, 4], [1, 0]]] = Inr (m1, i1)"
    and p1: "length m1 = 1" "length i1 = 1" "length (i1 ! 0) = 1"
      "\<forall>i \<in> set (i1 ! 0). i < 2" "map ((!) [5, 1]) (i1 ! 0) = [1::real]" "m1 ! 0 = [1]"
    by (auto simp: n1 u)
  from best_of_one[OF p1(1-5) _ p1(6)] r1
  have g1: "get_distance first_pos ?l2 [[0, 0]] [[[3, 4], [1, 0]]] = Inr ([[1]], [[1]])" by simp
  define e1 e2 :: real where "e1 = - (3 + tanh 1)" and "e2 = - (4 + tanh 2)"
  have lt: "e2 < e1" using tanh_ex unfolding e1_def e2_def by linarith
  have d2: "\<exists>out q1 q2.
       mlp_row (a_l1 (actor dist_ex)) (a_l2 (actor dist_ex)) (a_l3 (actor dist_ex))
         ([[0]] ! b @ (if actor_only_pos (actor dist_ex) then take 2 ([[[1], [2]]] ! b ! j)
                       else [[[1], [2]]] ! b ! j)) = Inr out \<and>
       mlp_row (c_l1 (critic dist_ex)) (c_l2 (critic dist_ex)) (c_l3 (critic dist_ex))
         (([[0]] ! b @ (if critic_only_pos (critic dist_ex) then take 2 ([[[1], [2]]] ! b ! j)
                        else [[[1], [2]]] ! b ! j)) @ map tanh (take 1 out)) = Inr [q1] \<and>
       mlp_row (c_l4 (critic dist_ex)) (c_l5 (critic dist_ex)) (c_l6 (critic dist_ex))
         (([[0]] ! b @ (if critic_only_pos (critic dist_ex) then take 2 ([[[1], [2]]] ! b ! j)
                        else [[[1], [2]]] ! b ! j)) @ map tanh (take 1 out)) = Inr [q2] \<and>
       [e1, e2] ! j = - min q1 q2"
    if "b < length [[0::real]]" "j < 2" for b j
  proof -
    from that have b: "b = 0" and j: "j = 0 \<or> j = 1" by auto
    from j show ?thesis
    proof
      assume j0: "j = 0"
      show ?thesis
        unfolding b j0
        apply (rule exI[of _ "[1, 0]"], rule exI[of _ "3 + tanh 1"], rule exI[of _ "4 + tanh 1"])
        using a1 c1 ao by (simp add: e1_def)
    next
      assume j1: "j = 1"
      show ?thesis
        unfolding b j1
        apply (rule exI[of _ "[2, 0]"], rule exI[of _ "4 + tanh 2"], rule exI[of _ "5 + tanh 2"])
        using a2 c2 ao by (simp add: e2_def)
    qed
  qed
  have "\<exists>m2 i2. get_distance first_pos dist_ex [[0]] [[[1], [2]]] = Inr (m2, i2) \<and>
     length m2 = length [[0::real]] \<and> length i2 = length [[0::real]] \<and>
     (\<forall>b < length [[0::real]].
        length (i2 ! b) = nat (min (num_candidates dist_ex) (int 2)) \<and>
        distinct (i2 ! b) \<and> (\<forall>i \<in> set (i2 ! b). i < 2) \<and>
        map ((!) (map (\<lambda>j. [e1, e2] ! j) [0..<2])) (i2 ! b) =
          take (nat (min (num_candidates dist_ex) (int 2)))
            (sort (map (\<lambda>j. [e1, e2] ! j) [0..<2])) \<and>
        m2 ! b =
          [sum_list (take (nat (min (num_candidates dist_ex) (int 2)))
                      (sort (map (\<lambda>j. [e1, e2] ! j) [0..<2])))
             / real (nat (min (num_candidates dist_ex) (int 2)))])"
    by (rule get_distance_best_of_k[where dd = 1 and D = 1]) (use nc(2) nl b3 d2 in auto)
  then obtain m2 i2 where r2: "get_distance first_pos dist_ex [[0]] [[[1], [2]]] = Inr (m2, i2)"
    and p2: "length m2 = 1" "length i2 = 1" "length (i2 ! 0) = 1"
      "\<forall>i \<in> set (i2 ! 0). i < 2" "map ((!) [e1, e2]) (i2 ! 0) = [e2]" "m2 ! 0 = [e2]"
    using lt by (auto simp: n1 u)
  from lt have ne: "e1 \<noteq> e2" by simp
  from best_of_one[OF p2(1-5) ne p2(6)] r2
  have g2: "get_distance first_pos dist_ex [[0]] [[[1], [2]]] = Inr ([[e2]], [[1]])" by simp
  show ?thesis
    by (intro conjI nc b3 a1 a2 c1 c2 g1 g2[unfolded e2_def])
qed

subsection \<open>Training\<close>

lemma bcast_scalar: "bcast f a [m] = Inr (map (\<lambda>x. f x m) a)"
proof (cases "length a = 1")
  case True
  then obtain x where "a = [x]" by (cases a) auto
  then show ?thesis by (simp add: bcast_def)
next
  case False
  then show ?thesis by (simp add: bcast_def)
qed

lemma tzip_col:
  assumes "length A = n"
  shows "tzip f A (map (\<lambda>i. [m i]) [0..<n]) = Inr (map (\<lambda>i. map (\<lambda>x. f x (m i)) (A ! i)) [0..<n])"
  using assms by (simp add: tzip_def bzip_same mapE_Inr_iff bcast_scalar)

lemma norm_all_zero:
  assumes z: "\<And>r x. r \<in> set A \<Longrightarrow> x \<in> set r \<Longrightarrow> x = 0"
  shows "norm_all A = 0"
proof -
  have "map (\<lambda>x. x\<^sup>2) (concat A) = map (\<lambda>x. 0) (concat A)"
    using z by (intro map_cong) auto
  then have "sum_list (map (\<lambda>x. x\<^sup>2) (concat A)) = 0"
    by (simp only: sum_list_0)
  then show ?thesis by (simp add: norm_all_def)
qed

text \<open>
  C9. Two calls of \<open>DistSAC.train\<close> that differ only in the reward, the done flags (and
  the seventh component) that the replay buffer delivered return the same agent and the
  same log, and fail in the same way: these components are never read.
\<close>

theorem DistSAC_train_ignores_reward_done:
  "DistSAC_train opt self (state, action, reward1, next_state, done1, goals, extra1)
       rand randn_c randn_a step L discount tau policy_freq target_entropy =
   DistSAC_train opt self (state, action, reward2, next_state, done2, goals, extra2)
       rand randn_c randn_a step L discount tau policy_freq target_entropy"
  by (simp add: DistSAC_train_def)

lemma goal_masks_eq:
  "goal_masks B rand =
     (map (\<lambda>i. [if rand i > 9 / 10 then 1 else 0]) [0..<B],
      map (\<lambda>i. [1 - (if rand i > 9 / 10 then 1 else 0)]) [0..<B])"
  by (simp add: goal_masks_def tmap_def Let_def)


lemma mix_rows:
  fixes s g :: vec
  assumes "length g = length s"
  shows "map2 (+) (map (\<lambda>x. x * m) s) (map (\<lambda>x. x * (1 - m)) g) =
         map2 (\<lambda>x y. x * m + y * (1 - m)) s g"
  using assms by (intro nth_equalityI) simp_all

lemma mix_one: "length g = length s \<Longrightarrow> map2 (\<lambda>x y. x) s g = (s::vec)"
  by (intro nth_equalityI) simp_all

lemma mix_zero: "length g = length s \<Longrightarrow> map2 (\<lambda>x y. y) s g = (g::vec)"
  by (intro nth_equalityI) simp_all

lemma relabel_rows_spec:
  assumes lg: "length goals = length state"
    and lw: "\<And>b. b < length state \<Longrightarrow> length (goals ! b) = length (state ! b)"
  shows "\<exists>goals' done reward.
     relabel state goals rand = Inr (goals', done, reward) \<and>
     length goals' = length state \<and> length done = length state \<and>
     length reward = length state \<and>
     (\<forall>b < length state.
        (\<exists>sm tm. fst (goal_masks (length state) rand) ! b = [sm] \<and>
                 snd (goal_masks (length state) rand) ! b = [tm] \<and>
                 sm + tm = 1 \<and> (sm = 1 \<longleftrightarrow> rand b > 9 / 10) \<and> (sm = 0 \<longleftrightarrow> \<not> rand b > 9 / 10)) \<and>
        (rand b > 9 / 10 \<longrightarrow> goals' ! b = state ! b) \<and>
        (\<not> rand b > 9 / 10 \<longrightarrow> goals' ! b = goals ! b) \<and>
        (rand b = 9 / 10 \<longrightarrow> goals' ! b = goals ! b) \<and>
        (\<exists>dn. done ! b = [dn] \<and> (dn = 1 \<or> dn = 0) \<and>
           (dn = 1 \<longleftrightarrow>
              sqrt (sum_list (map (\<lambda>x. x\<^sup>2) (map2 (-) (state ! b) (goals' ! b)))) < 1 / 10 ^ 5) \<and>
           reward ! b = [- (1 - dn)] \<and> (reward ! b = [0] \<longleftrightarrow> dn = 1) \<and>
           (reward ! b = [- 1] \<longleftrightarrow> dn = 0)))"
proof -
  let ?B = "length state"
  let ?sm = "\<lambda>i. if rand i > 9 / 10 then 1 else (0::real)"
  let ?same = "map (\<lambda>i. [?sm i]) [0..<?B]"
  let ?traj = "map (\<lambda>i. [1 - ?sm i]) [0..<?B]"
  let ?ng = "\<lambda>i. if rand i > 9 / 10 then state ! i else goals ! i"
  let ?G = "map ?ng [0..<?B]"
  let ?nrm = "\<lambda>i. sqrt (sum_list (map (\<lambda>x. x\<^sup>2) (map2 (-) (state ! i) (?ng i))))"
  let ?dn = "\<lambda>i. if ?nrm i < 1 / 10 ^ 5 then 1 else (0::real)"
  let ?D = "map (\<lambda>i. [?dn i]) [0..<?B]"
  let ?R = "map (\<lambda>i. [- (1 - ?dn i)]) [0..<?B]"
  have gm: "goal_masks ?B rand = (?same, ?traj)" by (rule goal_masks_eq)
  have ms: "tzip (+) ?same ?traj = Inr (map (\<lambda>i. [1]) [0..<?B])"
    by (subst tzip_rows[where n = ?B]) simp_all
  have a1: "norm_all (tmap (\<lambda>x. x - 1) (map (\<lambda>i. [1]) [0..<?B])) < 1 / 10 ^ 3"
    by (subst norm_all_zero) (auto simp: tmap_def)
  have mp: "tzip (*) ?same ?traj = Inr (map (\<lambda>i. [0]) [0..<?B])"
    by (subst tzip_rows[where n = ?B]) simp_all
  have a2: "norm_all (map (\<lambda>i. [0]) [0..<?B]) < 1 / 10 ^ 3"
    by (subst norm_all_zero) auto
  have sp: "tzip (*) state ?same = Inr (map (\<lambda>i. map (\<lambda>x. x * ?sm i) (state ! i)) [0..<?B])"
    by (rule tzip_col) simp
  have tp: "tzip (*) goals ?traj = Inr (map (\<lambda>i. map (\<lambda>x. x * (1 - ?sm i)) (goals ! i)) [0..<?B])"
    by (rule tzip_col) (rule lg)
  have ng: "tzip (+) (map (\<lambda>i. map (\<lambda>x. x * ?sm i) (state ! i)) [0..<?B])
                     (map (\<lambda>i. map (\<lambda>x. x * (1 - ?sm i)) (goals ! i)) [0..<?B]) = Inr ?G"
  proof -
    have "map2 (+) (map (\<lambda>x. x * ?sm i) (state ! i)) (map (\<lambda>x. x * (1 - ?sm i)) (goals ! i)) = ?ng i"
      if "i < ?B" for i
      using lw[OF that] by (simp add: mix_rows mix_one mix_zero)
    then show ?thesis
      using lw by (subst tzip_rows[where n = ?B]) simp_all
  qed
  have df: "tzip (-) state ?G = Inr (map (\<lambda>i. map2 (-) (state ! i) (?ng i)) [0..<?B])"
    using lw by (subst tzip_rows[where n = ?B]) simp_all
  have dn: "tmap (\<lambda>nm. if nm < 1 / 10 ^ 5 then 1 else 0)
              (norm_last (map (\<lambda>i. map2 (-) (state ! i) (?ng i)) [0..<?B])) = ?D"
    by (simp add: tmap_def norm_last_def)
  have rw: "tmap (\<lambda>d. - (1 - d)) ?D = ?R" by (simp add: tmap_def)
  have r: "relabel state goals rand = Inr (?G, ?D, ?R)"
    unfolding relabel_def
    by (simp only: gm prod.case ms sum.case a1 not_not if_False if_True mp a2 sp tp ng df
        Let_def dn rw simp_thms)
  show ?thesis
    apply (rule exI[of _ ?G], rule exI[of _ ?D], rule exI[of _ ?R])
    apply (simp only: r gm fst_conv snd_conv)
    apply (simp add: lw)
    done
qed

lemma list2: "length xs = 2 \<Longrightarrow> xs = [xs ! 0, xs ! 1]"
  by (cases xs; cases "tl xs") auto

lemma tzip_length:
  assumes "tzip f A B = Inr C" "length A = length B"
  shows "length C = length A"
  using assms by (auto simp: tzip_def bzip_same mapE_Inr_iff)

lemma tzip_columns:
  "length a = length b \<Longrightarrow> tzip f (column a) (column b) = Inr (column (map2 f a b))"
  by (simp add: tzip_def bzip_same column_def mapE_Inr_iff bcast_same)

lemma tzip_to_column:
  assumes "tzip_to f (column r) B = Inr C"
  shows "\<exists>r'. C = column r' \<and> length r' = length r"
proof -
  have "bcast_to f [x] b = Inr y \<Longrightarrow> length y = 1" for x b y
    by (auto simp: bcast_to_def split: if_splits)
  then have rows: "\<And>x b y. bcast_to f [x] b = Inr y \<Longrightarrow> y = [hd y]"
    by (metis One_nat_def length_one_hd)
  from assms have lc: "length C = length r" and "\<forall>i < length r. C ! i = [hd (C ! i)]"
    by (auto simp: tzip_to_def mapE_Inr_iff column_def split: if_splits dest!: rows)
  then have "C = column (map hd C)"
    by (intro nth_equalityI) (simp_all add: column_def)
  with lc show ?thesis by (metis length_map)
qed

lemma column_hd:
  assumes "\<And>b. b < length A \<Longrightarrow> length (A ! b) = 1"
  shows "A = column (map hd A)"
proof (rule nth_equalityI)
  show "length A = length (column (map hd A))" by (simp add: column_def)
  fix i assume i: "i < length A"
  have "A ! i = [hd (A ! i)]" using assms[OF i] by (simp add: length_one_hd)
  then show "A ! i = column (map hd A) ! i" using i by (simp add: column_def)
qed

lemma column_nth: "b < length r \<Longrightarrow> column r ! b = [r ! b]"
  by (simp add: column_def)

lemma Critic_heads_shape:
  assumes "Critic_heads c xu = Inr (q1, q2)"
    and "length (weight (c_l3 c)) = 1" "length (bias (c_l3 c)) = 1"
    and "length (weight (c_l6 c)) = 1" "length (bias (c_l6 c)) = 1"
  shows "\<exists>v1 v2. q1 = column v1 \<and> q2 = column v2 \<and> length v1 = length xu \<and> length v2 = length xu"
proof -
  from assms(1) have m1: "mapE (mlp_row (c_l1 c) (c_l2 c) (c_l3 c)) xu = Inr q1"
    and m2: "mapE (mlp_row (c_l4 c) (c_l5 c) (c_l6 c)) xu = Inr q2"
    by (auto simp: Critic_heads_def split: sum.splits)
  note s1 = mlp_rows_length[OF m1 assms(2,3)] and s2 = mlp_rows_length[OF m2 assms(4,5)]
  have "q1 = column (map hd q1)" using s1(2) by (intro column_hd) simp
  moreover have "q2 = column (map hd q2)" using s2(2) by (intro column_hd) simp
  ultimately show ?thesis using s1(1) s2(1) by (metis length_map)
qed

lemma Critic_forward_shape:
  assumes "Critic_forward c x u = Inr (q1, q2)"
    and "length (weight (c_l3 c)) = 1" "length (bias (c_l3 c)) = 1"
    and "length (weight (c_l6 c)) = 1" "length (bias (c_l6 c)) = 1"
  shows "\<exists>v1 v2. q1 = column v1 \<and> q2 = column v2 \<and> length v1 = length x \<and> length v2 = length x"
proof -
  from assms(1) obtain xu where "cat1 x u = Inr xu" "Critic_heads c xu = Inr (q1, q2)"
    by (auto simp: Critic_forward_def split: sum.splits)
  moreover from this(1) have "length xu = length x"
    by (auto simp: cat1_def split: if_splits)
  ultimately show ?thesis using Critic_heads_shape[OF _ assms(2-5)] by metis
qed

lemma Critic_forward_length:
  assumes "Critic_forward c x u = Inr (q1, q2)"
  shows "length q1 = length x"
proof -
  from assms obtain xu where "cat1 x u = Inr xu" "Critic_heads c xu = Inr (q1, q2)"
    by (auto simp: Critic_forward_def split: sum.splits)
  moreover from this(1) have "length xu = length x"
    by (auto simp: cat1_def split: if_splits)
  ultimately show ?thesis
    by (auto simp: Critic_heads_def mapE_Inr_iff split: sum.splits)
qed


lemma sum_last_column: "tmap g (sum_last A) = column (map (\<lambda>r. g (sum_list r)) A)"
  by (simp add: tmap_def sum_last_def column_def)

lemma forward_head_shape:
  assumes "forward_head self rn out True True = Inr (mu, p, l)"
  shows "\<exists>pa lp. p = Some pa \<and> l = Some (column lp) \<and> length lp = length out \<and>
           length pa = length out"
proof -
  let ?n = "out_features (a_l3 self)"
  obtain mu0 ls0 where ch: "chunk2 ?n out = Inr (mu0, ls0)"
    using assms by (cases "chunk2 ?n out") (auto simp: forward_head_def)
  then have lm: "length mu0 = length out" and ll: "length ls0 = length out"
    by (auto simp: chunk2_def split: if_splits)
  define ls where "ls = tmap (\<lambda>l. log_std_min self +
                     (1 / 2) * (log_std_max self - log_std_min self) * (l + 1)) (tmap tanh ls0)"
  define noise where "noise = randn_like rn mu0"
  have lls: "length ls = length out" using ll by (simp add: ls_def tmap_def)
  have ln: "length noise = length out" using lm by (simp add: noise_def randn_like_def)
  have body: "(case (case tzip (*) noise (tmap exp ls) of
                  Inl e \<Rightarrow> Inl e
                | Inr ns \<Rightarrow>
                    (case tzip (+) mu0 ns of
                       Inl e \<Rightarrow> Inl e
                     | Inr p \<Rightarrow> Inr (Some noise, Some p))) of
            Inl e \<Rightarrow> Inl e
          | Inr (noise, pi_t) \<Rightarrow>
              (case (case noise of
                       None \<Rightarrow> Inl UnboundLocalError
                     | Some nz \<Rightarrow> map_sum id Some (gaussian_likelihood nz ls)) of
                 Inl e \<Rightarrow> Inl e
               | Inr log_pi \<Rightarrow> apply_squashing_func mu0 pi_t log_pi)) = Inr (mu, p, l)"
    using assms unfolding forward_head_def Let_def ch sum.case prod.case if_True ls_def noise_def .
  obtain ns where ns: "tzip (*) noise (tmap exp ls) = Inr ns"
    using body by (cases "tzip (*) noise (tmap exp ls)") auto
  have lns: "length ns = length out"
    using tzip_length[OF ns] ln lls by (simp add: tmap_def)
  obtain pa where pa: "tzip (+) mu0 ns = Inr pa"
    using body ns by (cases "tzip (+) mu0 ns") auto
  have lpa: "length pa = length out" using tzip_length[OF pa] lm lns by simp
  obtain glp where gl: "gaussian_likelihood noise ls = Inr glp"
    using body ns pa by (cases "gaussian_likelihood noise ls") auto
  obtain pre where pre: "tzip (\<lambda>n l. - (1 / 2) * n\<^sup>2 - l) noise ls = Inr pre"
    and glp: "glp = tmap (\<lambda>s. s - (1 / 2) * ln (2 * pi) * real (size_last noise)) (sum_last pre)"
    using gl by (auto simp: gaussian_likelihood_def split: sum.splits)
  have lpre: "length pre = length out" using tzip_length[OF pre] ln lls by simp
  have glc: "glp = column (map (\<lambda>r. sum_list r - (1 / 2) * ln (2 * pi) * real (size_last noise)) pre)"
    unfolding glp by (rule sum_last_column)
  have sq: "apply_squashing_func mu0 (Some pa) (Some glp) = Inr (mu, p, l)"
    using body ns pa gl by simp
  then obtain lp' where t: "tzip_to (-) glp
        (sum_last (tmap (\<lambda>a. ln (relu (1 - a\<^sup>2) + 1 / 10 ^ 6)) (tmap tanh pa))) = Inr lp'"
    and p: "p = Some (tmap tanh pa)" and l: "l = Some lp'"
    by (auto simp: apply_squashing_func_def Let_def split: sum.splits)
  from tzip_to_column[OF t[unfolded glc]] obtain r' where
    r': "lp' = column r'" "length r' = length pre" by auto
  have "p = Some (tmap tanh pa) \<and> l = Some (column r') \<and> length r' = length out \<and>
        length (tmap tanh pa) = length out"
    using p l r' lpa lpre by (simp add: tmap_def)
  then show ?thesis by blast
qed

lemma Actor_forward_shape:
  assumes "Actor_forward a rn x True True = Inr (mu, p, l)"
  shows "\<exists>pa lp. p = Some pa \<and> l = Some (column lp) \<and> length lp = length x \<and>
           length pa = length x"
proof -
  from assms obtain out where o: "mapE (mlp_row (a_l1 a) (a_l2 a) (a_l3 a)) x = Inr out"
    and h: "forward_head a rn out True True = Inr (mu, p, l)"
    by (auto simp: Actor_forward_def split: sum.splits)
  from o have "length out = length x" by (simp add: mapE_Inr_iff)
  with forward_head_shape[OF h] show ?thesis by simp
qed

lemma target_Q_columns:
  assumes "length q1 = B" "length q2 = B" "length lp = B" "length rw = B" "length nd = B"
  shows "target_Q_of al (column q1) (column q2) (column lp) (column rw) (column nd) discount =
     Inr (column (map (\<lambda>b. rw ! b + nd ! b * discount * (min (q1 ! b) (q2 ! b) - al * lp ! b))
                    [0..<B]))"
proof -
  have c1: "tmap (\<lambda>l. al * l) (column lp) = column (map (\<lambda>l. al * l) lp)"
    by (simp add: tmap_def column_def)
  have c2: "tmap (\<lambda>x. x * discount) (column nd) = column (map (\<lambda>x. x * discount) nd)"
    by (simp add: tmap_def column_def)
  have "map2 (+) rw (map2 (*) (map (\<lambda>x. x * discount) nd)
          (map2 (-) (map2 min q1 q2) (map (\<lambda>l. al * l) lp))) =
        map (\<lambda>b. rw ! b + nd ! b * discount * (min (q1 ! b) (q2 ! b) - al * lp ! b)) [0..<B]"
    using assms by (intro nth_equalityI) simp_all
  then show ?thesis
    using assms by (simp add: target_Q_of_def tzip_columns c1 c2)
qed


lemma SAC_fit_critic_target:
  assumes fc: "SAC_fit_critic opt self randn state action (column rw) next_state (column nd)
                 discount step L = Inr (s1, L1)"
    and lr: "length rw = length next_state" and ld: "length nd = length next_state"
    and h: "length (weight (c_l3 (critic_target self))) = 1"
           "length (bias (c_l3 (critic_target self))) = 1"
           "length (weight (c_l6 (critic_target self))) = 1"
           "length (bias (c_l6 (critic_target self))) = 1"
  shows "\<exists>mu pa lp q1 q2 Q1 Q2 m1 m2.
     Actor_forward (actor self) randn next_state True True = Inr (mu, Some pa, Some (column lp)) \<and>
     Critic_forward (critic_target self) next_state pa = Inr (column q1, column q2) \<and>
     length lp = length next_state \<and> length q1 = length next_state \<and>
     length q2 = length next_state \<and>
     Critic_forward (critic self) state action = Inr (Q1, Q2) \<and>
     mse_loss Q1 (column (map (\<lambda>b. rw ! b + nd ! b * discount *
                    (min (q1 ! b) (q2 ! b) - alpha self * lp ! b)) [0..<length next_state])) =
       Inr m1 \<and>
     mse_loss Q2 (column (map (\<lambda>b. rw ! b + nd ! b * discount *
                    (min (q1 ! b) (q2 ! b) - alpha self * lp ! b)) [0..<length next_state])) =
       Inr m2 \<and>
     opt_critic opt (critic_optimizer self) (critic self)
       (critic_loss_fn state action
          (column (map (\<lambda>b. rw ! b + nd ! b * discount *
                    (min (q1 ! b) (q2 ! b) - alpha self * lp ! b)) [0..<length next_state]))) =
       (critic_optimizer s1, critic s1) \<and>
     L1 = L @ [\<lparr>lc_key = ''train/critic_loss'', lc_value = (m1 + m2) * real (length state),
                lc_step = step, lc_n = int (length state)\<rparr>]"
proof -
  let ?B = "length next_state"
  let ?af = "Actor_forward (actor self) randn next_state True True"
  obtain mu p l where af: "?af = Inr (mu, p, l)"
    using fc by (cases ?af) (auto simp: SAC_fit_critic_def)
  from Actor_forward_shape[OF af] obtain pa lp where
    p: "p = Some pa" and l: "l = Some (column lp)" and llp: "length lp = ?B"
    by blast
  let ?cf = "Critic_forward (critic_target self) next_state pa"
  obtain t1 t2 where cf: "?cf = Inr (t1, t2)"
    using fc af p l by (cases ?cf) (auto simp: SAC_fit_critic_def)
  from Critic_forward_shape[OF cf h] obtain q1 q2 where
    q: "t1 = column q1" "t2 = column q2" "length q1 = ?B" "length q2 = ?B"
    by blast
  let ?tq = "column (map (\<lambda>b. rw ! b + nd ! b * discount *
                    (min (q1 ! b) (q2 ! b) - alpha self * lp ! b)) [0..<?B])"
  have tq: "target_Q_of (alpha self) t1 t2 (column lp) (column rw) (column nd) discount = Inr ?tq"
    unfolding q(1,2) by (rule target_Q_columns[OF q(3,4) llp lr ld])
  let ?cc = "Critic_forward (critic self) state action"
  obtain Q1 Q2 where cc: "?cc = Inr (Q1, Q2)"
    using fc af p l cf tq by (cases ?cc) (auto simp: SAC_fit_critic_def)
  let ?lf = "critic_loss_fn state action ?tq (critic self)"
  obtain loss where lf: "?lf = Inr loss"
    using fc af p l cf tq cc by (cases ?lf) (auto simp: SAC_fit_critic_def)
  then obtain m1 m2 where m: "mse_loss Q1 ?tq = Inr m1" "mse_loss Q2 ?tq = Inr m2"
    "loss = m1 + m2"
    using cc by (auto simp: critic_loss_fn_def split: sum.splits)
  have lq: "length Q1 = length state" by (rule Critic_forward_length[OF cc])
  from fc af p l cf tq cc lf have
    "opt_critic opt (critic_optimizer self) (critic self) (critic_loss_fn state action ?tq) =
       (critic_optimizer s1, critic s1) \<and>
     L1 = L @ [\<lparr>lc_key = ''train/critic_loss'', lc_value = loss * real (length state),
                lc_step = step, lc_n = int (length state)\<rparr>]"
    by (auto simp: SAC_fit_critic_def L_log_def Let_def lq split: prod.splits)
  with af p l cf q llp cc m show ?thesis by blast
qed

lemma SAC_fit_critic_frame:
  assumes "SAC_fit_critic opt self randn state action reward next_state done discount step L =
             Inr (s', L')"
  shows "actor s' = actor self" "critic_target s' = critic_target self"
    "log_alpha s' = log_alpha self" "actor_optimizer s' = actor_optimizer self"
    "log_alpha_optimizer s' = log_alpha_optimizer self"
  using assms
  by (auto simp: SAC_fit_critic_def Let_def split: sum.splits option.splits prod.splits)

lemma SAC_fit_actor_frame:
  assumes "SAC_fit_actor opt self randn state target_entropy step L = Inr (s', L')"
  shows "critic s' = critic self" "critic_target s' = critic_target self"
    "critic_optimizer s' = critic_optimizer self"
  using assms
  by (auto simp: SAC_fit_actor_def Let_def split: sum.splits option.splits prod.splits)

lemma SAC_train_stages:
  assumes "SAC_train opt self (state, action, reward, next_state, done) randn_c randn_a step
             tie dist_policy L discount tau policy_freq target_entropy expl_coef = Inr (s', L')"
  shows "\<exists>rw L0 s1 L1.
      length rw = length reward \<and>
      (if expl_coef > 0
       then \<exists>dist_t idxs.
              get_distance tie dist_policy state (map (\<lambda>s. [map (\<lambda>x. 0) s]) state) =
                Inr (dist_t, idxs) \<and>
              tzip_to (+) (column reward) (tmap (\<lambda>x. x * expl_coef) dist_t) = Inr (column rw)
       else rw = reward \<and> L0 = L) \<and>
      SAC_fit_critic opt self randn_c state action (column rw) next_state
          (column (map (\<lambda>d. 1 - d) done)) discount step
          (L_log L0 ''train/batch_reward'' (sum_all (column rw)) (int (length (column rw))) step) =
        Inr (s1, L1) \<and>
      policy_freq \<noteq> 0 \<and>
      (if step mod policy_freq = 0
       then \<exists>s2. SAC_fit_actor opt s1 randn_a state target_entropy step L1 = Inr (s2, L') \<and>
              s' = s2\<lparr>critic_target := soft_update_params (critic s2) (critic_target s2) tau\<rparr>
       else s' = s1 \<and> L' = L1)"
proof -
  let ?pre = "if expl_coef > 0
      then (let ctx = map (\<lambda>s. [map (\<lambda>x. 0) s]) state
            in case get_distance tie dist_policy state ctx of
                 Inl e \<Rightarrow> Inl e
               | Inr (dist_t, _) \<Rightarrow>
                   (let expl_bonus = tmap (\<lambda>x. x * expl_coef) dist_t;
                        L = L_log L ''train/expl_bonus'' (sum_all expl_bonus) step
                              (int (length expl_bonus))
                    in case tzip_to (+) (column reward) expl_bonus of
                         Inl e \<Rightarrow> Inl e
                       | Inr reward \<Rightarrow> Inr (reward, L)))
      else Inr (column reward, L)"
  obtain reward' L0 where pre: "?pre = Inr (reward', L0)"
    using assms by (cases ?pre) (auto simp: SAC_train_def Let_def)
  have "\<exists>rw. reward' = column rw \<and> length rw = length reward \<and>
          (if expl_coef > 0
           then \<exists>dist_t idxs.
              get_distance tie dist_policy state (map (\<lambda>s. [map (\<lambda>x. 0) s]) state) =
                Inr (dist_t, idxs) \<and>
              tzip_to (+) (column reward) (tmap (\<lambda>x. x * expl_coef) dist_t) = Inr (column rw)
           else rw = reward \<and> L0 = L)"
  proof (cases "expl_coef > 0")
    case True
    with pre obtain dist_t idxs where
      gd: "get_distance tie dist_policy state (map (\<lambda>s. [map (\<lambda>x. 0) s]) state) =
                Inr (dist_t, idxs)"
      and tz: "tzip_to (+) (column reward) (tmap (\<lambda>x. x * expl_coef) dist_t) = Inr reward'"
      by (auto simp: Let_def split: sum.splits)
    from tzip_to_column[OF tz] obtain rw where
      "reward' = column rw" "length rw = length reward" by blast
    with gd tz True show ?thesis by auto
  next
    case False
    with pre show ?thesis by auto
  qed
  then obtain rw where rw: "reward' = column rw" "length rw = length reward"
    "if expl_coef > 0
     then \<exists>dist_t idxs.
        get_distance tie dist_policy state (map (\<lambda>s. [map (\<lambda>x. 0) s]) state) =
          Inr (dist_t, idxs) \<and>
        tzip_to (+) (column reward) (tmap (\<lambda>x. x * expl_coef) dist_t) = Inr (column rw)
     else rw = reward \<and> L0 = L" by blast
  let ?fc = "SAC_fit_critic opt self randn_c state action (column rw) next_state
          (column (map (\<lambda>d. 1 - d) done)) discount step
          (L_log L0 ''train/batch_reward'' (sum_all (column rw)) (int (length (column rw))) step)"
  have rest: "(case ?fc of
        Inl e \<Rightarrow> Inl e
      | Inr (self, L) \<Rightarrow>
          if policy_freq = 0 then Inl ZeroDivisionError
          else if step mod policy_freq = 0
          then (case SAC_fit_actor opt self randn_a state target_entropy step L of
                  Inl e \<Rightarrow> Inl e
                | Inr (self, L) \<Rightarrow>
                    Inr (self\<lparr>critic_target :=
                           soft_update_params (critic self) (critic_target self) tau\<rparr>, L))
          else Inr (self, L)) = Inr (s', L')"
    using assms pre unfolding SAC_train_def rw(1) by (simp add: Let_def)
  then obtain s1 L1 where fc: "?fc = Inr (s1, L1)"
    by (cases ?fc) auto
  from rest fc have pf: "policy_freq \<noteq> 0" by (auto split: if_splits)
  from rest fc pf have
    "if step mod policy_freq = 0
       then \<exists>s2. SAC_fit_actor opt s1 randn_a state target_entropy step L1 = Inr (s2, L') \<and>
              s' = s2\<lparr>critic_target := soft_update_params (critic s2) (critic_target s2) tau\<rparr>
       else s' = s1 \<and> L' = L1"
    by (auto split: sum.splits)
  with rw(2,3) fc pf show ?thesis by blast
qed

lemma SAC_train_critic_target:
  assumes "SAC_train opt self (state, action, reward, next_state, done) randn_c randn_a step
             tie dist_policy L discount tau policy_freq target_entropy expl_coef = Inr (s', L')"
  shows "policy_freq \<noteq> 0"
    and "critic_target s' =
      (if step mod policy_freq = 0
       then soft_update_params (critic s') (critic_target self) tau
       else critic_target self)"
proof -
  from SAC_train_stages[OF assms] obtain rw L0 s1 L1 where
    fc: "SAC_fit_critic opt self randn_c state action (column rw) next_state
          (column (map (\<lambda>d. 1 - d) done)) discount step
          (L_log L0 ''train/batch_reward'' (sum_all (column rw)) (int (length (column rw))) step) =
        Inr (s1, L1)"
    and pf: "policy_freq \<noteq> 0"
    and r: "if step mod policy_freq = 0
       then \<exists>s2. SAC_fit_actor opt s1 randn_a state target_entropy step L1 = Inr (s2, L') \<and>
              s' = s2\<lparr>critic_target := soft_update_params (critic s2) (critic_target s2) tau\<rparr>
       else s' = s1 \<and> L' = L1"
    by blast
  show "policy_freq \<noteq> 0" by (rule pf)
  note f1 = SAC_fit_critic_frame[OF fc]
  show "critic_target s' =
      (if step mod policy_freq = 0
       then soft_update_params (critic s') (critic_target self) tau
       else critic_target self)"
  proof (cases "step mod policy_freq = 0")
    case True
    with r obtain s2 where fa: "SAC_fit_actor opt s1 randn_a state target_entropy step L1 = Inr (s2, L')"
      and s': "s' = s2\<lparr>critic_target := soft_update_params (critic s2) (critic_target s2) tau\<rparr>"
      by auto
    note f2 = SAC_fit_actor_frame[OF fa]
    show ?thesis using True s' f1(2) f2(2) by simp
  next
    case False
    with r have "s' = s1" by simp
    then show ?thesis using False f1(2) by simp
  qed
qed

lemma actor_ex_out:
  "mapE (mlp_row (a_l1 actor_ex) (a_l2 actor_ex) (a_l3 actor_ex)) [[0], [1]] = Inr [[0, 0], [1, 0]]"
  by (simp add: actor_ex_def lin1_def mlp_row_def Linear_row_def relu_def)

lemma Actor_forward_sampled:
  assumes out: "mapE (mlp_row (a_l1 self) (a_l2 self) (a_l3 self)) x = Inr out"
    and w: "length (weight (a_l3 self)) = 2 * D" and b: "length (bias (a_l3 self)) = 2 * D"
  shows "Actor_forward self randn x True True =
     Inr (map (\<lambda>b. map tanh (take D (out ! b))) [0..<length x],
          Some (map (\<lambda>b. map tanh (row_pre_squash self randn D b (out ! b))) [0..<length x]),
          Some (map (\<lambda>b. [log_prob_closed_form D (row_noise randn D b)
                             (row_log_std self D (out ! b))
                             (row_pre_squash self randn D b (out ! b))]) [0..<length x]))"
proof -
  note len = mlp_rows_length[OF out w b]
  have "out_features (a_l3 self) = 2 * D" using b by (simp add: out_features_def)
  from forward_head_sampled[OF len(2) this, of randn] show ?thesis
    unfolding Actor_forward_def out by (simp add: len(1) row_log_prob_def)
qed

lemma actor_ex_forward:
  "Actor_forward actor_ex (\<lambda>b j. 0) [[0], [1]] True True =
     Inr ([[0], [tanh 1]], Some [[0], [tanh 1]], Some [[lp0], [lp1]])"
proof -
  have w: "length (weight (a_l3 actor_ex)) = 2 * 1" and b: "length (bias (a_l3 actor_ex)) = 2 * 1"
    by (simp_all add: actor_ex_def)
  have u: "[0..<2] = [0, 1]" by (simp add: upt_rec)
  from Actor_forward_sampled[OF actor_ex_out w b, of "\<lambda>b j. 0"] show ?thesis
    by (simp add: u row_pre_squash_def row_noise_def row_log_std_def log_prob_closed_form_def
        actor_ex_def lp0_def lp1_def)
qed

lemma critic_ex_forward:
  "Critic_forward critic_ex [[s0], [s1]] [[a0], [a1]] =
     Inr ([[max 0 (max 0 s0) + 2], [max 0 (max 0 s1) + 2]],
          [[max 0 (max 0 s0) + 3], [max 0 (max 0 s1) + 3]])"
  by (simp add: Critic_forward_def cat1_def Critic_heads_def critic_ex_def lin1_def mlp_row_def
      Linear_row_def relu_def)

lemma fit_critic_ex:
  "\<exists>s' L'. SAC_fit_critic opt_ex sac_ex (\<lambda>b j. 0) [[0], [1]] [[0], [0]] [[1], [2]] [[0], [1]]
      [[1], [0]] (99 / 100) 7 [] = Inr (s', L')"
  by (simp add: SAC_fit_critic_def sac_ex_def actor_ex_forward critic_ex_forward target_Q_of_def
      tzip_def bzip_def bcast_def tmap_def critic_loss_fn_def mse_loss_def mean_all_def
      opt_ex_def L_log_def alpha_def Let_def)

lemma fit_critic_ex_value:
  "\<exists>v. SAC_fit_critic opt_ex sac_ex (\<lambda>b j. 0) [[0], [1]] [[0], [0]] (column [1, 2]) [[0], [1]]
      (column [1, 0]) (99 / 100) st L =
    Inr (sac_ex, L @ [\<lparr>lc_key = ''train/critic_loss'', lc_value = v, lc_step = st, lc_n = 2\<rparr>])"
  by (simp add: SAC_fit_critic_def sac_ex_def actor_ex_forward critic_ex_forward target_Q_of_def
      tzip_def bzip_def bcast_def tmap_def critic_loss_fn_def mse_loss_def mean_all_def
      opt_ex_def L_log_def alpha_def Let_def column_def)

lemma fit_actor_ex_value:
  "SAC_fit_actor opt_ex sac_ex (\<lambda>b j. 0) [[0], [1]] None st L =
    Inr (sac_ex, L @ [\<lparr>lc_key = ''train/actor_loss'', lc_value = lp0 + lp1 - 5,
                       lc_step = st, lc_n = 2\<rparr>])"
  by (simp add: SAC_fit_actor_def actor_loss_fn_def sac_ex_def actor_ex_forward critic_ex_forward
      tzip_def bzip_def bcast_def tmap_def mean_all_def
      opt_ex_def L_log_def alpha_def Let_def)


lemma train_ex:
  "\<exists>s' L'. SAC_train opt_ex sac_ex batch_ex (\<lambda>b j. 0) (\<lambda>b j. 0) 7 first_pos dist_ex [] (99 / 100)
      (5 / 1000) 2 None 0 = Inr (s', L')"
  "\<exists>s' L'. SAC_train opt_ex sac_ex batch_ex (\<lambda>b j. 0) (\<lambda>b j. 0) 8 first_pos dist_ex [] (99 / 100)
      (5 / 1000) 2 None 0 = Inr (s', L')"
proof -
  obtain v where v: "SAC_fit_critic opt_ex sac_ex (\<lambda>b j. 0) [[0], [1]] [[0], [0]] (column [1, 2])
      [[0], [1]] (column [1, 0]) (99 / 100) 7
      (L_log [] ''train/batch_reward'' (sum_all (column [1, 2])) (int (length (column [1, 2]))) 7) =
    Inr (sac_ex, (L_log [] ''train/batch_reward'' (sum_all (column [1, 2]))
                    (int (length (column [1, 2]))) 7) @
                 [\<lparr>lc_key = ''train/critic_loss'', lc_value = v, lc_step = 7, lc_n = 2\<rparr>])"
    using fit_critic_ex_value by blast
  show "\<exists>s' L'. SAC_train opt_ex sac_ex batch_ex (\<lambda>b j. 0) (\<lambda>b j. 0) 7 first_pos dist_ex [] (99 / 100)
      (5 / 1000) 2 None 0 = Inr (s', L')"
    unfolding SAC_train_def batch_ex_def by (simp add: v Let_def)
  obtain w where w: "SAC_fit_critic opt_ex sac_ex (\<lambda>b j. 0) [[0], [1]] [[0], [0]] (column [1, 2])
      [[0], [1]] (column [1, 0]) (99 / 100) 8
      (L_log [] ''train/batch_reward'' (sum_all (column [1, 2])) (int (length (column [1, 2]))) 8) =
    Inr (sac_ex, (L_log [] ''train/batch_reward'' (sum_all (column [1, 2]))
                    (int (length (column [1, 2]))) 8) @
                 [\<lparr>lc_key = ''train/critic_loss'', lc_value = w, lc_step = 8, lc_n = 2\<rparr>])"
    using fit_critic_ex_value by blast
  show "\<exists>s' L'. SAC_train opt_ex sac_ex batch_ex (\<lambda>b j. 0) (\<lambda>b j. 0) 8 first_pos dist_ex [] (99 / 100)
      (5 / 1000) 2 None 0 = Inr (s', L')"
    unfolding SAC_train_def batch_ex_def by (simp add: w fit_actor_ex_value Let_def)
qed

lemma train_ex_odd:
  "\<exists>v. SAC_train opt_ex sac_ex batch_ex (\<lambda>b j. 0) (\<lambda>b j. 0) 7 first_pos dist_ex [] (99 / 100)
      (5 / 1000) 2 None 0 =
    Inr (sac_ex, [\<lparr>lc_key = ''train/batch_reward'', lc_value = 3, lc_step = 2, lc_n = 7\<rparr>,
                  \<lparr>lc_key = ''train/critic_loss'', lc_value = v, lc_step = 7, lc_n = 2\<rparr>])"
proof -
  obtain v where v: "SAC_fit_critic opt_ex sac_ex (\<lambda>b j. 0) [[0], [1]] [[0], [0]] (column [1, 2])
      [[0], [1]] (column [1, 0]) (99 / 100) 7
      (L_log [] ''train/batch_reward'' (sum_all (column [1, 2])) (int (length (column [1, 2]))) 7) =
    Inr (sac_ex, (L_log [] ''train/batch_reward'' (sum_all (column [1, 2]))
                    (int (length (column [1, 2]))) 7) @
                 [\<lparr>lc_key = ''train/critic_loss'', lc_value = v, lc_step = 7, lc_n = 2\<rparr>])"
    using fit_critic_ex_value by blast
  have l: "L_log [] ''train/batch_reward'' (sum_all (column [1, 2]))
             (int (length (column [1, 2]))) 7 =
           [\<lparr>lc_key = ''train/batch_reward'', lc_value = 3, lc_step = 2, lc_n = 7\<rparr>]"
    by (simp add: L_log_def sum_all_def column_def)
  have "SAC_train opt_ex sac_ex batch_ex (\<lambda>b j. 0) (\<lambda>b j. 0) 7 first_pos dist_ex [] (99 / 100)
      (5 / 1000) 2 None 0 =
    Inr (sac_ex, [\<lparr>lc_key = ''train/batch_reward'', lc_value = 3, lc_step = 2, lc_n = 7\<rparr>,
                  \<lparr>lc_key = ''train/critic_loss'', lc_value = v, lc_step = 7, lc_n = 2\<rparr>])"
    unfolding SAC_train_def batch_ex_def by (simp add: l v[unfolded l] Let_def)
  then show ?thesis ..
qed

lemma train_ex_even:
  "\<exists>L'. SAC_train opt_ex sac_ex batch_ex (\<lambda>b j. 0) (\<lambda>b j. 0) 8 first_pos dist_ex [] (99 / 100)
      (5 / 1000) 2 None 0 =
    Inr (sac_ex\<lparr>critic_target := soft_update_params critic_ex critic_ex (5 / 1000)\<rparr>, L')"
proof -
  obtain w where w: "SAC_fit_critic opt_ex sac_ex (\<lambda>b j. 0) [[0], [1]] [[0], [0]] (column [1, 2])
      [[0], [1]] (column [1, 0]) (99 / 100) 8
      (L_log [] ''train/batch_reward'' (sum_all (column [1, 2])) (int (length (column [1, 2]))) 8) =
    Inr (sac_ex, (L_log [] ''train/batch_reward'' (sum_all (column [1, 2]))
                    (int (length (column [1, 2]))) 8) @
                 [\<lparr>lc_key = ''train/critic_loss'', lc_value = w, lc_step = 8, lc_n = 2\<rparr>])"
    using fit_critic_ex_value by blast
  have c: "critic sac_ex = critic_ex" "critic_target sac_ex = critic_ex"
    by (simp_all add: sac_ex_def)
  show ?thesis
    unfolding SAC_train_def batch_ex_def by (simp add: w fit_actor_ex_value Let_def c)
qed

lemma soft_vec_append:
  "length a = length c \<Longrightarrow> soft_vec tau (a @ b) (c @ d) = soft_vec tau a c @ soft_vec tau b d"
  by (simp add: soft_vec_def)

lemma length_soft_vec: "length (soft_vec tau a c) = min (length a) (length c)"
  by (simp add: soft_vec_def)

lemma length_concat_same:
  "map length W = map length Wt \<Longrightarrow> length (concat W) = length (concat Wt)"
  by (simp add: length_concat)

lemma soft_concat:
  "map length W = map length Wt \<Longrightarrow>
   concat (map2 (soft_vec tau) W Wt) = soft_vec tau (concat W) (concat Wt)"
proof (induction W arbitrary: Wt)
  case Nil
  then show ?case by (simp add: soft_vec_def)
next
  case (Cons r W)
  then obtain rt Wt' where Wt: "Wt = rt # Wt'" by (cases Wt) auto
  with Cons.prems have l: "length r = length rt" and m: "map length W = map length Wt'"
    by simp_all
  show ?case using Cons.IH[OF m] l by (simp add: Wt soft_vec_append)
qed

lemma soft_linear_parameters:
  assumes "same_shape_linear l lt"
  shows "linear_parameters (soft_linear tau l lt) =
           soft_vec tau (linear_parameters l) (linear_parameters lt)"
    and "length (linear_parameters l) = length (linear_parameters lt)"
    and "same_shape_linear l (soft_linear tau l lt)"
proof -
  from assms have w: "map length (weight l) = map length (weight lt)"
    and b: "length (bias l) = length (bias lt)"
    by (simp_all add: same_shape_linear_def)
  note lc = length_concat_same[OF w]
  show "linear_parameters (soft_linear tau l lt) =
           soft_vec tau (linear_parameters l) (linear_parameters lt)"
    by (simp add: linear_parameters_def soft_linear_def soft_concat[OF w] soft_vec_append lc)
  show "length (linear_parameters l) = length (linear_parameters lt)"
    using lc b by (simp add: linear_parameters_def)
  have lw: "length (weight l) = length (weight lt)"
    using w by (metis length_map)
  have "map length (map2 (soft_vec tau) (weight l) (weight lt)) = map length (weight l)"
  proof (rule nth_equalityI)
    show "length (map length (map2 (soft_vec tau) (weight l) (weight lt))) =
          length (map length (weight l))" using lw by simp
    fix i assume "i < length (map length (map2 (soft_vec tau) (weight l) (weight lt)))"
    then have i: "i < length (weight l)" using lw by simp
    have "length (weight l ! i) = length (weight lt ! i)"
      using w i lw by (metis nth_map)
    then show "map length (map2 (soft_vec tau) (weight l) (weight lt)) ! i =
               map length (weight l) ! i"
      using i lw by (simp add: length_soft_vec)
  qed
  then show "same_shape_linear l (soft_linear tau l lt)"
    using b by (simp add: same_shape_linear_def soft_linear_def length_soft_vec)
qed

lemma soft_update_parameters:
  assumes "same_shape net tgt"
  shows "parameters (soft_update_params net tgt tau) =
           map2 (\<lambda>x y. tau * x + (1 - tau) * y) (parameters net) (parameters tgt)"
    and "same_shape net (soft_update_params net tgt tau)"
proof -
  from assms have s: "same_shape_linear (c_l1 net) (c_l1 tgt)"
    "same_shape_linear (c_l2 net) (c_l2 tgt)" "same_shape_linear (c_l3 net) (c_l3 tgt)"
    "same_shape_linear (c_l4 net) (c_l4 tgt)" "same_shape_linear (c_l5 net) (c_l5 tgt)"
    "same_shape_linear (c_l6 net) (c_l6 tgt)"
    by (simp_all add: same_shape_def)
  note p = s[THEN soft_linear_parameters(1)] and l = s[THEN soft_linear_parameters(2)]
    and k = s[THEN soft_linear_parameters(3)]
  have "parameters (soft_update_params net tgt tau) =
          soft_vec tau (parameters net) (parameters tgt)"
    by (simp add: parameters_def soft_update_params_def p soft_vec_append l)
  then show "parameters (soft_update_params net tgt tau) =
           map2 (\<lambda>x y. tau * x + (1 - tau) * y) (parameters net) (parameters tgt)"
    by (simp add: soft_vec_def)
  show "same_shape net (soft_update_params net tgt tau)"
    using k by (simp add: same_shape_def soft_update_params_def)
qed

lemma SAC_load_critic_target:
  "SAC_load self af cf = Inr s2 \<Longrightarrow> critic_target s2 = critic_target self"
  by (auto simp: SAC_load_def split: if_splits)

lemma SAC_init_hard_copy:
  "SAC_init a c ct oa oc ol temp cs = Inr s0 \<Longrightarrow> critic_target s0 = c \<and> critic s0 = c"
  by (auto simp: SAC_init_def split: if_splits)

lemma column_inj: "column a = column b \<Longrightarrow> a = b"
  by (simp add: column_def inj_on_def list_eq_iff_nth_eq)

lemma mean_rows_column:
  assumes "mapE mean_row rs = Inr dm"
  shows "\<exists>c. dm = column c \<and> length c = length rs"
proof -
  from assms have l: "length dm = length rs"
    and r: "\<forall>i < length rs. mean_row (rs ! i) = Inr (dm ! i)"
    by (simp_all add: mapE_Inr_iff)
  have "length (dm ! b) = 1" if "b < length dm" for b
  proof -
    from r l that have "mean_row (rs ! b) = Inr (dm ! b)" by simp
    then have "dm ! b = [sum_list (rs ! b) / real (length (rs ! b))]"
      by (cases "rs ! b = []") (auto simp: mean_row_def)
    then show ?thesis by simp
  qed
  then have "dm = column (map hd dm)" by (rule column_hd)
  with l show ?thesis by (metis length_map)
qed

lemma tzip3_length:
  "tzip3 f A B = Inr C \<Longrightarrow> length A = length B \<Longrightarrow> length C = length A"
  by (auto simp: tzip3_def bzip_same mapE_Inr_iff)

lemma view_rows_length: "view_rows n d flat = Inr M \<Longrightarrow> length M = n"
  by (auto simp: view_rows_def split: if_splits)

lemma get_distance_column:
  assumes g: "get_distance tie self state ctx = Inr (dm, idx)"
    and l: "length ctx = length state"
  shows "\<exists>c. dm = column c \<and> length c = length state"
proof -
  let ?G = "case ctx of [] \<Rightarrow> 0 | c # _ \<Rightarrow> length c"
  let ?sd = "case concat ctx of [] \<Rightarrow> 1 | g # _ \<Rightarrow> length g"
  let ?rs = "map (replicate ?G) state"
  let ?M = "if use_l2 self
            then (case tzip3 (-) (map (map (take 2)) ?rs) (map (map (take 2)) ctx) of
                    Inl e \<Rightarrow> Inl e
                  | Inr diff \<Rightarrow>
                      Inr (map (map (\<lambda>d. sqrt (sum_list (map (\<lambda>x. x\<^sup>2) d)))) diff))
            else (case view_m1 ?sd (concat (concat ?rs)) of
                    Inl e \<Rightarrow> Inl e
                  | Inr rs \<Rightarrow>
                (case view_m1 ?sd (concat (concat ctx)) of
                    Inl e \<Rightarrow> Inl e
                  | Inr rc \<Rightarrow>
                (case DistActor_forward (actor self) (\<lambda>i j. 0) rs rc False False of
                    Inl e \<Rightarrow> Inl e
                  | Inr (repeated_action, _, _) \<Rightarrow>
                (case DistCritic_forward (critic self) rs rc repeated_action of
                    Inl e \<Rightarrow> Inl e
                  | Inr (q1, q2) \<Rightarrow>
                (case tzip min q1 q2 of
                    Inl e \<Rightarrow> Inl e
                  | Inr m \<Rightarrow>
                      view_rows (length ctx) ?G (concat (tmap uminus m)))))))"
  obtain dist_t where M: "?M = Inr dist_t"
    using g by (cases ?M) (simp_all add: get_distance_def Let_def)
  have a: "length dist_t = length state"
  proof (cases "use_l2 self")
    case True
    with M obtain diff where
      "tzip3 (-) (map (map (take 2)) ?rs) (map (map (take 2)) ctx) = Inr diff"
      "dist_t = map (map (\<lambda>d. sqrt (sum_list (map (\<lambda>x. x\<^sup>2) d)))) diff"
      by (auto split: sum.splits)
    with tzip3_length[OF this(1)] l show ?thesis by simp
  next
    case False
    with M obtain flat where "view_rows (length ctx) ?G flat = Inr dist_t"
      by (auto split: sum.splits)
    from view_rows_length[OF this] l show ?thesis by simp
  qed
  from g have "(case mapE (topk_row tie (nat (min (num_candidates self) (int ?G)))) dist_t of
                  Inl e \<Rightarrow> Inl e
                | Inr sel \<Rightarrow>
                    (case mapE mean_row (map fst sel) of
                       Inl e \<Rightarrow> Inl e
                     | Inr dist_m \<Rightarrow> Inr (dist_m, map snd sel))) = Inr (dm, idx)"
    unfolding get_distance_def Let_def M by (simp split: if_splits)
  then obtain sel where
    b: "mapE (topk_row tie (nat (min (num_candidates self) (int ?G)))) dist_t = Inr sel"
    and c: "mapE mean_row (map fst sel) = Inr dm"
    by (auto split: sum.splits)
  from b have "length sel = length dist_t" by (simp add: mapE_Inr_iff)
  with mean_rows_column[OF c] a show ?thesis by simp
qed

lemma tzip_to_columns:
  "length b = length a \<Longrightarrow> tzip_to f (column a) (column b) = Inr (column (map2 f a b))"
  by (simp add: tzip_to_def column_def mapE_Inr_iff bcast_to_same)

lemma concat_column: "concat (column a) = a"
  by (induction a) (simp_all add: column_def)

lemma mse_loss_columns:
  "length a = length b \<Longrightarrow>
   mse_loss (column a) (column b) =
     (if a = [] then Inl NonFinite else Inr (mean_squared_error a b))"
  by (auto simp: mse_loss_def tzip_columns mean_all_def concat_column mean_squared_error_def)

lemma critic_loss_fn_columns:
  assumes "Critic_forward c state action = Inr (column d1, column d2)"
    and "length d1 = length tq" "length d2 = length tq" "tq \<noteq> []"
  shows "critic_loss_fn state action (column tq) c =
           Inr (mean_squared_error d1 tq + mean_squared_error d2 tq)"
  using assms by (auto simp: critic_loss_fn_def mse_loss_columns)

lemma gd_ex:
  "get_distance first_pos dist_ex [[0], [1]] [[[0]], [[0]]] =
     Inr ([[- 2], [- (3 + tanh 1)]], [[0], [0]])"
  using tanh_ex
  by (simp add: get_distance_def Let_def dist_ex_def view_m1_def view_rows_def
      DistActor_forward_def DistCritic_forward_def cat1_def forward_head_mean out_features_def
      dist_actor_ex_def dist_critic_ex_def lin1_def mlp_row_def Linear_row_def relu_def
      Critic_heads_def tzip_def bzip_def bcast_def tmap_def topk_row_def first_pos_def
      mean_row_def upt_rec)

lemma fit_critic_ex_any:
  "\<exists>v. SAC_fit_critic opt_ex sac_ex (\<lambda>b j. 0) [[0], [1]] [[0], [0]] [[r0], [r1]] [[0], [1]]
      [[1], [0]] (99 / 100) st L =
    Inr (sac_ex, L @ [\<lparr>lc_key = ''train/critic_loss'', lc_value = v, lc_step = st, lc_n = 2\<rparr>])"
  by (simp add: SAC_fit_critic_def sac_ex_def actor_ex_forward critic_ex_forward target_Q_of_def
      tzip_def bzip_def bcast_def tmap_def critic_loss_fn_def mse_loss_def mean_all_def
      opt_ex_def L_log_def alpha_def Let_def column_def)

lemma train_ex_bonus:
  "\<exists>L'. SAC_train opt_ex sac_ex batch_ex (\<lambda>b j. 0) (\<lambda>b j. 0) 7 first_pos dist_ex [] (99 / 100)
      (5 / 1000) 2 None 1 = Inr (sac_ex, L')"
proof -
  let ?L = "[\<lparr>lc_key = ''train/expl_bonus'', lc_value = - 5 - tanh 1, lc_step = 7, lc_n = 2\<rparr>,
             \<lparr>lc_key = ''train/batch_reward'', lc_value = - 2 - tanh 1, lc_step = 2, lc_n = 7\<rparr>]"
  obtain v where v: "SAC_fit_critic opt_ex sac_ex (\<lambda>b j. 0) [[0], [1]] [[0], [0]]
      [[- 1], [- 1 - tanh 1]] [[0], [1]] [[1], [0]] (99 / 100) 7 ?L =
    Inr (sac_ex, ?L @ [\<lparr>lc_key = ''train/critic_loss'', lc_value = v, lc_step = 7, lc_n = 2\<rparr>])"
    using fit_critic_ex_any by blast
  show ?thesis
    unfolding SAC_train_def batch_ex_def
    by (simp add: gd_ex Let_def column_def tmap_def tzip_to_def bcast_to_def L_log_def
        sum_all_def v)
qed

lemma dist_actor_ex_forward:
  "DistActor_forward dist_actor_ex (\<lambda>b j. 0) [[0], [0]] [[0], [3]] True True =
     Inr ([[0], [tanh 3]], Some [[0], [tanh 3]], Some [[lp0], [lp3]])"
proof -
  have out: "mapE (mlp_row (a_l1 dist_actor_ex) (a_l2 dist_actor_ex) (a_l3 dist_actor_ex))
               [[0, 0], [0, 3]] = Inr [[0, 0], [3, 0]]"
    by (simp add: dist_actor_ex_def lin1_def mlp_row_def Linear_row_def relu_def)
  have len: "length ([[0, 0], [3, 0 :: real]] ! b) = 2 * 1" if "b < length [[0, 0], [3, 0 :: real]]" for b
    using that by (cases b) (auto simp: less_Suc_eq)
  have of: "out_features (a_l3 dist_actor_ex) = 2 * 1"
    by (simp add: out_features_def dist_actor_ex_def)
  have u: "[0..<2] = [0, 1]" by (simp add: upt_rec)
  from forward_head_sampled[OF len of, of "\<lambda>b j. 0"]
  have "forward_head dist_actor_ex (\<lambda>b j. 0) [[0, 0], [3, 0]] True True =
     Inr ([[0], [tanh 3]], Some [[0], [tanh 3]], Some [[lp0], [lp3]])"
    by (simp add: u row_pre_squash_def row_noise_def row_log_std_def row_log_prob_def
        log_prob_closed_form_def dist_actor_ex_def lp0_def lp3_def)
  note fh = this
  have c: "cat1 [[0], [0]] [[0], [3]] = Inr [[0, 0], [0, 3]]" by (simp add: cat1_def)
  have ao: "actor_only_pos dist_actor_ex = False" by (simp add: dist_actor_ex_def)
  show ?thesis
    unfolding DistActor_forward_def ao by (simp only: if_False Let_def c sum.case out fh)
qed

lemma dist_critic_ex_forward:
  "DistCritic_forward dist_critic_ex [[s0], [s1]] [[g0], [g1]] [[a0], [a1]] =
     Inr ([[max 0 (max 0 (s0 + g0 + a0)) + 2], [max 0 (max 0 (s1 + g1 + a1)) + 2]],
          [[max 0 (max 0 (s0 + g0 + a0)) + 3], [max 0 (max 0 (s1 + g1 + a1)) + 3]])"
  by (simp add: DistCritic_forward_def cat1_def Critic_heads_def dist_critic_ex_def lin1_def
      mlp_row_def Linear_row_def relu_def add.assoc)

lemma tanh3: "max 0 (3 + tanh (3 :: real)) = 3 + tanh 3" "max 0 (tanh (3 :: real)) = tanh 3"
  by (simp_all add: max_def add_nonneg_nonneg)

lemma dist_fit_critic_ex:
  "\<exists>v. DistSAC_fit_critic dist_opt_ex dist_ex (\<lambda>b j. 0) [[0], [0]] [[0], [3]] [[0], [0]]
      [[0], [- 1]] [[0], [0]] [[1], [0]] (99 / 100) st L =
    Inr (dist_ex, L @ [\<lparr>lc_key = ''train/dist_critic_loss'', lc_value = v, lc_step = st,
                        lc_n = 2\<rparr>])"
  by (simp add: DistSAC_fit_critic_def dist_ex_def dist_actor_ex_forward dist_critic_ex_forward
      target_Q_of_def tzip_def bzip_def bcast_def tmap_def dist_critic_loss_fn_def mse_loss_def
      mean_all_def dist_opt_ex_def L_log_def alpha_def Let_def tanh3)

lemma sqrt9: "sqrt 9 = 3"
proof -
  have "sqrt ((3::real)\<^sup>2) = 3" by (simp del: power2_eq_square)
  then show ?thesis by simp
qed

text \<open>
  C2. In a call of \<open>SAC.train\<close> that returns, on a batch of \<open>B\<close> rows (one state, reward,
  next state and done flag per row) and with critic heads of one output, the critic step is
  this. The reward \<open>rw\<close> is the batch reward, plus \<open>expl_coef\<close> times the distance that
  \<open>dist_policy\<close> returns for the row when \<open>expl_coef > 0\<close>. The current actor is sampled
  at \<open>next_state\<close> with the noise of this call, giving the action \<open>pa\<close> and the
  log-probabilities \<open>lp\<close>; the target critic at \<open>next_state\<close> and \<open>pa\<close> gives \<open>q1\<close> and
  \<open>q2\<close>; the regression target of row \<open>b\<close> is
  \<open>rw b + (1 - done b) * discount * (min (q1 b) (q2 b) - alpha * lp b)\<close>. The loss handed
  to the critic optimizer is, for every critic, the sum of the mean-squared errors of its
  two heads against this fixed target. The step replaces the critic and the state of its
  optimizer and leaves the actor, the target critic, the temperature and their optimizers
  as they were; the critic is not changed again in this call.
\<close>

theorem SAC_train_critic_regression:
  assumes train: "SAC_train opt self (state, action, reward, next_state, done) randn_c randn_a
             step tie dist_policy L discount tau policy_freq target_entropy expl_coef =
               Inr (s', L')"
    and ls: "length state = length next_state"
    and lr: "length reward = length next_state" and ld: "length done = length next_state"
    and h: "length (weight (c_l3 (critic_target self))) = 1"
           "length (bias (c_l3 (critic_target self))) = 1"
           "length (weight (c_l6 (critic_target self))) = 1"
           "length (bias (c_l6 (critic_target self))) = 1"
    and hc: "length (weight (c_l3 (critic self))) = 1"
            "length (bias (c_l3 (critic self))) = 1"
            "length (weight (c_l6 (critic self))) = 1"
            "length (bias (c_l6 (critic self))) = 1"
  shows "\<exists>rw mu pa lp q1 q2 c1 c2 tq s1.
     (if 0 < expl_coef
      then \<exists>dist_c idxs.
             get_distance tie dist_policy state (map (\<lambda>s. [map (\<lambda>x. 0) s]) state) =
               Inr (column dist_c, idxs) \<and>
             length dist_c = length state \<and>
             rw = map (\<lambda>b. reward ! b + dist_c ! b * expl_coef) [0..<length state]
      else rw = reward) \<and>
     Actor_forward (actor self) randn_c next_state True True =
       Inr (mu, Some pa, Some (column lp)) \<and>
     Critic_forward (critic_target self) next_state pa = Inr (column q1, column q2) \<and>
     length lp = length state \<and> length q1 = length state \<and> length q2 = length state \<and>
     tq = map (\<lambda>b. rw ! b + (1 - done ! b) * discount *
                      (min (q1 ! b) (q2 ! b) - alpha self * lp ! b)) [0..<length state] \<and>
     Critic_forward (critic self) state action = Inr (column c1, column c2) \<and>
     length c1 = length state \<and> length c2 = length state \<and>
     critic_loss_fn state action (column tq) (critic self) =
       Inr (mean_squared_error c1 tq + mean_squared_error c2 tq) \<and>
     (\<forall>c d1 d2. Critic_forward c state action = Inr (column d1, column d2) \<and>
                length d1 = length state \<and> length d2 = length state \<longrightarrow>
        critic_loss_fn state action (column tq) c =
          Inr (mean_squared_error d1 tq + mean_squared_error d2 tq)) \<and>
     opt_critic opt (critic_optimizer self) (critic self)
         (critic_loss_fn state action (column tq)) = (critic_optimizer s1, critic s1) \<and>
     actor s1 = actor self \<and> critic_target s1 = critic_target self \<and>
     log_alpha s1 = log_alpha self \<and> actor_optimizer s1 = actor_optimizer self \<and>
     log_alpha_optimizer s1 = log_alpha_optimizer self \<and>
     critic s' = critic s1 \<and> critic_optimizer s' = critic_optimizer s1 \<and>
     (step mod policy_freq \<noteq> 0 \<longrightarrow> s' = s1)"
proof -
  let ?B = "length state"
  from SAC_train_stages[OF train] obtain rw L0 s1 L1 where
    rwl: "length rw = length reward"
    and pre: "if expl_coef > 0
       then \<exists>dist_t idxs.
              get_distance tie dist_policy state (map (\<lambda>s. [map (\<lambda>x. 0) s]) state) =
                Inr (dist_t, idxs) \<and>
              tzip_to (+) (column reward) (tmap (\<lambda>x. x * expl_coef) dist_t) = Inr (column rw)
       else rw = reward \<and> L0 = L"
    and fc: "SAC_fit_critic opt self randn_c state action (column rw) next_state
          (column (map (\<lambda>d. 1 - d) done)) discount step
          (L_log L0 ''train/batch_reward'' (sum_all (column rw)) (int (length (column rw))) step) =
        Inr (s1, L1)"
    and r: "if step mod policy_freq = 0
       then \<exists>s2. SAC_fit_actor opt s1 randn_a state target_entropy step L1 = Inr (s2, L') \<and>
              s' = s2\<lparr>critic_target := soft_update_params (critic s2) (critic_target s2) tau\<rparr>
       else s' = s1 \<and> L' = L1"
    by blast
  have rw: "if 0 < expl_coef
      then \<exists>dist_c idxs.
             get_distance tie dist_policy state (map (\<lambda>s. [map (\<lambda>x. 0) s]) state) =
               Inr (column dist_c, idxs) \<and>
             length dist_c = ?B \<and>
             rw = map (\<lambda>b. reward ! b + dist_c ! b * expl_coef) [0..<?B]
      else rw = reward"
  proof (cases "0 < expl_coef")
    case True
    with pre obtain dist_t idxs where
      gd: "get_distance tie dist_policy state (map (\<lambda>s. [map (\<lambda>x. 0) s]) state) =
                Inr (dist_t, idxs)"
      and tz: "tzip_to (+) (column reward) (tmap (\<lambda>x. x * expl_coef) dist_t) = Inr (column rw)"
      by auto
    from get_distance_column[OF gd] obtain c where
      c: "dist_t = column c" "length c = ?B" by auto
    have "tmap (\<lambda>x. x * expl_coef) (column c) = column (map (\<lambda>x. x * expl_coef) c)"
      by (simp add: tmap_def column_def)
    with tz c have "column (map2 (+) reward (map (\<lambda>x. x * expl_coef) c)) = column rw"
      using ls lr by (simp add: tzip_to_columns)
    from column_inj[OF this] have "rw = map2 (+) reward (map (\<lambda>x. x * expl_coef) c)" ..
    also have "\<dots> = map (\<lambda>b. reward ! b + c ! b * expl_coef) [0..<?B]"
      using c(2) ls lr by (intro nth_equalityI) simp_all
    finally show ?thesis using True gd c by auto
  next
    case False
    with pre show ?thesis by simp
  qed
  let ?nd = "map (\<lambda>d. 1 - d) done"
  have lrw: "length rw = length next_state" using rwl lr by simp
  have lnd: "length ?nd = length next_state" using ld by simp
  define tq where "tq q1 q2 lp = map (\<lambda>b. rw ! b + (1 - done ! b) * discount *
                      (min (q1 ! b) (q2 ! b) - alpha self * lp ! b)) [0..<?B]" for q1 q2 lp
  from SAC_fit_critic_target[OF fc lrw lnd h] obtain mu pa lp q1 q2 Q1 Q2 m1 m2 where
    af: "Actor_forward (actor self) randn_c next_state True True =
           Inr (mu, Some pa, Some (column lp))"
    and ct: "Critic_forward (critic_target self) next_state pa = Inr (column q1, column q2)"
    and len: "length lp = length next_state" "length q1 = length next_state"
      "length q2 = length next_state"
    and cc: "Critic_forward (critic self) state action = Inr (Q1, Q2)"
    and m1: "mse_loss Q1 (column (map (\<lambda>b. rw ! b + ?nd ! b * discount *
                    (min (q1 ! b) (q2 ! b) - alpha self * lp ! b)) [0..<length next_state])) =
       Inr m1"
    and oc: "opt_critic opt (critic_optimizer self) (critic self)
       (critic_loss_fn state action
          (column (map (\<lambda>b. rw ! b + ?nd ! b * discount *
                    (min (q1 ! b) (q2 ! b) - alpha self * lp ! b)) [0..<length next_state]))) =
       (critic_optimizer s1, critic s1)"
    by blast
  have tqe: "map (\<lambda>b. rw ! b + ?nd ! b * discount *
                    (min (q1 ! b) (q2 ! b) - alpha self * lp ! b)) [0..<length next_state] =
             tq q1 q2 lp"
    unfolding tq_def using ls ld by simp
  have ltq: "length (tq q1 q2 lp) = ?B" by (simp add: tq_def)
  from Critic_forward_shape[OF cc hc] obtain c1 c2 where
    Q: "Q1 = column c1" "Q2 = column c2" "length c1 = ?B" "length c2 = ?B" by blast
  have ne: "tq q1 q2 lp \<noteq> []"
    using m1 unfolding tqe Q using Q(3) ltq
    by (auto simp: mse_loss_columns split: if_splits)
  have lf: "critic_loss_fn state action (column (tq q1 q2 lp)) c =
     Inr (mean_squared_error d1 (tq q1 q2 lp) + mean_squared_error d2 (tq q1 q2 lp))"
    if "Critic_forward c state action = Inr (column d1, column d2)"
      "length d1 = ?B" "length d2 = ?B" for c d1 d2
    using that ltq ne by (intro critic_loss_fn_columns) simp_all
  note f1 = SAC_fit_critic_frame[OF fc]
  have s': "critic s' = critic s1 \<and> critic_optimizer s' = critic_optimizer s1"
  proof (cases "step mod policy_freq = 0")
    case True
    with r obtain s2 where
      fa: "SAC_fit_actor opt s1 randn_a state target_entropy step L1 = Inr (s2, L')"
      and e: "s' = s2\<lparr>critic_target := soft_update_params (critic s2) (critic_target s2) tau\<rparr>"
      by auto
    from SAC_fit_actor_frame[OF fa] e show ?thesis by simp
  next
    case False
    with r show ?thesis by simp
  qed
  have odd: "step mod policy_freq \<noteq> 0 \<longrightarrow> s' = s1" using r by auto
  have all: "\<forall>c d1 d2. Critic_forward c state action = Inr (column d1, column d2) \<and>
                length d1 = ?B \<and> length d2 = ?B \<longrightarrow>
        critic_loss_fn state action (column (tq q1 q2 lp)) c =
          Inr (mean_squared_error d1 (tq q1 q2 lp) + mean_squared_error d2 (tq q1 q2 lp))"
    using lf by blast
  have "(if 0 < expl_coef
      then \<exists>dist_c idxs.
             get_distance tie dist_policy state (map (\<lambda>s. [map (\<lambda>x. 0) s]) state) =
               Inr (column dist_c, idxs) \<and>
             length dist_c = length state \<and>
             rw = map (\<lambda>b. reward ! b + dist_c ! b * expl_coef) [0..<length state]
      else rw = reward) \<and>
     Actor_forward (actor self) randn_c next_state True True =
       Inr (mu, Some pa, Some (column lp)) \<and>
     Critic_forward (critic_target self) next_state pa = Inr (column q1, column q2) \<and>
     length lp = length state \<and> length q1 = length state \<and> length q2 = length state \<and>
     tq q1 q2 lp = map (\<lambda>b. rw ! b + (1 - done ! b) * discount *
                      (min (q1 ! b) (q2 ! b) - alpha self * lp ! b)) [0..<length state] \<and>
     Critic_forward (critic self) state action = Inr (column c1, column c2) \<and>
     length c1 = length state \<and> length c2 = length state \<and>
     critic_loss_fn state action (column (tq q1 q2 lp)) (critic self) =
       Inr (mean_squared_error c1 (tq q1 q2 lp) + mean_squared_error c2 (tq q1 q2 lp)) \<and>
     (\<forall>c d1 d2. Critic_forward c state action = Inr (column d1, column d2) \<and>
                length d1 = length state \<and> length d2 = length state \<longrightarrow>
        critic_loss_fn state action (column (tq q1 q2 lp)) c =
          Inr (mean_squared_error d1 (tq q1 q2 lp) + mean_squared_error d2 (tq q1 q2 lp))) \<and>
     opt_critic opt (critic_optimizer self) (critic self)
         (critic_loss_fn state action (column (tq q1 q2 lp))) = (critic_optimizer s1, critic s1) \<and>
     actor s1 = actor self \<and> critic_target s1 = critic_target self \<and>
     log_alpha s1 = log_alpha self \<and> actor_optimizer s1 = actor_optimizer self \<and>
     log_alpha_optimizer s1 = log_alpha_optimizer self \<and>
     critic s' = critic s1 \<and> critic_optimizer s' = critic_optimizer s1 \<and>
     (step mod policy_freq \<noteq> 0 \<longrightarrow> s' = s1)"
    by (intro conjI rw af ct len[folded ls] tq_def cc[unfolded Q] Q(3,4)
        lf[OF cc[unfolded Q] Q(3,4)] all oc[unfolded tqe] f1
        s'[THEN conjunct1] s'[THEN conjunct2] odd)
  then show ?thesis by (intro exI)
qed

theorem SAC_train_critic_regression_witness:
  "(\<exists>L'. SAC_train opt_ex sac_ex ([[0], [1]], [[0], [0]], [1, 2], [[0], [1]], [0, 1]) (\<lambda>b j. 0)
       (\<lambda>b j. 0) 7 first_pos dist_ex [] (99 / 100) (5 / 1000) 2 None 0 = Inr (sac_ex, L')) \<and>
   (\<exists>L'. SAC_train opt_ex sac_ex ([[0], [1]], [[0], [0]], [1, 2], [[0], [1]], [0, 1]) (\<lambda>b j. 0)
       (\<lambda>b j. 0) 7 first_pos dist_ex [] (99 / 100) (5 / 1000) 2 None 1 = Inr (sac_ex, L')) \<and>
   length [[0 :: real], [1]] = length [[0 :: real], [1]] \<and>
   length [1 :: real, 2] = length [[0 :: real], [1]] \<and>
   length [0 :: real, 1] = length [[0 :: real], [1]] \<and>
   length (weight (c_l3 (critic_target sac_ex))) = 1 \<and>
   length (bias (c_l3 (critic_target sac_ex))) = 1 \<and>
   length (weight (c_l6 (critic_target sac_ex))) = 1 \<and>
   length (bias (c_l6 (critic_target sac_ex))) = 1 \<and>
   length (weight (c_l3 (critic sac_ex))) = 1 \<and>
   length (bias (c_l3 (critic sac_ex))) = 1 \<and>
   length (weight (c_l6 (critic sac_ex))) = 1 \<and>
   length (bias (c_l6 (critic sac_ex))) = 1 \<and>
   get_distance first_pos dist_ex [[0], [1]] [[[0]], [[0]]] =
     Inr (column [- 2, - (3 + tanh 1)], [[0], [0]]) \<and>
   critic_loss_fn [[0], [1]] [[0], [0]] (column (tq_ex 0)) critic_ex =
     Inr (mean_squared_error [2, 3] (tq_ex 0) + mean_squared_error [3, 4] (tq_ex 0)) \<and>
   critic_loss_fn [[0], [1]] [[0], [0]] (column (tq_ex 1)) critic_ex =
     Inr (mean_squared_error [2, 3] (tq_ex 1) + mean_squared_error [3, 4] (tq_ex 1))"
proof -
  let ?batch = "([[0], [1]], [[0], [0]], [1, 2], [[0], [1]], [0, 1])
                  :: tensor \<times> tensor \<times> real list \<times> tensor \<times> real list"
  from train_ex_odd obtain L0 where
    t0: "SAC_train opt_ex sac_ex ?batch (\<lambda>b j. 0)
       (\<lambda>b j. 0) 7 first_pos dist_ex [] (99 / 100) (5 / 1000) 2 None 0 = Inr (sac_ex, L0)"
    unfolding batch_ex_def by blast
  from train_ex_bonus obtain L1 where
    t1: "SAC_train opt_ex sac_ex ?batch (\<lambda>b j. 0)
       (\<lambda>b j. 0) 7 first_pos dist_ex [] (99 / 100) (5 / 1000) 2 None 1 = Inr (sac_ex, L1)"
    unfolding batch_ex_def by blast
  have l: "length [[0 :: real], [1]] = length [[0 :: real], [1]]"
    "length [1 :: real, 2] = length [[0 :: real], [1]]"
    "length [0 :: real, 1] = length [[0 :: real], [1]]" by simp_all
  have h: "length (weight (c_l3 (critic_target sac_ex))) = 1"
    "length (bias (c_l3 (critic_target sac_ex))) = 1"
    "length (weight (c_l6 (critic_target sac_ex))) = 1"
    "length (bias (c_l6 (critic_target sac_ex))) = 1"
    "length (weight (c_l3 (critic sac_ex))) = 1"
    "length (bias (c_l3 (critic sac_ex))) = 1"
    "length (weight (c_l6 (critic sac_ex))) = 1"
    "length (bias (c_l6 (critic sac_ex))) = 1"
    by (simp_all add: sac_ex_def critic_ex_def)
  have c: "actor sac_ex = actor_ex" "critic sac_ex = critic_ex" "critic_target sac_ex = critic_ex"
    "alpha sac_ex = 1"
    by (simp_all add: sac_ex_def alpha_def)
  have gd: "get_distance first_pos dist_ex [[0], [1]] [[[0]], [[0]]] =
     Inr (column [- 2, - (3 + tanh 1)], [[0], [0]])"
    by (simp add: gd_ex column_def)
  have u: "[0..<2] = [0, 1]" by (simp add: upt_rec)
  have main: "critic_loss_fn [[0], [1]] [[0], [0]] (column (tq_ex e)) critic_ex =
     Inr (mean_squared_error [2, 3] (tq_ex e) + mean_squared_error [3, 4] (tq_ex e))"
    if tr: "SAC_train opt_ex sac_ex ?batch (\<lambda>b j. 0)
       (\<lambda>b j. 0) 7 first_pos dist_ex [] (99 / 100) (5 / 1000) 2 None e = Inr (sac_ex, L')"
      and e: "e = 0 \<or> e = 1" for e L'
  proof -
    from SAC_train_critic_regression[OF tr l h]
    obtain rw mu pa lp q1 q2 c1 c2 tq where

      rw: "if 0 < e
        then \<exists>dist_c idxs.
             get_distance first_pos dist_ex [[0], [1]] (map (\<lambda>s. [map (\<lambda>x. 0) s]) [[0 :: real], [1]]) =
               Inr (column dist_c, idxs) \<and>
             length dist_c = length [[0 :: real], [1]] \<and>
             rw = map (\<lambda>b. [1, 2] ! b + dist_c ! b * e) [0..<length [[0 :: real], [1]]]
        else rw = [1, 2]"
      and af: "Actor_forward (actor sac_ex) (\<lambda>b j. 0) [[0], [1]] True True =
         Inr (mu, Some pa, Some (column lp))"
      and ct: "Critic_forward (critic_target sac_ex) [[0], [1]] pa = Inr (column q1, column q2)"
      and tq: "tq = map (\<lambda>b. rw ! b + (1 - [0, 1] ! b) * (99 / 100) *
                      (min (q1 ! b) (q2 ! b) - alpha sac_ex * lp ! b))
                  [0..<length [[0 :: real], [1]]]"
      and cc: "Critic_forward (critic sac_ex) [[0], [1]] [[0], [0]] = Inr (column c1, column c2)"
      and lf: "critic_loss_fn [[0], [1]] [[0], [0]] (column tq) (critic sac_ex) =
         Inr (mean_squared_error c1 tq + mean_squared_error c2 tq)"
      by (elim exE conjE) (rule that; assumption)
    have rw': "rw = [1 - 2 * e, 2 - (3 + tanh 1) * e]"
    proof (cases "0 < e")
      case True
      with e have e1: "e = 1" by auto
      from rw[unfolded if_P[OF True]] obtain dist_c idxs where
        g: "get_distance first_pos dist_ex [[0], [1]]
              (map (\<lambda>s. [map (\<lambda>x. 0) s]) [[0 :: real], [1]]) = Inr (column dist_c, idxs)"
        and r: "rw = map (\<lambda>b. [1, 2] ! b + dist_c ! b * e) [0..<length [[0 :: real], [1]]]"
        by blast
      have m: "map (\<lambda>s. [map (\<lambda>x. 0) s]) [[0 :: real], [1]] = [[[0 :: real]], [[0]]]"
        by simp
      from g[unfolded m] gd have "column dist_c = column [- 2, - (3 + tanh 1)]" by simp
      from column_inj[OF this] r show ?thesis by (simp add: u e1)
    next
      case False
      with e have "e = 0" by auto
      with rw show ?thesis by simp
    qed
    from af have pa: "pa = [[0], [tanh 1]]" and lp: "column lp = column [lp0, lp1]"
      unfolding c actor_ex_forward by (auto simp: column_def)
    note lp' = column_inj[OF lp]
    from ct have "column q1 = column [2, 3]" "column q2 = column [3, 4]"
      unfolding c pa critic_ex_forward by (simp_all add: column_def)
    note q = this[THEN column_inj]
    from cc have "column c1 = column [2, 3]" "column c2 = column [3, 4]"
      unfolding c critic_ex_forward by (simp_all add: column_def)
    note cs = this[THEN column_inj]
    have tq': "tq = tq_ex e"
      unfolding tq rw' lp' q c by (simp add: u tq_ex_def)
    from lf show ?thesis unfolding tq' cs c .
  qed
  have e0: "\<exists>L'. SAC_train opt_ex sac_ex ?batch (\<lambda>b j. 0)
       (\<lambda>b j. 0) 7 first_pos dist_ex [] (99 / 100) (5 / 1000) 2 None 0 = Inr (sac_ex, L')"
    using t0 by blast
  have e1: "\<exists>L'. SAC_train opt_ex sac_ex ?batch (\<lambda>b j. 0)
       (\<lambda>b j. 0) 7 first_pos dist_ex [] (99 / 100) (5 / 1000) 2 None 1 = Inr (sac_ex, L')"
    using t1 by blast
  show ?thesis
    by (intro conjI e0 e1 l h gd main[OF t0] main[OF t1]) simp_all
qed

text \<open>
  C3. The report of \<open>train/batch_reward\<close> in \<open>SAC.train\<close> passes \<open>reward.size(0)\<close> as the
  third positional argument and \<open>step\<close> as the fourth. At step 7, on a batch of two
  transitions with rewards 1 and 2, the collector receives this report with step 2 and
  weight 7; the report of \<open>train/critic_loss\<close> of the same call carries step 7 and weight 2.
\<close>

theorem SAC_train_batch_reward_report:
  "\<exists>v. SAC_train opt_ex sac_ex batch_ex (\<lambda>b j. 0) (\<lambda>b j. 0) 7 first_pos dist_ex [] (99 / 100)
      (5 / 1000) 2 None 0 =
    Inr (sac_ex, [\<lparr>lc_key = ''train/batch_reward'', lc_value = 3, lc_step = 2, lc_n = 7\<rparr>,
                  \<lparr>lc_key = ''train/critic_loss'', lc_value = v, lc_step = 7, lc_n = 2\<rparr>])"
  by (rule train_ex_odd)

text \<open>
  C6. The constructor leaves the target critic equal to the online critic. A call of
  \<open>SAC.train\<close> that returns leaves the target critic as it was when \<open>step\<close> is not a
  multiple of \<open>policy_freq\<close>, and otherwise replaces it by the soft update of the old
  target towards the critic that the call returns. For critics of the same shape the soft
  update sets each target parameter to \<open>tau * online + (1 - tau) * target\<close> and keeps the
  shape. \<open>SAC.load\<close> leaves the target critic as it was.
\<close>

theorem critic_target_soft_updates_only:
  "(SAC_init actor0 critic0 critic_target0 oa oc ol initial_temperature ctx_size = Inr s0 \<longrightarrow>
      critic_target s0 = critic0 \<and> critic s0 = critic0) \<and>
   (SAC_train opt self (state, action, reward, next_state, done) randn_c randn_a step
        tie dist_policy L discount tau policy_freq target_entropy expl_coef = Inr (s', L') \<longrightarrow>
      critic_target s' =
        (if step mod policy_freq = 0
         then soft_update_params (critic s') (critic_target self) tau
         else critic_target self)) \<and>
   (same_shape net tgt \<longrightarrow>
      parameters (soft_update_params net tgt tau) =
        map2 (\<lambda>x y. tau * x + (1 - tau) * y) (parameters net) (parameters tgt) \<and>
      same_shape net (soft_update_params net tgt tau)) \<and>
   (SAC_load self actor_file critic_file = Inr s2 \<longrightarrow> critic_target s2 = critic_target self)"
  using SAC_init_hard_copy[of actor0 critic0 critic_target0 oa oc ol initial_temperature ctx_size s0]
    SAC_train_critic_target(2)[of opt self state action reward next_state "done" randn_c randn_a
      step tie dist_policy L discount tau policy_freq target_entropy expl_coef s' L']
    soft_update_parameters[of net tgt tau]
    SAC_load_critic_target[of self actor_file critic_file s2]
  by blast

theorem critic_target_soft_updates_only_witness:
  "SAC_init actor_ex critic_ex critic_zero_ex () () () 1 0 = Inr sac_ex \<and>
   critic_target sac_ex = critic_ex \<and> critic sac_ex = critic_ex \<and>
   (\<exists>L'. SAC_train opt_ex sac_ex ([[0], [1]], [[0], [0]], [1, 2], [[0], [1]], [0, 1]) (\<lambda>b j. 0)
       (\<lambda>b j. 0) 7 first_pos dist_ex [] (99 / 100) (5 / 1000) 2 None 0 = Inr (sac_ex, L')) \<and>
   (\<exists>L'. SAC_train opt_ex sac_ex ([[0], [1]], [[0], [0]], [1, 2], [[0], [1]], [0, 1]) (\<lambda>b j. 0)
       (\<lambda>b j. 0) 8 first_pos dist_ex [] (99 / 100) (5 / 1000) 2 None 0 =
         Inr (sac_ex\<lparr>critic_target := soft_update_params critic_ex critic_ex (5 / 1000)\<rparr>, L')) \<and>
   same_shape critic_ex critic_zero_ex \<and>
   parameters (soft_update_params critic_ex critic_zero_ex (5 / 1000)) =
     [1 / 200, 0, 0, 1 / 200, 0, 1 / 200, 1 / 100, 1 / 200, 0, 0, 1 / 200, 0, 1 / 200, 3 / 200] \<and>
   same_shape critic_ex (soft_update_params critic_ex critic_zero_ex (5 / 1000)) \<and>
   SAC_load sac_ex actor_ex critic_zero_ex = Inr (sac_ex\<lparr>critic := critic_zero_ex\<rparr>) \<and>
   critic_target (sac_ex\<lparr>critic := critic_zero_ex\<rparr>) = critic_ex"
proof -
  have i: "SAC_init actor_ex critic_ex critic_zero_ex () () () 1 0 = Inr sac_ex"
    by (simp add: SAC_init_def sac_ex_def)
  from train_ex_odd obtain L7 where
    t7: "SAC_train opt_ex sac_ex ([[0], [1]], [[0], [0]], [1, 2], [[0], [1]], [0, 1]) (\<lambda>b j. 0)
       (\<lambda>b j. 0) 7 first_pos dist_ex [] (99 / 100) (5 / 1000) 2 None 0 = Inr (sac_ex, L7)"
    unfolding batch_ex_def by blast
  from train_ex_even obtain L8 where
    t8: "SAC_train opt_ex sac_ex ([[0], [1]], [[0], [0]], [1, 2], [[0], [1]], [0, 1]) (\<lambda>b j. 0)
       (\<lambda>b j. 0) 8 first_pos dist_ex [] (99 / 100) (5 / 1000) 2 None 0 =
         Inr (sac_ex\<lparr>critic_target := soft_update_params critic_ex critic_ex (5 / 1000)\<rparr>, L8)"
    unfolding batch_ex_def by blast
  have ss: "same_shape critic_ex critic_zero_ex"
    by (simp add: same_shape_def same_shape_linear_def critic_ex_def critic_zero_ex_def lin1_def)
  have ld: "SAC_load sac_ex actor_ex critic_zero_ex = Inr (sac_ex\<lparr>critic := critic_zero_ex\<rparr>)"
    by (simp add: SAC_load_def same_shape_actor_def same_shape_def same_shape_linear_def sac_ex_def
        actor_ex_def critic_ex_def critic_zero_ex_def lin1_def load_linear_def)
  have p: "parameters critic_ex = [1, 0, 0, 1, 0, 1, 2, 1, 0, 0, 1, 0, 1, 3]"
    "parameters critic_zero_ex = [0, 0, 0, 0, 0, 0, 0, 0, 0, 0, 0, 0, 0, 0]"
    by (simp_all add: parameters_def linear_parameters_def critic_ex_def critic_zero_ex_def lin1_def)
  note T = critic_target_soft_updates_only
  from T[THEN conjunct1, THEN mp, OF i]
  have a: "critic_target sac_ex = critic_ex" "critic sac_ex = critic_ex" by simp_all
  from T[where tau = "5 / 1000", THEN conjunct2, THEN conjunct2, THEN conjunct1, THEN mp, OF ss]
  have b: "parameters (soft_update_params critic_ex critic_zero_ex (5 / 1000)) =
     map2 (\<lambda>x y. 5 / 1000 * x + (1 - 5 / 1000) * y) (parameters critic_ex)
       (parameters critic_zero_ex)"
    "same_shape critic_ex (soft_update_params critic_ex critic_zero_ex (5 / 1000))"
    by simp_all
  have b': "parameters (soft_update_params critic_ex critic_zero_ex (5 / 1000)) =
     [1 / 200, 0, 0, 1 / 200, 0, 1 / 200, 1 / 100, 1 / 200, 0, 0, 1 / 200, 0, 1 / 200, 3 / 200]"
    unfolding b(1) p by simp
  from T[THEN conjunct2, THEN conjunct2, THEN conjunct2, THEN mp, OF ld]
  have d: "critic_target (sac_ex\<lparr>critic := critic_zero_ex\<rparr>) = critic_ex"
    unfolding a(1) .
  from T[THEN conjunct2, THEN conjunct1, THEN mp, OF t7]
  have k7: "critic_target sac_ex = critic_target sac_ex" by simp
  from T[THEN conjunct2, THEN conjunct1, THEN mp, OF t8]
  have k8: "critic_target (sac_ex\<lparr>critic_target :=
                soft_update_params critic_ex critic_ex (5 / 1000)\<rparr>) =
            soft_update_params critic_ex (critic_target sac_ex) (5 / 1000)"
    by (simp add: a)
  have e7: "\<exists>L'. SAC_train opt_ex sac_ex ([[0], [1]], [[0], [0]], [1, 2], [[0], [1]], [0, 1])
       (\<lambda>b j. 0) (\<lambda>b j. 0) 7 first_pos dist_ex [] (99 / 100) (5 / 1000) 2 None 0 = Inr (sac_ex, L')"
    using t7 k7 by blast
  have e8: "\<exists>L'. SAC_train opt_ex sac_ex ([[0], [1]], [[0], [0]], [1, 2], [[0], [1]], [0, 1])
       (\<lambda>b j. 0) (\<lambda>b j. 0) 8 first_pos dist_ex [] (99 / 100) (5 / 1000) 2 None 0 =
         Inr (sac_ex\<lparr>critic_target := soft_update_params critic_ex critic_ex (5 / 1000)\<rparr>, L')"
    using t8 k8 by blast
  show ?thesis
    by (intro conjI i a e7 e8 ss b' b(2) ld d)
qed

text \<open>
  C5. For a batch whose goals have the shape of its states, a call of \<open>DistSAC.train\<close>
  relabels the goals without raising (the two assertions hold) and then runs the critic
  step, and on every \<open>policy_freq\<close>-th step the actor step and the soft update, on the
  relabelled goals, done flags and rewards: it is equal to these steps applied to them,
  whatever reward and done flags the replay buffer delivered. For every row \<open>b\<close>: the two
  masks are single numbers with \<open>same_goal_mask + traj_goal_mask = 1\<close>, the first being 1
  exactly when the row's noise is strictly greater than 0.9; the new goal is the row's own
  state when the noise is greater than 0.9 and the trajectory goal otherwise, in particular
  at noise 0.9; \<open>done\<close> is 1 if the norm of \<open>state - goal\<close> is below \<open>1e-5\<close> and 0
  otherwise; the reward is \<open>-(1 - done)\<close>, that is 0 at the goal and -1 otherwise.
\<close>

theorem DistSAC_train_relabels:
  assumes lg: "length goals = length state"
    and lw: "\<And>b. b < length state \<Longrightarrow> length (goals ! b) = length (state ! b)"
  shows "\<exists>goals' done reward.
     relabel state goals rand = Inr (goals', done, reward) \<and>
     length goals' = length state \<and> length done = length state \<and>
     length reward = length state \<and>
     (\<forall>b < length state.
        (\<exists>sm tm. fst (goal_masks (length state) rand) ! b = [sm] \<and>
                 snd (goal_masks (length state) rand) ! b = [tm] \<and>
                 sm + tm = 1 \<and> (sm = 1 \<longleftrightarrow> rand b > 9 / 10) \<and> (sm = 0 \<longleftrightarrow> \<not> rand b > 9 / 10)) \<and>
        (rand b > 9 / 10 \<longrightarrow> goals' ! b = state ! b) \<and>
        (\<not> rand b > 9 / 10 \<longrightarrow> goals' ! b = goals ! b) \<and>
        (rand b = 9 / 10 \<longrightarrow> goals' ! b = goals ! b) \<and>
        (\<exists>dn. done ! b = [dn] \<and> (dn = 1 \<or> dn = 0) \<and>
           (dn = 1 \<longleftrightarrow>
              sqrt (sum_list (map (\<lambda>x. x\<^sup>2) (map2 (-) (state ! b) (goals' ! b)))) < 1 / 10 ^ 5) \<and>
           reward ! b = [- (1 - dn)] \<and> (reward ! b = [0] \<longleftrightarrow> dn = 1) \<and>
           (reward ! b = [- 1] \<longleftrightarrow> dn = 0))) \<and>
     DistSAC_train opt self (state, action, reward0, next_state, done0, goals, extra0)
         rand randn_c randn_a step L discount tau policy_freq target_entropy =
       (case DistSAC_fit_critic opt self randn_c state goals' action reward next_state done
               discount step
               (L @ [\<lparr>lc_key = ''train/dist_batch_reward'', lc_value = sum_all reward,
                       lc_step = step, lc_n = int (length state)\<rparr>]) of
          Inl e \<Rightarrow> Inl e
        | Inr (s1, L1) \<Rightarrow>
            if policy_freq = 0 then Inl ZeroDivisionError
            else if step mod policy_freq = 0
            then (case DistSAC_fit_actor opt s1 randn_a state goals' target_entropy step L1 of
                    Inl e \<Rightarrow> Inl e
                  | Inr (s2, L2) \<Rightarrow>
                      Inr (s2\<lparr>critic_target :=
                             soft_update_params (critic s2) (critic_target s2) tau\<rparr>, L2))
            else Inr (s1, L1))"
proof -
  have "\<exists>goals' done reward.
     relabel state goals rand = Inr (goals', done, reward) \<and>
     length goals' = length state \<and> length done = length state \<and>
     length reward = length state \<and>
     (\<forall>b < length state.
        (\<exists>sm tm. fst (goal_masks (length state) rand) ! b = [sm] \<and>
                 snd (goal_masks (length state) rand) ! b = [tm] \<and>
                 sm + tm = 1 \<and> (sm = 1 \<longleftrightarrow> rand b > 9 / 10) \<and> (sm = 0 \<longleftrightarrow> \<not> rand b > 9 / 10)) \<and>
        (rand b > 9 / 10 \<longrightarrow> goals' ! b = state ! b) \<and>
        (\<not> rand b > 9 / 10 \<longrightarrow> goals' ! b = goals ! b) \<and>
        (rand b = 9 / 10 \<longrightarrow> goals' ! b = goals ! b) \<and>
        (\<exists>dn. done ! b = [dn] \<and> (dn = 1 \<or> dn = 0) \<and>
           (dn = 1 \<longleftrightarrow>
              sqrt (sum_list (map (\<lambda>x. x\<^sup>2) (map2 (-) (state ! b) (goals' ! b)))) < 1 / 10 ^ 5) \<and>
           reward ! b = [- (1 - dn)] \<and> (reward ! b = [0] \<longleftrightarrow> dn = 1) \<and>
           (reward ! b = [- 1] \<longleftrightarrow> dn = 0)))"
    by (rule relabel_rows_spec[OF lg]) (rule lw)
  then obtain goals' dn rw where
    r: "relabel state goals rand = Inr (goals', dn, rw)"
    and len: "length goals' = length state" "length dn = length state"
      "length rw = length state"
    and rows: "\<forall>b < length state.
        (\<exists>sm tm. fst (goal_masks (length state) rand) ! b = [sm] \<and>
                 snd (goal_masks (length state) rand) ! b = [tm] \<and>
                 sm + tm = 1 \<and> (sm = 1 \<longleftrightarrow> rand b > 9 / 10) \<and> (sm = 0 \<longleftrightarrow> \<not> rand b > 9 / 10)) \<and>
        (rand b > 9 / 10 \<longrightarrow> goals' ! b = state ! b) \<and>
        (\<not> rand b > 9 / 10 \<longrightarrow> goals' ! b = goals ! b) \<and>
        (rand b = 9 / 10 \<longrightarrow> goals' ! b = goals ! b) \<and>
        (\<exists>d. dn ! b = [d] \<and> (d = 1 \<or> d = 0) \<and>
           (d = 1 \<longleftrightarrow>
              sqrt (sum_list (map (\<lambda>x. x\<^sup>2) (map2 (-) (state ! b) (goals' ! b)))) < 1 / 10 ^ 5) \<and>
           rw ! b = [- (1 - d)] \<and> (rw ! b = [0] \<longleftrightarrow> d = 1) \<and>
           (rw ! b = [- 1] \<longleftrightarrow> d = 0))"
    by (elim exE conjE) (rule that; assumption)
  have tr: "DistSAC_train opt self (state, action, reward0, next_state, done0, goals, extra0)
         rand randn_c randn_a step L discount tau policy_freq target_entropy =
       (case DistSAC_fit_critic opt self randn_c state goals' action rw next_state dn
               discount step
               (L @ [\<lparr>lc_key = ''train/dist_batch_reward'', lc_value = sum_all rw,
                       lc_step = step, lc_n = int (length state)\<rparr>]) of
          Inl e \<Rightarrow> Inl e
        | Inr (s1, L1) \<Rightarrow>
            if policy_freq = 0 then Inl ZeroDivisionError
            else if step mod policy_freq = 0
            then (case DistSAC_fit_actor opt s1 randn_a state goals' target_entropy step L1 of
                    Inl e \<Rightarrow> Inl e
                  | Inr (s2, L2) \<Rightarrow>
                      Inr (s2\<lparr>critic_target :=
                             soft_update_params (critic s2) (critic_target s2) tau\<rparr>, L2))
            else Inr (s1, L1))"
    unfolding DistSAC_train_def by (simp add: r L_log_def len Let_def)
  show ?thesis
    apply (rule exI[of _ goals'], rule exI[of _ dn], rule exI[of _ rw])
    apply (intro conjI r len rows tr)
    done
qed

theorem DistSAC_train_relabels_witness:
  "length [[5], [3 :: real]] = length [[0], [0 :: real]] \<and>
   relabel [[0], [0]] [[5], [3]] (\<lambda>i. if i = 0 then 19 / 20 else 9 / 10) =
     Inr ([[0], [3]], [[1], [0]], [[0], [- 1]]) \<and>
   (\<exists>v. DistSAC_train dist_opt_ex dist_ex
           ([[0], [0]], [[0], [0]], [7, 7], [[0], [0]], [1, 1], [[5], [3]], ())
           (\<lambda>i. if i = 0 then 19 / 20 else 9 / 10) (\<lambda>b j. 0) (\<lambda>b j. 0) 7 [] (99 / 100)
           (5 / 1000) 2 None =
      Inr (dist_ex,
           [\<lparr>lc_key = ''train/dist_batch_reward'', lc_value = - 1, lc_step = 7, lc_n = 2\<rparr>,
            \<lparr>lc_key = ''train/dist_critic_loss'', lc_value = v, lc_step = 7, lc_n = 2\<rparr>]))"
proof -
  let ?state = "[[0], [0::real]]"
  let ?goals = "[[5], [3::real]]"
  let ?rand = "\<lambda>i::nat. if i = 0 then 19 / 20 else (9 / 10 :: real)"
  have lg: "length ?goals = length ?state" by simp
  have lw: "length (?goals ! b) = length (?state ! b)" if "b < length ?state" for b
    using that by (cases b) (auto simp: less_Suc_eq)
  have "\<exists>goals' dn rw.
     relabel ?state ?goals ?rand = Inr (goals', dn, rw) \<and>
     length goals' = length ?state \<and> length dn = length ?state \<and>
     length rw = length ?state \<and>
     (\<forall>b < length ?state.
        (\<exists>sm tm. fst (goal_masks (length ?state) ?rand) ! b = [sm] \<and>
                 snd (goal_masks (length ?state) ?rand) ! b = [tm] \<and>
                 sm + tm = 1 \<and> (sm = 1 \<longleftrightarrow> ?rand b > 9 / 10) \<and>
                 (sm = 0 \<longleftrightarrow> \<not> ?rand b > 9 / 10)) \<and>
        (?rand b > 9 / 10 \<longrightarrow> goals' ! b = ?state ! b) \<and>
        (\<not> ?rand b > 9 / 10 \<longrightarrow> goals' ! b = ?goals ! b) \<and>
        (?rand b = 9 / 10 \<longrightarrow> goals' ! b = ?goals ! b) \<and>
        (\<exists>d. dn ! b = [d] \<and> (d = 1 \<or> d = 0) \<and>
           (d = 1 \<longleftrightarrow>
              sqrt (sum_list (map (\<lambda>x. x\<^sup>2) (map2 (-) (?state ! b) (goals' ! b)))) < 1 / 10 ^ 5) \<and>
           rw ! b = [- (1 - d)] \<and> (rw ! b = [0] \<longleftrightarrow> d = 1) \<and>
           (rw ! b = [- 1] \<longleftrightarrow> d = 0))) \<and>
     DistSAC_train dist_opt_ex dist_ex
         (?state, [[0], [0]], [7, 7], [[0], [0]], [1, 1], ?goals, ())
         ?rand (\<lambda>b j. 0) (\<lambda>b j. 0) 7 [] (99 / 100) (5 / 1000) 2 None =
       (case DistSAC_fit_critic dist_opt_ex dist_ex (\<lambda>b j. 0) ?state goals' [[0], [0]] rw
               [[0], [0]] dn (99 / 100) 7
               ([] @ [\<lparr>lc_key = ''train/dist_batch_reward'', lc_value = sum_all rw,
                       lc_step = 7, lc_n = int (length ?state)\<rparr>]) of
          Inl e \<Rightarrow> Inl e
        | Inr (s1, L1) \<Rightarrow>
            if (2 :: int) = 0 then Inl ZeroDivisionError
            else if (7 :: int) mod 2 = 0
            then (case DistSAC_fit_actor dist_opt_ex s1 (\<lambda>b j. 0) ?state goals' None 7 L1 of
                    Inl e \<Rightarrow> Inl e
                  | Inr (s2, L2) \<Rightarrow>
                      Inr (s2\<lparr>critic_target :=
                             soft_update_params (critic s2) (critic_target s2) (5 / 1000)\<rparr>, L2))
            else Inr (s1, L1))"
    by (rule DistSAC_train_relabels[OF lg]) (rule lw)
  then obtain goals' dn rw where r: "relabel ?state ?goals ?rand = Inr (goals', dn, rw)"
    and l0: "length goals' = length ?state" "length dn = length ?state"
      "length rw = length ?state"
    and rows0: "\<forall>b < length ?state.
        (\<exists>sm tm. fst (goal_masks (length ?state) ?rand) ! b = [sm] \<and>
                 snd (goal_masks (length ?state) ?rand) ! b = [tm] \<and>
                 sm + tm = 1 \<and> (sm = 1 \<longleftrightarrow> ?rand b > 9 / 10) \<and>
                 (sm = 0 \<longleftrightarrow> \<not> ?rand b > 9 / 10)) \<and>
        (?rand b > 9 / 10 \<longrightarrow> goals' ! b = ?state ! b) \<and>
        (\<not> ?rand b > 9 / 10 \<longrightarrow> goals' ! b = ?goals ! b) \<and>
        (?rand b = 9 / 10 \<longrightarrow> goals' ! b = ?goals ! b) \<and>
        (\<exists>d. dn ! b = [d] \<and> (d = 1 \<or> d = 0) \<and>
           (d = 1 \<longleftrightarrow>
              sqrt (sum_list (map (\<lambda>x. x\<^sup>2) (map2 (-) (?state ! b) (goals' ! b)))) < 1 / 10 ^ 5) \<and>
           rw ! b = [- (1 - d)] \<and> (rw ! b = [0] \<longleftrightarrow> d = 1) \<and>
           (rw ! b = [- 1] \<longleftrightarrow> d = 0))"
    and tr: "DistSAC_train dist_opt_ex dist_ex
         (?state, [[0], [0]], [7, 7], [[0], [0]], [1, 1], ?goals, ())
         ?rand (\<lambda>b j. 0) (\<lambda>b j. 0) 7 [] (99 / 100) (5 / 1000) 2 None =
       (case DistSAC_fit_critic dist_opt_ex dist_ex (\<lambda>b j. 0) ?state goals' [[0], [0]] rw
               [[0], [0]] dn (99 / 100) 7
               ([] @ [\<lparr>lc_key = ''train/dist_batch_reward'', lc_value = sum_all rw,
                       lc_step = 7, lc_n = int (length ?state)\<rparr>]) of
          Inl e \<Rightarrow> Inl e
        | Inr (s1, L1) \<Rightarrow>
            if (2 :: int) = 0 then Inl ZeroDivisionError
            else if (7 :: int) mod 2 = 0
            then (case DistSAC_fit_actor dist_opt_ex s1 (\<lambda>b j. 0) ?state goals' None 7 L1 of
                    Inl e \<Rightarrow> Inl e
                  | Inr (s2, L2) \<Rightarrow>
                      Inr (s2\<lparr>critic_target :=
                             soft_update_params (critic s2) (critic_target s2) (5 / 1000)\<rparr>, L2))
            else Inr (s1, L1))"
    by (elim exE conjE) (rule that; assumption)
  have l: "length goals' = 2" "length dn = 2" "length rw = 2" using l0 by simp_all
  have row: "(?rand b > 9 / 10 \<longrightarrow> goals' ! b = ?state ! b) \<and>
        (\<not> ?rand b > 9 / 10 \<longrightarrow> goals' ! b = ?goals ! b) \<and>
        (\<exists>d. dn ! b = [d] \<and> (d = 1 \<or> d = 0) \<and>
           (d = 1 \<longleftrightarrow>
              sqrt (sum_list (map (\<lambda>x. x\<^sup>2) (map2 (-) (?state ! b) (goals' ! b)))) < 1 / 10 ^ 5) \<and>
           rw ! b = [- (1 - d)])" if "b < 2" for b
  proof -
    have "b < length ?state" using that by simp
    with rows0 show ?thesis by blast
  qed
  from row[of 0] have g0: "goals' ! 0 = [0]" by simp
  from row[of 1] have g1: "goals' ! 1 = [3]" by simp
  from row[of 0] obtain d0 where d0: "dn ! 0 = [d0]"
    "d0 = 1 \<longleftrightarrow> sqrt (sum_list (map (\<lambda>x. x\<^sup>2) (map2 (-) (?state ! 0) (goals' ! 0)))) < 1 / 10 ^ 5"
    "rw ! 0 = [- (1 - d0)]"
    by auto
  from row[of 1] obtain d1 where d1: "dn ! 1 = [d1]" "d1 = 1 \<or> d1 = 0"
    "d1 = 1 \<longleftrightarrow> sqrt (sum_list (map (\<lambda>x. x\<^sup>2) (map2 (-) (?state ! 1) (goals' ! 1)))) < 1 / 10 ^ 5"
    "rw ! 1 = [- (1 - d1)]"
    by auto
  have e0: "d0 = 1" using d0(2) g0 by simp
  have "\<not> sqrt 9 < 1 / 10 ^ 5" by (simp add: sqrt9)
  then have e1: "d1 = 0" using d1(2,3) g1 by simp
  have G: "goals' = [[0], [3]]" using list2[OF l(1)] g0 g1 by simp
  have D: "dn = [[1], [0]]" using list2[OF l(2)] d0(1) d1(1) e0 e1 by simp
  have R: "rw = [[0], [- 1]]" using list2[OF l(3)] d0(3) d1(4) e0 e1 by simp
  let ?L = "[\<lparr>lc_key = ''train/dist_batch_reward'', lc_value = - 1, lc_step = 7, lc_n = 2\<rparr>]"
  obtain v where v: "DistSAC_fit_critic dist_opt_ex dist_ex (\<lambda>b j. 0) [[0], [0]] [[0], [3]]
      [[0], [0]] [[0], [- 1]] [[0], [0]] [[1], [0]] (99 / 100) 7 ?L =
    Inr (dist_ex, ?L @ [\<lparr>lc_key = ''train/dist_critic_loss'', lc_value = v, lc_step = 7,
                         lc_n = 2\<rparr>])"
    using dist_fit_critic_ex by blast
  have t: "DistSAC_train dist_opt_ex dist_ex
           ([[0], [0]], [[0], [0]], [7, 7], [[0], [0]], [1, 1], [[5], [3]], ())
           (\<lambda>i. if i = 0 then 19 / 20 else 9 / 10) (\<lambda>b j. 0) (\<lambda>b j. 0) 7 [] (99 / 100)
           (5 / 1000) 2 None =
      Inr (dist_ex,
           [\<lparr>lc_key = ''train/dist_batch_reward'', lc_value = - 1, lc_step = 7, lc_n = 2\<rparr>,
            \<lparr>lc_key = ''train/dist_critic_loss'', lc_value = v, lc_step = 7, lc_n = 2\<rparr>])"
    unfolding tr G D R by (simp add: sum_all_def v)
  have t': "\<exists>v. DistSAC_train dist_opt_ex dist_ex
           ([[0], [0]], [[0], [0]], [7, 7], [[0], [0]], [1, 1], [[5], [3]], ())
           (\<lambda>i. if i = 0 then 19 / 20 else 9 / 10) (\<lambda>b j. 0) (\<lambda>b j. 0) 7 [] (99 / 100)
           (5 / 1000) 2 None =
      Inr (dist_ex,
           [\<lparr>lc_key = ''train/dist_batch_reward'', lc_value = - 1, lc_step = 7, lc_n = 2\<rparr>,
            \<lparr>lc_key = ''train/dist_critic_loss'', lc_value = v, lc_step = 7, lc_n = 2\<rparr>])"
    using t by blast
  show ?thesis by (intro conjI lg r[unfolded G D R] t')
qed

end
